theory Spec2Isabelle
  imports Main
begin

section \<open>Data model\<close>

text \<open>
  The embedding covers \<^verbatim>\<open>jobRepository.ts\<close> (class JobRepository) and
  \<^verbatim>\<open>queue.ts\<close> (class Queue). Dates are milliseconds as integers, priorities are
  integers, the opaque \<^verbatim>\<open>data\<close> payload is a string. An optional field
  (\<^verbatim>\<open>startedAt?\<close>) is an \<open>option\<close>.
\<close>

datatype State = INACTIVE | ACTIVE | COMPLETE | FAILURE

type_synonym Date = int

record NeDbJob =
  doc_id :: string
  doc_type :: string
  doc_priority :: int
  doc_data :: "string option"
  doc_createdAt :: Date
  doc_updatedAt :: Date
  doc_startedAt :: "Date option"
  doc_completedAt :: "Date option"
  doc_failedAt :: "Date option"
  doc_state :: "State option"
  doc_duration :: "int option"
  doc_progress :: "int option"
  doc_logs :: "string list"

text \<open>
  Modelled from the spec: \<^verbatim>\<open>job.ts\<close> is absent. A Job carries the attributes of
  section 3 of the specification and the \<^verbatim>\<open>saved\<close> flag that both constructor
  calls of \<^verbatim>\<open>queue.ts\<close> pass.
\<close>

record Job =
  job_id :: string
  job_type :: string
  job_priority :: int
  job_data :: "string option"
  job_createdAt :: Date
  job_updatedAt :: Date
  job_startedAt :: "Date option"
  job_completedAt :: "Date option"
  job_failedAt :: "Date option"
  job_state :: State
  job_duration :: "int option"
  job_progress :: "int option"
  job_logs :: "string list"
  job_saved :: bool

text \<open>
  Every \<^verbatim>\<open>throw\<close> of the source is a value of \<open>error\<close>. \<open>Err m\<close> is
  \<^verbatim>\<open>new Error(m)\<close>; \<open>UpdateRowsError n\<close> is the error of
  \<^verbatim>\<open>JobRepository.updateJob\<close>; \<open>JobNotFoundError\<close> is the one of
  \<^verbatim>\<open>Queue.removeJobById\<close>; \<open>UniqueViolationError\<close> is the store refusing an
  insert whose \<^verbatim>\<open>_id\<close> is taken. The last three are the errors of the Job methods
  of section 4.2 of the specification (a second save, an unsaved job, an illegal
  transition out of the given state).
\<close>

datatype error =
    Err string
  | UpdateRowsError nat
  | JobNotFoundError string
  | UniqueViolationError string
  | AlreadySavedError
  | NotSavedError
  | IllegalTransitionError State

definition digit_char :: "nat \<Rightarrow> char" where
  "digit_char n = char_of (48 + n)"

function show_nat :: "nat \<Rightarrow> string" where
  "show_nat n = (if n < 10 then [digit_char n] else show_nat (n div 10) @ [digit_char (n mod 10)])"
  by pat_completeness auto
termination
  by (relation "measure (\<lambda>n. n)") auto

declare show_nat.simps [simp del]

definition error_message :: "error \<Rightarrow> string" where
  "error_message e =
     (case e of
        Err m \<Rightarrow> m
      | UpdateRowsError n \<Rightarrow>
          ''update unexpected number of rows. (expected: 1, actual: '' @ show_nat n @ '')''
      | JobNotFoundError i \<Rightarrow> ''Job(id:'' @ i @ '') is not found.''
      | UniqueViolationError i \<Rightarrow> ''unique constraint violated: '' @ i
      | AlreadySavedError \<Rightarrow> ''already saved''
      | NotSavedError \<Rightarrow> ''not saved''
      | IllegalTransitionError s \<Rightarrow> ''illegal state transition'')"

section \<open>The document store\<close>

text \<open>
  The store (nedb) is an external collaborator. Its documents are a list, in the order
  in which the store enumerates them. A query keeps the matching documents, a sort is a
  stable sort by the comparator built from the sort criteria (each a key and a direction,
  compared in order, the first non-zero comparison deciding), \<^verbatim>\<open>limit(1)\<close> keeps the
  first document. An update or a removal with options \<^verbatim>\<open>{}\<close> touches the first
  matching document only and reports the number of documents it touched.
\<close>

definition compareThings :: "int \<Rightarrow> int \<Rightarrow> int" where
  "compareThings a b = (if a < b then - 1 else if a > b then 1 else 0)"

fun sort_compare :: "((NeDbJob \<Rightarrow> int) \<times> int) list \<Rightarrow> NeDbJob \<Rightarrow> NeDbJob \<Rightarrow> int" where
  "sort_compare [] a b = 0"
| "sort_compare ((key, dir) # cs) a b =
     (if dir * compareThings (key a) (key b) \<noteq> 0
      then dir * compareThings (key a) (key b)
      else sort_compare cs a b)"

fun insert_sorted :: "('a \<Rightarrow> 'a \<Rightarrow> int) \<Rightarrow> 'a \<Rightarrow> 'a list \<Rightarrow> 'a list" where
  "insert_sorted cmp x [] = [x]"
| "insert_sorted cmp x (y # ys) =
     (if cmp x y \<le> 0 then x # y # ys else y # insert_sorted cmp x ys)"

fun stable_sort :: "('a \<Rightarrow> 'a \<Rightarrow> int) \<Rightarrow> 'a list \<Rightarrow> 'a list" where
  "stable_sort cmp [] = []"
| "stable_sort cmp (x # xs) = insert_sorted cmp x (stable_sort cmp xs)"

definition db_sort :: "((NeDbJob \<Rightarrow> int) \<times> int) list \<Rightarrow> NeDbJob list \<Rightarrow> NeDbJob list" where
  "db_sort criteria ds = stable_sort (sort_compare criteria) ds"

fun db_findOne :: "(NeDbJob \<Rightarrow> bool) \<Rightarrow> NeDbJob list \<Rightarrow> NeDbJob option" where
  "db_findOne q [] = None"
| "db_findOne q (d # ds) = (if q d then Some d else db_findOne q ds)"

fun db_update :: "(NeDbJob \<Rightarrow> bool) \<Rightarrow> (NeDbJob \<Rightarrow> NeDbJob) \<Rightarrow> NeDbJob list \<Rightarrow> nat \<times> NeDbJob list" where
  "db_update q f [] = (0, [])"
| "db_update q f (d # ds) =
     (if q d then (1, f d # ds)
      else (fst (db_update q f ds), d # snd (db_update q f ds)))"

fun db_remove :: "(NeDbJob \<Rightarrow> bool) \<Rightarrow> NeDbJob list \<Rightarrow> nat \<times> NeDbJob list" where
  "db_remove q [] = (0, [])"
| "db_remove q (d # ds) =
     (if q d then (1, ds)
      else (fst (db_remove q ds), d # snd (db_remove q ds)))"

section \<open>JobRepository\<close>

text \<open>
  A repository holds the documents, the log of the calls made to the store, and the
  outcomes of the store's coming calls: \<open>Some e\<close> at the head of \<open>faults\<close> makes the
  next call fail with \<open>e\<close> (an I/O failure); \<open>None\<close>, or an empty list, lets it run.
\<close>

datatype dbop = OpLoad | OpFind | OpFindOne | OpCount | OpInsert | OpUpdate | OpRemove

record JobRepository =
  docs :: "NeDbJob list"
  faults :: "error option list"
  oplog :: "dbop list"

definition store_call :: "dbop \<Rightarrow> JobRepository \<Rightarrow> error option \<times> JobRepository" where
  "store_call op r =
     (case faults r of
        [] \<Rightarrow> (None, r\<lparr>oplog := oplog r @ [op]\<rparr>)
      | f # fs \<Rightarrow> (f, r\<lparr>faults := fs, oplog := oplog r @ [op]\<rparr>))"

definition JobRepository_init :: "JobRepository \<Rightarrow> (error + unit) \<times> JobRepository" where
  "JobRepository_init r =
     (case store_call OpLoad r of
        (Some e, r') \<Rightarrow> (Inl e, r')
      | (None, r') \<Rightarrow> (Inr (), r'))"

definition JobRepository_listJobs ::
  "State option \<Rightarrow> JobRepository \<Rightarrow> (error + NeDbJob list) \<times> JobRepository" where
  "JobRepository_listJobs state r =
     (case store_call OpFind r of
        (Some e, r') \<Rightarrow> (Inl e, r')
      | (None, r') \<Rightarrow>
          (Inr (db_sort [(doc_createdAt, 1)]
                  (filter (\<lambda>d. state = None \<or> doc_state d = state) (docs r'))), r'))"

definition JobRepository_findJob ::
  "string \<Rightarrow> JobRepository \<Rightarrow> (error + NeDbJob option) \<times> JobRepository" where
  "JobRepository_findJob i r =
     (case store_call OpFindOne r of
        (Some e, r') \<Rightarrow> (Inl e, r')
      | (None, r') \<Rightarrow> (Inr (db_findOne (\<lambda>d. doc_id d = i) (docs r')), r'))"

definition JobRepository_findInactiveJobByType ::
  "string \<Rightarrow> JobRepository \<Rightarrow> (error + NeDbJob option) \<times> JobRepository" where
  "JobRepository_findInactiveJobByType ty r =
     (case store_call OpFind r of
        (Some e, r') \<Rightarrow> (Inl e, r')
      | (None, r') \<Rightarrow>
          (case take 1 (db_sort [(doc_priority, - 1), (doc_createdAt, 1)]
                  (filter (\<lambda>d. doc_type d = ty \<and> doc_state d = Some INACTIVE) (docs r'))) of
             [] \<Rightarrow> (Inr None, r')
           | d # _ \<Rightarrow> (Inr (Some d), r')))"

definition JobRepository_isExistJob ::
  "string \<Rightarrow> JobRepository \<Rightarrow> (error + bool) \<times> JobRepository" where
  "JobRepository_isExistJob i r =
     (case store_call OpCount r of
        (Some e, r') \<Rightarrow> (Inl e, r')
      | (None, r') \<Rightarrow> (Inr (length (filter (\<lambda>d. doc_id d = i) (docs r')) = 1), r'))"

definition insertDoc :: "Job \<Rightarrow> NeDbJob" where
  "insertDoc job =
     \<lparr> doc_id = job_id job, doc_type = job_type job, doc_priority = job_priority job,
       doc_data = job_data job, doc_createdAt = job_createdAt job,
       doc_updatedAt = job_updatedAt job, doc_startedAt = None, doc_completedAt = None,
       doc_failedAt = None, doc_state = Some (job_state job), doc_duration = None,
       doc_progress = None, doc_logs = job_logs job \<rparr>"

definition JobRepository_addJob ::
  "Job \<Rightarrow> JobRepository \<Rightarrow> (error + NeDbJob) \<times> JobRepository" where
  "JobRepository_addJob job r =
     (case store_call OpInsert r of
        (Some e, r') \<Rightarrow> (Inl e, r')
      | (None, r') \<Rightarrow>
          (if job_id job \<in> set (map doc_id (docs r'))
           then (Inl (UniqueViolationError (job_id job)), r')
           else (Inr (insertDoc job), r'\<lparr>docs := docs r' @ [insertDoc job]\<rparr>)))"

definition updateQuery :: "Job \<Rightarrow> NeDbJob \<Rightarrow> NeDbJob" where
  "updateQuery job d =
     d\<lparr> doc_priority := job_priority job, doc_data := job_data job,
        doc_createdAt := job_createdAt job, doc_updatedAt := job_updatedAt job,
        doc_startedAt := job_startedAt job, doc_completedAt := job_completedAt job,
        doc_failedAt := job_failedAt job, doc_state := Some (job_state job),
        doc_duration := job_duration job, doc_progress := job_progress job,
        doc_logs := job_logs job \<rparr>"

definition JobRepository_updateJob ::
  "Job \<Rightarrow> JobRepository \<Rightarrow> (error + unit) \<times> JobRepository" where
  "JobRepository_updateJob job r =
     (case store_call OpUpdate r of
        (Some e, r') \<Rightarrow> (Inl e, r')
      | (None, r') \<Rightarrow>
          (case db_update (\<lambda>d. doc_id d = job_id job) (updateQuery job) (docs r') of
             (numAffected, ds) \<Rightarrow>
               (if numAffected \<noteq> 1
                then (Inl (UpdateRowsError numAffected), r'\<lparr>docs := ds\<rparr>)
                else (Inr (), r'\<lparr>docs := ds\<rparr>))))"

definition JobRepository_removeJob ::
  "string \<Rightarrow> JobRepository \<Rightarrow> (error + unit) \<times> JobRepository" where
  "JobRepository_removeJob i r =
     (case store_call OpRemove r of
        (Some e, r') \<Rightarrow> (Inl e, r')
      | (None, r') \<Rightarrow> (Inr (), r'\<lparr>docs := snd (db_remove (\<lambda>d. doc_id d = i) (docs r'))\<rparr>))"

section \<open>Queue: state\<close>

text \<open>
  The enum Priority is in \<^verbatim>\<open>priority.ts\<close>, which is absent. Its five values are
  taken from the persisted document schema of the specification: LOW = 10, NORMAL = 0,
  MEDIUM = -5, HIGH = -10, CRITICAL = -15.
\<close>

text \<open>Modelled from the spec: \<^verbatim>\<open>Priority.LOW\<close>, absent with \<^verbatim>\<open>priority.ts\<close>.\<close>

definition Priority_LOW :: int where "Priority_LOW = 10"

text \<open>Modelled from the spec: \<^verbatim>\<open>Priority.NORMAL\<close>, absent with \<^verbatim>\<open>priority.ts\<close>.\<close>

definition Priority_NORMAL :: int where "Priority_NORMAL = 0"

text \<open>Modelled from the spec: \<^verbatim>\<open>Priority.MEDIUM\<close>, absent with \<^verbatim>\<open>priority.ts\<close>.\<close>

definition Priority_MEDIUM :: int where "Priority_MEDIUM = - 5"

text \<open>Modelled from the spec: \<^verbatim>\<open>Priority.HIGH\<close>, absent with \<^verbatim>\<open>priority.ts\<close>.\<close>

definition Priority_HIGH :: int where "Priority_HIGH = - 10"

text \<open>Modelled from the spec: \<^verbatim>\<open>Priority.CRITICAL\<close>, absent with \<^verbatim>\<open>priority.ts\<close>.\<close>

definition Priority_CRITICAL :: int where "Priority_CRITICAL = - 15"

text \<open>
  Modelled from the spec: \<^verbatim>\<open>worker.ts\<close> is absent. A Worker is an object with an
  identity and the job type it is bound to; the calls the Queue makes on it
  (\<^verbatim>\<open>start\<close>, \<^verbatim>\<open>shutdown\<close>) are logged.
\<close>

record Worker =
  worker_id :: nat
  worker_type :: string

datatype workercall = WorkerStart nat | WorkerShutdown nat int

text \<open>
  A waiting request holds the \<^verbatim>\<open>resolve\<close> and \<^verbatim>\<open>reject\<close> of one pending
  promise, named by its number, and the closure \<^verbatim>\<open>stillRequest\<close>, which reads the
  state of its host (the worker that asked).
\<close>

record 'e WaitingWorkerRequest =
  promise :: nat
  stillRequest :: "'e \<Rightarrow> bool"

datatype warning = InvalidPriority int

datatype event = ErrorEvent error "Job option" | FailureEvent Job error

datatype mutexop = Acquire | Release

text \<open>
  The state of a Queue and of what it acts on: the repository; the worker registry
  \<^verbatim>\<open>_workers\<close>, a reference into a heap of arrays (an array is mutable and can be
  shared, so it lives at an address); the waiting requests by job type; the acquisitions
  and releases of \<^verbatim>\<open>requestJobForProcessingMutex\<close>; the events emitted; the warnings
  printed; the callbacks given to \<^verbatim>\<open>process.nextTick\<close> (each resolves a promise
  with a job) and the promises resolved so far; the number of promises made; the clock
  (\<open>clock q n\<close> is what the \<open>n\<close>-th \<^verbatim>\<open>new Date()\<close> reads); the host state that the
  \<^verbatim>\<open>stillRequest\<close> closures read.
  A method call runs to its end without interleaving with another.
\<close>

record 'e Queue =
  repository :: JobRepository
  workers_ref :: nat
  arrays :: "Worker list list"
  waitingRequests :: "string \<Rightarrow> 'e WaitingWorkerRequest list option"
  mutex_log :: "mutexop list"
  emitted :: "event list"
  warned :: "warning list"
  nextTick :: "(nat \<times> Job) list"
  resolved :: "(nat \<times> Job) list"
  promises :: nat
  clock :: "nat \<Rightarrow> Date"
  ticks :: nat
  host :: 'e
  worker_calls :: "workercall list"
  next_worker :: nat

definition emit :: "event \<Rightarrow> 'e Queue \<Rightarrow> 'e Queue" where
  "emit ev q = q\<lparr>emitted := emitted q @ [ev]\<rparr>"

definition new_Date :: "'e Queue \<Rightarrow> Date \<times> 'e Queue" where
  "new_Date q = (clock q (ticks q), q\<lparr>ticks := Suc (ticks q)\<rparr>)"

text \<open>
  \<^verbatim>\<open>try { body } catch (error) { this.emit(Event.Error, error, job); throw error; }\<close>
\<close>

definition catch_emit ::
  "Job option \<Rightarrow> ('e Queue \<Rightarrow> (error + 'a) \<times> 'e Queue) \<Rightarrow> 'e Queue \<Rightarrow> (error + 'a) \<times> 'e Queue" where
  "catch_emit job body q =
     (case body q of
        (Inl e, q') \<Rightarrow> (Inl e, emit (ErrorEvent e job) q')
      | (Inr a, q') \<Rightarrow> (Inr a, q'))"

section \<open>Queue: priorities and Job construction\<close>

definition sanitizePriority :: "int \<Rightarrow> int \<times> warning list" where
  "sanitizePriority priority =
     (if priority = Priority_LOW \<or> priority = Priority_NORMAL \<or> priority = Priority_MEDIUM
         \<or> priority = Priority_HIGH \<or> priority = Priority_CRITICAL
      then (priority, [])
      else (Priority_NORMAL, [InvalidPriority priority]))"

text \<open>
  The object that both \<^verbatim>\<open>new Job(...)\<close> of \<^verbatim>\<open>queue.ts\<close> pass to the constructor:
  \<^verbatim>\<open>createJob\<close> passes the caller's optional priority and no state,
  \<^verbatim>\<open>convertNeDbJobToJob\<close> the sanitized priority and the document's optional state.
\<close>

record JobConstructorData =
  c_id :: string
  c_type :: string
  c_priority :: "int option"
  c_data :: "string option"
  c_createdAt :: Date
  c_updatedAt :: Date
  c_startedAt :: "Date option"
  c_completedAt :: "Date option"
  c_failedAt :: "Date option"
  c_state :: "State option"
  c_duration :: "int option"
  c_progress :: "int option"
  c_logs :: "string list"
  c_saved :: bool

text \<open>
  Modelled from the spec: the constructor of Job (\<^verbatim>\<open>job.ts\<close>) is absent. It keeps the
  attributes it is given; section 4.4 (createJob) of the specification: a job made without
  a state is INACTIVE, one made without a priority has NORMAL. It does not sanitize:
  \<^verbatim>\<open>Queue.sanitizePriority\<close> is a protected static method of Queue, which only
  \<^verbatim>\<open>convertNeDbJobToJob\<close> calls, before it constructs the Job.
\<close>

definition new_Job :: "JobConstructorData \<Rightarrow> Job" where
  "new_Job c =
     \<lparr> job_id = c_id c, job_type = c_type c,
       job_priority = (case c_priority c of None \<Rightarrow> Priority_NORMAL | Some p \<Rightarrow> p),
       job_data = c_data c,
       job_createdAt = c_createdAt c, job_updatedAt = c_updatedAt c,
       job_startedAt = c_startedAt c, job_completedAt = c_completedAt c,
       job_failedAt = c_failedAt c,
       job_state = (case c_state c of None \<Rightarrow> INACTIVE | Some s \<Rightarrow> s),
       job_duration = c_duration c, job_progress = c_progress c,
       job_logs = c_logs c, job_saved = c_saved c \<rparr>"

definition convertNeDbJobToJob :: "NeDbJob \<Rightarrow> 'e Queue \<Rightarrow> Job \<times> 'e Queue" where
  "convertNeDbJobToJob neDbJob q =
     (case sanitizePriority (doc_priority neDbJob) of
        (p, ws) \<Rightarrow>
          (new_Job
             \<lparr> c_id = doc_id neDbJob, c_type = doc_type neDbJob, c_priority = Some p,
               c_data = doc_data neDbJob, c_createdAt = doc_createdAt neDbJob,
               c_updatedAt = doc_updatedAt neDbJob, c_startedAt = doc_startedAt neDbJob,
               c_completedAt = doc_completedAt neDbJob, c_failedAt = doc_failedAt neDbJob,
               c_state = doc_state neDbJob, c_duration = doc_duration neDbJob,
               c_progress = doc_progress neDbJob, c_logs = doc_logs neDbJob,
               c_saved = True \<rparr>,
           q\<lparr>warned := warned q @ ws\<rparr>))"

section \<open>Queue: persistence of one Job\<close>

definition Queue_isExistJob :: "Job \<Rightarrow> 'e Queue \<Rightarrow> (error + bool) \<times> 'e Queue" where
  "Queue_isExistJob job q =
     (case JobRepository_isExistJob (job_id job) (repository q) of
        (res, r) \<Rightarrow> (res, q\<lparr>repository := r\<rparr>))"

definition Queue_updateJob :: "Job \<Rightarrow> 'e Queue \<Rightarrow> (error + unit) \<times> 'e Queue" where
  "Queue_updateJob job q =
     catch_emit (Some job)
       (\<lambda>q. case JobRepository_updateJob job (repository q) of
               (res, r) \<Rightarrow> (res, q\<lparr>repository := r\<rparr>)) q"

definition Queue_removeJob :: "Job \<Rightarrow> 'e Queue \<Rightarrow> (error + unit) \<times> 'e Queue" where
  "Queue_removeJob job q =
     catch_emit (Some job)
       (\<lambda>q. case JobRepository_removeJob (job_id job) (repository q) of
               (res, r) \<Rightarrow> (res, q\<lparr>repository := r\<rparr>)) q"

text \<open>
  The methods of Job are in \<^verbatim>\<open>job.ts\<close>, which is absent; those that the Queue calls
  are modelled from section 4.2 of the specification. A Job persists through the Queue
  (\<^verbatim>\<open>Queue.updateJob\<close>, \<^verbatim>\<open>Queue.removeJob\<close>, \<^verbatim>\<open>Queue.addJob\<close>, which the
  source marks as package methods). An illegal transition fails and changes nothing. A
  method that changes the Job returns it as the call leaves it.
\<close>

text \<open>
  Modelled from the spec: \<^verbatim>\<open>Job.update\<close> (\<^verbatim>\<open>job.ts\<close>, absent) persists the current
  attributes; it fails if the job is not yet saved or if its row has been removed.
\<close>

definition Job_update :: "Job \<Rightarrow> 'e Queue \<Rightarrow> (error + unit) \<times> 'e Queue" where
  "Job_update job q =
     (if \<not> job_saved job then (Inl NotSavedError, q) else Queue_updateJob job q)"

text \<open>
  Modelled from the spec: \<^verbatim>\<open>Job.remove\<close> (\<^verbatim>\<open>job.ts\<close>, absent) deletes from storage;
  it fails if the job is not saved.
\<close>

definition Job_remove :: "Job \<Rightarrow> 'e Queue \<Rightarrow> (error + unit) \<times> 'e Queue" where
  "Job_remove job q =
     (if \<not> job_saved job then (Inl NotSavedError, q) else Queue_removeJob job q)"

text \<open>
  Modelled from the spec: \<^verbatim>\<open>Job.setStateToActive\<close> (\<^verbatim>\<open>job.ts\<close>, absent) is legal
  only from INACTIVE; it sets state = ACTIVE, startedAt = now, updatedAt = now, and
  persists; it fails otherwise.
\<close>

definition Job_setStateToActive :: "Job \<Rightarrow> 'e Queue \<Rightarrow> (error + Job) \<times> 'e Queue" where
  "Job_setStateToActive job q =
     (if job_state job \<noteq> INACTIVE then (Inl (IllegalTransitionError (job_state job)), q)
      else
        (case new_Date q of
           (now, q1) \<Rightarrow>
             (case Job_update
                     (job\<lparr>job_state := ACTIVE, job_startedAt := Some now, job_updatedAt := now\<rparr>) q1 of
                (Inl e, q2) \<Rightarrow> (Inl e, q2)
              | (Inr _, q2) \<Rightarrow>
                  (Inr (job\<lparr>job_state := ACTIVE, job_startedAt := Some now,
                            job_updatedAt := now\<rparr>), q2))))"

text \<open>
  Modelled from the spec: the attributes that \<^verbatim>\<open>Job.setStateToFailure\<close> (\<^verbatim>\<open>job.ts\<close>,
  absent) sets: state = FAILURE, failedAt = now, duration = failedAt - startedAt (none
  when the job has no startedAt), and the error's message appended to the logs.
\<close>

definition failed_job :: "Job \<Rightarrow> error \<Rightarrow> Date \<Rightarrow> Job" where
  "failed_job job err now =
     job\<lparr> job_state := FAILURE, job_failedAt := Some now,
          job_duration := (case job_startedAt job of None \<Rightarrow> None | Some s \<Rightarrow> Some (now - s)),
          job_logs := job_logs job @ [error_message err] \<rparr>"

text \<open>
  Modelled from the spec: \<^verbatim>\<open>Job.setStateToFailure\<close> (\<^verbatim>\<open>job.ts\<close>, absent) is legal
  from ACTIVE; it sets the attributes above, persists, and emits Failure with the error.
\<close>

definition Job_setStateToFailure :: "Job \<Rightarrow> error \<Rightarrow> 'e Queue \<Rightarrow> (error + Job) \<times> 'e Queue" where
  "Job_setStateToFailure job err q =
     (if job_state job \<noteq> ACTIVE then (Inl (IllegalTransitionError (job_state job)), q)
      else
        (case new_Date q of
           (now, q1) \<Rightarrow>
             (case Job_update (failed_job job err now) q1 of
                (Inl e, q2) \<Rightarrow> (Inl e, q2)
              | (Inr _, q2) \<Rightarrow>
                  (Inr (failed_job job err now),
                   emit (FailureEvent (failed_job job err now) err) q2))))"

section \<open>Queue: the public methods\<close>

text \<open>
  \<^verbatim>\<open>Queue.addJob\<close>. The \<^verbatim>\<open>while\<close> loop shifts waiting requests off the head of the
  list until one still requests or the list is empty; \<open>shift_requests\<close> returns the
  request found, if any, and the list that is left.
\<close>

fun shift_requests ::
  "'e \<Rightarrow> 'e WaitingWorkerRequest list \<Rightarrow> 'e WaitingWorkerRequest option \<times> 'e WaitingWorkerRequest list" where
  "shift_requests h [] = (None, [])"
| "shift_requests h (headRequest # rest) =
     (if stillRequest headRequest h then (Some headRequest, rest) else shift_requests h rest)"

definition addJob_body :: "Job \<Rightarrow> 'e Queue \<Rightarrow> (error + unit) \<times> 'e Queue" where
  "addJob_body job q =
     (case JobRepository_addJob job (repository q) of
        (Inl e, r) \<Rightarrow> (Inl e, q\<lparr>repository := r\<rparr>)
      | (Inr neDbJob, r) \<Rightarrow>
          (case waitingRequests q (job_type job) of
             None \<Rightarrow> (Inr (), q\<lparr>repository := r\<rparr>)
           | Some ws \<Rightarrow>
               (case shift_requests (host q) ws of
                  (None, rest) \<Rightarrow>
                    (Inr (), q\<lparr>repository := r,
                               waitingRequests := (waitingRequests q)(job_type job \<mapsto> rest)\<rparr>)
                | (Some processRequest, rest) \<Rightarrow>
                    (case convertNeDbJobToJob neDbJob
                            (q\<lparr>repository := r,
                               waitingRequests := (waitingRequests q)(job_type job \<mapsto> rest)\<rparr>) of
                       (addedJob, q1) \<Rightarrow>
                         (case Job_setStateToActive addedJob q1 of
                            (Inl e, q2) \<Rightarrow> (Inl e, q2)
                          | (Inr activeJob, q2) \<Rightarrow>
                              (Inr (), q2\<lparr>nextTick :=
                                 nextTick q2 @ [(promise processRequest, activeJob)]\<rparr>))))))"

definition Queue_addJob :: "Job \<Rightarrow> 'e Queue \<Rightarrow> (error + unit) \<times> 'e Queue" where
  "Queue_addJob job q = catch_emit (Some job) (addJob_body job) q"

text \<open>The event loop reaching its next tick runs the deferred callbacks.\<close>

definition run_nextTick :: "'e Queue \<Rightarrow> 'e Queue" where
  "run_nextTick q = q\<lparr>resolved := resolved q @ nextTick q, nextTick := []\<rparr>"

text \<open>
  Modelled from the spec: \<^verbatim>\<open>Job.save\<close> (\<^verbatim>\<open>job.ts\<close>) is absent. Section 4.2: the
  first call inserts, a later call fails with "already saved"; it returns the job.
\<close>

definition Job_save :: "Job \<Rightarrow> 'e Queue \<Rightarrow> (error + Job) \<times> 'e Queue" where
  "Job_save job q =
     (if job_saved job then (Inl AlreadySavedError, q)
      else
        (case Queue_addJob job q of
           (Inl e, q') \<Rightarrow> (Inl e, q')
         | (Inr _, q') \<Rightarrow> (Inr (job\<lparr>job_saved := True\<rparr>), q')))"

text \<open>
  \<^verbatim>\<open>Queue.createJob\<close>. \<^verbatim>\<open>CreateJobData\<close> is a type, an optional priority and an
  optional payload; \<open>new_id\<close> is what \<^verbatim>\<open>uuid()\<close> returns.
\<close>

definition Queue_createJob ::
  "string \<Rightarrow> string \<Rightarrow> int option \<Rightarrow> string option \<Rightarrow> 'e Queue \<Rightarrow> (error + Job) \<times> 'e Queue" where
  "Queue_createJob new_id ty priority data q =
     (case new_Date q of
        (now, q1) \<Rightarrow>
          Job_save
            (new_Job
               \<lparr> c_id = new_id, c_type = ty, c_priority = priority, c_data = data,
                 c_createdAt = now, c_updatedAt = now, c_startedAt = None,
                 c_completedAt = None, c_failedAt = None, c_state = None,
                 c_duration = None, c_progress = None, c_logs = [], c_saved = False \<rparr>)
            q1)"

definition Queue_findJob :: "string \<Rightarrow> 'e Queue \<Rightarrow> (error + Job option) \<times> 'e Queue" where
  "Queue_findJob i q =
     catch_emit None
       (\<lambda>q. case JobRepository_findJob i (repository q) of
               (Inl e, r) \<Rightarrow> (Inl e, q\<lparr>repository := r\<rparr>)
             | (Inr None, r) \<Rightarrow> (Inr None, q\<lparr>repository := r\<rparr>)
             | (Inr (Some neDbJob), r) \<Rightarrow>
                 (case convertNeDbJobToJob neDbJob (q\<lparr>repository := r\<rparr>) of
                    (job, q') \<Rightarrow> (Inr (Some job), q'))) q"

fun convert_all :: "NeDbJob list \<Rightarrow> 'e Queue \<Rightarrow> Job list \<times> 'e Queue" where
  "convert_all [] q = ([], q)"
| "convert_all (neDbJob # ds) q =
     (case convertNeDbJobToJob neDbJob q of
        (job, q1) \<Rightarrow> (case convert_all ds q1 of (jobs, q2) \<Rightarrow> (job # jobs, q2)))"

definition Queue_listJobs :: "State option \<Rightarrow> 'e Queue \<Rightarrow> (error + Job list) \<times> 'e Queue" where
  "Queue_listJobs state q =
     catch_emit None
       (\<lambda>q. case JobRepository_listJobs state (repository q) of
               (Inl e, r) \<Rightarrow> (Inl e, q\<lparr>repository := r\<rparr>)
             | (Inr ds, r) \<Rightarrow>
                 (case convert_all ds (q\<lparr>repository := r\<rparr>) of
                    (jobs, q') \<Rightarrow> (Inr jobs, q'))) q"

definition Queue_removeJobById :: "string \<Rightarrow> 'e Queue \<Rightarrow> (error + unit) \<times> 'e Queue" where
  "Queue_removeJobById i q =
     (case JobRepository_findJob i (repository q) of
        (Inl e, r) \<Rightarrow> (Inl e, emit (ErrorEvent e None) (q\<lparr>repository := r\<rparr>))
      | (Inr None, r) \<Rightarrow> (Inl (JobNotFoundError i), q\<lparr>repository := r\<rparr>)
      | (Inr (Some neDbJob), r) \<Rightarrow>
          (case convertNeDbJobToJob neDbJob (q\<lparr>repository := r\<rparr>) of
             (job, q1) \<Rightarrow> catch_emit (Some job) (Job_remove job) q1))"

text \<open>
  \<^verbatim>\<open>Queue.removeJobsByCallback\<close>. The callback is user code: it answers or throws.
  The loop's error comes with the value the variable \<^verbatim>\<open>job\<close> has when it is caught.
\<close>

fun remove_loop ::
  "(Job \<Rightarrow> error + bool) \<Rightarrow> NeDbJob list \<Rightarrow> Job list \<Rightarrow> 'e Queue
     \<Rightarrow> ((error \<times> Job option) + Job list) \<times> 'e Queue" where
  "remove_loop callback [] removedJobs q = (Inr removedJobs, q)"
| "remove_loop callback (neDbJob # ds) removedJobs q =
     (case convertNeDbJobToJob neDbJob q of
        (job, q1) \<Rightarrow>
          (case callback job of
             Inl e \<Rightarrow> (Inl (e, Some job), q1)
           | Inr False \<Rightarrow> remove_loop callback ds removedJobs q1
           | Inr True \<Rightarrow>
               (case Job_remove job q1 of
                  (Inl e, q2) \<Rightarrow> (Inl (e, Some job), q2)
                | (Inr _, q2) \<Rightarrow> remove_loop callback ds (removedJobs @ [job]) q2)))"

definition Queue_removeJobsByCallback ::
  "(Job \<Rightarrow> error + bool) \<Rightarrow> 'e Queue \<Rightarrow> (error + Job list) \<times> 'e Queue" where
  "Queue_removeJobsByCallback callback q =
     (case JobRepository_listJobs None (repository q) of
        (Inl e, r) \<Rightarrow> (Inl e, emit (ErrorEvent e None) (q\<lparr>repository := r\<rparr>))
      | (Inr neDbJobs, r) \<Rightarrow>
          (case remove_loop callback neDbJobs [] (q\<lparr>repository := r\<rparr>) of
             (Inl (e, job), q') \<Rightarrow> (Inl e, emit (ErrorEvent e job) q')
           | (Inr removedJobs, q') \<Rightarrow> (Inr removedJobs, q')))"

text \<open>
  \<^verbatim>\<open>Queue.requestJobForProcessing\<close>. The promise it returns is pending (the request
  waits in the list), or settled with a job or with \<^verbatim>\<open>null\<close>, or rejected.
\<close>

datatype request_result = Pending nat | Settled "Job option"

definition push_request ::
  "string \<Rightarrow> 'e WaitingWorkerRequest list \<Rightarrow> ('e \<Rightarrow> bool) \<Rightarrow> 'e Queue \<Rightarrow> 'e Queue" where
  "push_request ty ws stillReq q =
     q\<lparr> waitingRequests :=
          (waitingRequests q)(ty \<mapsto> ws @ [\<lparr>promise = promises q, stillRequest = stillReq\<rparr>]),
        promises := Suc (promises q) \<rparr>"

definition request_body ::
  "string \<Rightarrow> ('e \<Rightarrow> bool) \<Rightarrow> 'e Queue \<Rightarrow> (error + request_result) \<times> 'e Queue" where
  "request_body ty stillReq q =
     (case JobRepository_findInactiveJobByType ty (repository q) of
        (Inl e, r) \<Rightarrow> (Inl e, q\<lparr>repository := r\<rparr>)
      | (Inr None, r) \<Rightarrow>
          (Inr (Pending (promises q)),
           push_request ty (case waitingRequests q ty of None \<Rightarrow> [] | Some ws \<Rightarrow> ws) stillReq
             (q\<lparr>repository := r\<rparr>))
      | (Inr (Some neDbJob), r) \<Rightarrow>
          (if stillReq (host q) then
             (case convertNeDbJobToJob neDbJob (q\<lparr>repository := r\<rparr>) of
                (job, q1) \<Rightarrow>
                  (case Job_setStateToActive job q1 of
                     (Inl e, q2) \<Rightarrow> (Inl e, q2)
                   | (Inr activeJob, q2) \<Rightarrow> (Inr (Settled (Some activeJob)), q2)))
           else (Inr (Settled None), q\<lparr>repository := r\<rparr>)))"

definition Queue_requestJobForProcessing ::
  "string \<Rightarrow> ('e \<Rightarrow> bool) \<Rightarrow> 'e Queue \<Rightarrow> (error + request_result) \<times> 'e Queue" where
  "Queue_requestJobForProcessing ty stillReq q =
     (case waitingRequests q ty of
        Some (w # ws) \<Rightarrow> (Inr (Pending (promises q)), push_request ty (w # ws) stillReq q)
      | _ \<Rightarrow>
          (case catch_emit None (request_body ty stillReq)
                  (q\<lparr>mutex_log := mutex_log q @ [Acquire]\<rparr>) of
             (res, q') \<Rightarrow> (res, q'\<lparr>mutex_log := mutex_log q' @ [Release]\<rparr>)))"

section \<open>Queue: creation and crash recovery\<close>

fun fail_all :: "Job list \<Rightarrow> 'e Queue \<Rightarrow> (error + unit) \<times> 'e Queue" where
  "fail_all [] q = (Inr (), q)"
| "fail_all (job # jobs) q =
     (case Job_setStateToFailure job (Err ''unexpectedly termination'') q of
        (Inl e, q') \<Rightarrow> (Inl e, q')
      | (Inr _, q') \<Rightarrow> fail_all jobs q')"

definition Queue_cleanupAfterUnexpectedlyTermination ::
  "'e Queue \<Rightarrow> (error + unit) \<times> 'e Queue" where
  "Queue_cleanupAfterUnexpectedlyTermination q =
     (case Queue_listJobs (Some ACTIVE) q of
        (Inl e, q') \<Rightarrow> (Inl e, q')
      | (Inr jobsNeedCleanup, q') \<Rightarrow> fail_all jobsNeedCleanup q')"

text \<open>
  The constructor. The repository it creates is the store as the last process left it;
  the clock and the host state are the environment's.
\<close>

definition new_Queue :: "JobRepository \<Rightarrow> (nat \<Rightarrow> Date) \<Rightarrow> 'e \<Rightarrow> 'e Queue" where
  "new_Queue r clk h =
     \<lparr> repository = r, workers_ref = 0, arrays = [[]], waitingRequests = (\<lambda>ty. None),
       mutex_log = [], emitted = [], warned = [], nextTick = [], resolved = [],
       promises = 0, clock = clk, ticks = 0, host = h, worker_calls = [], next_worker = 0 \<rparr>"

text \<open>
  \<^verbatim>\<open>Queue.createQueue\<close>. The second component is the state the call leaves; the
  caller gets the queue when the first is \<open>Inr\<close>.
\<close>

definition Queue_createQueue ::
  "JobRepository \<Rightarrow> (nat \<Rightarrow> Date) \<Rightarrow> 'e \<Rightarrow> (error + unit) \<times> 'e Queue" where
  "Queue_createQueue r clk h =
     (case JobRepository_init (repository (new_Queue r clk h)) of
        (Inl e, r') \<Rightarrow> (Inl e, (new_Queue r clk h)\<lparr>repository := r'\<rparr>)
      | (Inr _, r') \<Rightarrow>
          Queue_cleanupAfterUnexpectedlyTermination ((new_Queue r clk h)\<lparr>repository := r'\<rparr>))"

section \<open>Queue: the worker registry\<close>

definition registry :: "'e Queue \<Rightarrow> Worker list" where
  "registry q = (if workers_ref q < length (arrays q) then arrays q ! workers_ref q else [])"

text \<open>The getter \<^verbatim>\<open>workers\<close>: a new array, with the registry's elements.\<close>

definition Queue_workers :: "'e Queue \<Rightarrow> nat \<times> 'e Queue" where
  "Queue_workers q = (length (arrays q), q\<lparr>arrays := arrays q @ [registry q]\<rparr>)"

text \<open>A write to the array at an address, whatever it makes of the array.\<close>

definition array_write :: "nat \<Rightarrow> Worker list \<Rightarrow> 'e Queue \<Rightarrow> 'e Queue" where
  "array_write a ws q = (if a < length (arrays q) then q\<lparr>arrays := (arrays q)[a := ws]\<rparr> else q)"

text \<open>
  \<^verbatim>\<open>Queue.process\<close>. The processor is user code that the Queue only hands to
  \<^verbatim>\<open>worker.start\<close>; it is left out.
\<close>

fun Queue_process :: "string \<Rightarrow> nat \<Rightarrow> 'e Queue \<Rightarrow> 'e Queue" where
  "Queue_process ty 0 q = q"
| "Queue_process ty (Suc n) q =
     Queue_process ty n
       (array_write (workers_ref q)
          (registry q @ [\<lparr>worker_id = next_worker q, worker_type = ty\<rparr>])
          (q\<lparr>next_worker := Suc (next_worker q),
             worker_calls := worker_calls q @ [WorkerStart (next_worker q)]\<rparr>))"

fun shutdown_loop :: "int \<Rightarrow> string option \<Rightarrow> Worker list \<Rightarrow> Worker list \<Rightarrow> 'e Queue \<Rightarrow> Worker list \<times> 'e Queue" where
  "shutdown_loop timeoutMilliseconds ty [] shutdownWorkers q = (shutdownWorkers, q)"
| "shutdown_loop timeoutMilliseconds ty (worker # ws) shutdownWorkers q =
     (if ty \<noteq> None \<and> Some (worker_type worker) \<noteq> ty
      then shutdown_loop timeoutMilliseconds ty ws shutdownWorkers q
      else shutdown_loop timeoutMilliseconds ty ws (shutdownWorkers @ [worker])
             (q\<lparr>worker_calls := worker_calls q
                  @ [WorkerShutdown (worker_id worker) timeoutMilliseconds]\<rparr>))"

definition Queue_shutdown :: "int \<Rightarrow> string option \<Rightarrow> 'e Queue \<Rightarrow> 'e Queue" where
  "Queue_shutdown timeoutMilliseconds ty q =
     (case shutdown_loop timeoutMilliseconds ty (registry q) [] q of
        (shutdownWorkers, q') \<Rightarrow>
          q'\<lparr> arrays := arrays q' @ [filter (\<lambda>worker. worker \<notin> set shutdownWorkers) (registry q')],
              workers_ref := length (arrays q') \<rparr>)"

section \<open>Notions used in the statements\<close>

text \<open>The outcome planned for the store's next call, and the repository after a call.\<close>

definition next_fault :: "JobRepository \<Rightarrow> error option" where
  "next_fault r = (case faults r of [] \<Rightarrow> None | f # _ \<Rightarrow> f)"

definition after_call :: "dbop \<Rightarrow> JobRepository \<Rightarrow> JobRepository" where
  "after_call op r = r\<lparr>faults := drop 1 (faults r), oplog := oplog r @ [op]\<rparr>"

definition is_inactive_of :: "string \<Rightarrow> NeDbJob \<Rightarrow> bool" where
  "is_inactive_of ty d = (doc_type d = ty \<and> doc_state d = Some INACTIVE)"

text \<open>The number of rows the update of \<^verbatim>\<open>JobRepository.updateJob\<close> affects.\<close>

definition affected_rows :: "Job \<Rightarrow> JobRepository \<Rightarrow> nat" where
  "affected_rows job r =
     fst (db_update (\<lambda>d. doc_id d = job_id job) (updateQuery job) (docs r))"

definition is_known_priority :: "int \<Rightarrow> bool" where
  "is_known_priority p =
     (p \<in> {Priority_LOW, Priority_NORMAL, Priority_MEDIUM, Priority_HIGH, Priority_CRITICAL})"

text \<open>The Job that \<^verbatim>\<open>convertNeDbJobToJob\<close> makes of a document.\<close>

definition doc_to_job :: "NeDbJob \<Rightarrow> Job" where
  "doc_to_job d =
     \<lparr> job_id = doc_id d, job_type = doc_type d,
       job_priority = fst (sanitizePriority (doc_priority d)), job_data = doc_data d,
       job_createdAt = doc_createdAt d, job_updatedAt = doc_updatedAt d,
       job_startedAt = doc_startedAt d, job_completedAt = doc_completedAt d,
       job_failedAt = doc_failedAt d,
       job_state = (case doc_state d of None \<Rightarrow> INACTIVE | Some s \<Rightarrow> s),
       job_duration = doc_duration d, job_progress = doc_progress d,
       job_logs = doc_logs d, job_saved = True \<rparr>"

text \<open>Example data: a document with the given id, type, priority, creation time and state.\<close>

definition example_doc :: "string \<Rightarrow> string \<Rightarrow> int \<Rightarrow> Date \<Rightarrow> State \<Rightarrow> NeDbJob" where
  "example_doc i ty p t s =
     \<lparr> doc_id = i, doc_type = ty, doc_priority = p, doc_data = None, doc_createdAt = t,
       doc_updatedAt = t, doc_startedAt = None, doc_completedAt = None, doc_failedAt = None,
       doc_state = Some s, doc_duration = None, doc_progress = None, doc_logs = [] \<rparr>"

definition example_repo :: "NeDbJob list \<Rightarrow> JobRepository" where
  "example_repo ds = \<lparr> docs = ds, faults = [], oplog = [] \<rparr>"

text \<open>Scenario S1 of the specification: J1 NORMAL at 1, J2 HIGH at 2, J3 NORMAL at 3.\<close>

definition scenario_S1 :: "NeDbJob list" where
  "scenario_S1 =
     [example_doc ''J1'' ''T'' Priority_NORMAL 1 INACTIVE,
      example_doc ''J2'' ''T'' Priority_HIGH 2 INACTIVE,
      example_doc ''J3'' ''T'' Priority_NORMAL 3 INACTIVE]"

definition example_job :: "string \<Rightarrow> string \<Rightarrow> int \<Rightarrow> Date \<Rightarrow> State \<Rightarrow> Job" where
  "example_job i ty p t s = doc_to_job (example_doc i ty p t s)"

definition example_queue :: "JobRepository \<Rightarrow> bool \<Rightarrow> bool Queue" where
  "example_queue r h = new_Queue r (\<lambda>n. 1000 + int n) h"

definition example_parked_queue :: "JobRepository \<Rightarrow> bool \<Rightarrow> bool Queue" where
  "example_parked_queue r h =
     (example_queue r h)
       \<lparr> waitingRequests := (\<lambda>ty. None)(''T'' \<mapsto> [\<lparr>promise = 0, stillRequest = (\<lambda>h. h)\<rparr>]),
         promises := 1 \<rparr>"

text \<open>A store that holds one document with a priority outside the known set.\<close>

definition scenario_legacy :: "NeDbJob list" where
  "scenario_legacy = [example_doc ''L1'' ''T'' 7 1 INACTIVE]"

text \<open>A queue on an empty store after \<^verbatim>\<open>process("T", processor, 2)\<close>.\<close>

definition example_pool :: "bool Queue" where
  "example_pool = Queue_process ''T'' (Suc (Suc 0)) (example_queue (example_repo []) True)"

text \<open>The Job that \<^verbatim>\<open>setStateToActive\<close> leaves when it runs at the given time.\<close>

definition activated :: "Job \<Rightarrow> Date \<Rightarrow> Job" where
  "activated job now = job\<lparr>job_state := ACTIVE, job_startedAt := Some now, job_updatedAt := now\<rparr>"

text \<open>
  A queue on an empty store with three requests waiting for type T, the first of which
  no longer requests.
\<close>

definition example_waiting :: "bool WaitingWorkerRequest list" where
  "example_waiting =
     [\<lparr>promise = 0, stillRequest = (\<lambda>h. False)\<rparr>,
      \<lparr>promise = 1, stillRequest = (\<lambda>h. h)\<rparr>,
      \<lparr>promise = 2, stillRequest = (\<lambda>h. h)\<rparr>]"

definition example_waiting_queue :: "bool \<Rightarrow> bool Queue" where
  "example_waiting_queue h =
     (example_queue (example_repo []) h)
       \<lparr> waitingRequests := (\<lambda>ty. None)(''T'' \<mapsto> example_waiting), promises := 3 \<rparr>"

text \<open>
  What crash recovery makes of a document: one that was ACTIVE has the same id and type,
  state FAILURE, a failure time, and the message of the recovery error appended to its
  logs; another one is unchanged. \<open>recovered_in S\<close> is the same with the documents
  recovered so far given by their ids.
\<close>

definition failed_from :: "NeDbJob \<Rightarrow> NeDbJob \<Rightarrow> bool" where
  "failed_from d d' =
     (doc_id d' = doc_id d \<and> doc_type d' = doc_type d \<and> doc_state d' = Some FAILURE
      \<and> doc_failedAt d' \<noteq> None
      \<and> doc_logs d' = doc_logs d @ [''unexpectedly termination''])"

definition recovered :: "NeDbJob \<Rightarrow> NeDbJob \<Rightarrow> bool" where
  "recovered d d' = (if doc_state d = Some ACTIVE then failed_from d d' else d' = d)"

definition recovered_in :: "string set \<Rightarrow> NeDbJob \<Rightarrow> NeDbJob \<Rightarrow> bool" where
  "recovered_in S d d' = (if doc_id d \<in> S then failed_from d d' else d' = d)"

text \<open>Scenario S4 of the specification, and a clock.\<close>

definition scenario_S4 :: "NeDbJob list" where
  "scenario_S4 =
     [example_doc ''A'' ''T'' Priority_NORMAL 1 ACTIVE,
      example_doc ''B'' ''T'' Priority_NORMAL 2 INACTIVE,
      example_doc ''C'' ''T'' Priority_NORMAL 3 COMPLETE]"

definition example_clock :: "nat \<Rightarrow> Date" where
  "example_clock n = 1000 + int n"

text \<open>
  \<open>emits_error q e job q'\<close>: from \<open>q\<close> to \<open>q'\<close> events were only added, and the last
  one added is the Error event with \<open>e\<close> and \<open>job\<close>. \<open>extends q q'\<close>: events were only
  added.
\<close>

definition emits_error :: "'e Queue \<Rightarrow> error \<Rightarrow> Job option \<Rightarrow> 'e Queue \<Rightarrow> bool" where
  "emits_error q e job q' =
     (length (emitted q) < length (emitted q')
      \<and> take (length (emitted q)) (emitted q') = emitted q
      \<and> last (emitted q') = ErrorEvent e job)"

definition extends :: "'e Queue \<Rightarrow> 'e Queue \<Rightarrow> bool" where
  "extends q q' = (take (length (emitted q)) (emitted q') = emitted q
                   \<and> length (emitted q) \<le> length (emitted q'))"

text \<open>
  A queue whose store fails its next call, and a callback that selects J1, rejects J2 and
  throws on J3.
\<close>

definition example_faulty_queue :: "bool Queue" where
  "example_faulty_queue =
     new_Queue \<lparr> docs = scenario_S1, faults = [Some (Err ''EIO'')], oplog = [] \<rparr>
       example_clock True"

definition example_callback :: "Job \<Rightarrow> error + bool" where
  "example_callback job =
     (if job_id job = ''J3'' then Inl (Err ''callback failed'')
      else Inr (job_id job = ''J1''))"

text \<open>
  The documents a callback selects for removal, and the outcome planned for the
  \<open>i\<close>-th coming call to the store.
\<close>

definition selected :: "(Job \<Rightarrow> error + bool) \<Rightarrow> NeDbJob \<Rightarrow> bool" where
  "selected callback d = (callback (doc_to_job d) = Inr True)"

definition fault_at :: "JobRepository \<Rightarrow> nat \<Rightarrow> error option" where
  "fault_at r i = (if i < length (faults r) then faults r ! i else None)"

text \<open>
  A callback that selects every job, and a queue whose store fails its third call.
\<close>

definition example_select_all :: "Job \<Rightarrow> error + bool" where
  "example_select_all job = Inr True"

definition example_failing_removal_queue :: "bool Queue" where
  "example_failing_removal_queue =
     new_Queue \<lparr> docs = scenario_S1, faults = [None, None, Some (Err ''EIO'')], oplog = [] \<rparr>
       example_clock True"

text \<open>
  Queues whose store runs one call and fails the next: one on scenario S1, and one on an
  empty store with three requests waiting for type T.
\<close>

definition example_failing_update_queue :: "bool Queue" where
  "example_failing_update_queue =
     new_Queue \<lparr> docs = scenario_S1, faults = [None, Some (Err ''EIO'')], oplog = [] \<rparr>
       example_clock True"

definition example_waiting_faulty_queue :: "bool Queue" where
  "example_waiting_faulty_queue =
     (new_Queue \<lparr> docs = [], faults = [None, Some (Err ''EIO'')], oplog = [] \<rparr>
        example_clock True)
       \<lparr> waitingRequests := (\<lambda>ty. None)(''T'' \<mapsto> example_waiting), promises := 3 \<rparr>"

section \<open>The store and the repository: lemmas\<close>

lemma store_call_eq: "store_call op r = (next_fault r, after_call op r)"
  by (simp add: store_call_def next_fault_def after_call_def split: list.splits)

lemma docs_after_call [simp]: "docs (after_call op r) = docs r"
  by (simp add: after_call_def)

lemma set_insert_sorted: "set (insert_sorted cmp x xs) = insert x (set xs)"
  by (induction xs) auto

lemma set_stable_sort: "set (stable_sort cmp xs) = set xs"
  by (induction xs) (auto simp: set_insert_sorted)

lemma sorted_insert_sorted:
  assumes tr: "\<And>a b c. cmp a b \<le> 0 \<Longrightarrow> cmp b c \<le> 0 \<Longrightarrow> cmp a c \<le> 0"
    and tot: "\<And>a b. cmp a b \<le> 0 \<or> cmp b a \<le> 0"
  shows "sorted_wrt (\<lambda>a b. cmp a b \<le> 0) xs
    \<Longrightarrow> sorted_wrt (\<lambda>a b. cmp a b \<le> 0) (insert_sorted cmp x xs)"
proof (induction xs)
  case Nil
  then show ?case by simp
next
  case (Cons y ys)
  show ?case
  proof (cases "cmp x y \<le> 0")
    case True
    with Cons.prems tr show ?thesis by auto
  next
    case False
    with tot have "cmp y x \<le> 0" by blast
    with False Cons show ?thesis by (auto simp: set_insert_sorted)
  qed
qed

lemma sorted_stable_sort:
  assumes tr: "\<And>a b c. cmp a b \<le> 0 \<Longrightarrow> cmp b c \<le> 0 \<Longrightarrow> cmp a c \<le> 0"
    and tot: "\<And>a b. cmp a b \<le> 0 \<or> cmp b a \<le> 0"
  shows "sorted_wrt (\<lambda>a b. cmp a b \<le> 0) (stable_sort cmp xs)"
  by (induction xs) (auto intro: sorted_insert_sorted [OF tr tot])

lemma stable_sort_head:
  assumes tr: "\<And>a b c. cmp a b \<le> 0 \<Longrightarrow> cmp b c \<le> 0 \<Longrightarrow> cmp a c \<le> 0"
    and tot: "\<And>a b. cmp a b \<le> 0 \<or> cmp b a \<le> 0"
    and st: "stable_sort cmp xs = y # ys"
  shows "y \<in> set xs \<and> (\<forall>z\<in>set xs. cmp y z \<le> 0)"
proof -
  have "sorted_wrt (\<lambda>a b. cmp a b \<le> 0) (stable_sort cmp xs)"
    by (rule sorted_stable_sort [OF tr tot])
  with st have s: "\<forall>z\<in>set ys. cmp y z \<le> 0" by simp
  have "set (stable_sort cmp xs) = set xs" by (rule set_stable_sort)
  with st have m: "set xs = insert y (set ys)" by simp
  from tot have "cmp y y \<le> 0" by blast
  with s m show ?thesis by auto
qed

lemma fetch_compare_le:
  "(sort_compare [(doc_priority, - 1), (doc_createdAt, 1)] a b \<le> 0) =
     (doc_priority b < doc_priority a
      \<or> (doc_priority b = doc_priority a \<and> doc_createdAt a \<le> doc_createdAt b))"
  by (auto simp: compareThings_def)

lemma fetch_head:
  assumes "db_sort [(doc_priority, - 1), (doc_createdAt, 1)] xs = y # ys"
  shows "y \<in> set xs \<and> (\<forall>z\<in>set xs. doc_priority z < doc_priority y \<or>
            (doc_priority z = doc_priority y \<and> doc_createdAt y \<le> doc_createdAt z))"
proof -
  let ?c = "sort_compare [(doc_priority, - 1), (doc_createdAt, 1)]"
  have tr: "\<And>a b c. ?c a b \<le> 0 \<Longrightarrow> ?c b c \<le> 0 \<Longrightarrow> ?c a c \<le> 0"
    unfolding fetch_compare_le by linarith
  have tot: "\<And>a b. ?c a b \<le> 0 \<or> ?c b a \<le> 0"
    unfolding fetch_compare_le by linarith
  from assms have "stable_sort ?c xs = y # ys" by (simp add: db_sort_def)
  from stable_sort_head [of ?c, OF tr tot this]
  have "y \<in> set xs \<and> (\<forall>z\<in>set xs. ?c y z \<le> 0)" .
  then show ?thesis
    unfolding fetch_compare_le by simp
qed

lemma db_sort_Nil: "(db_sort cs xs = []) = (xs = [])"
  using set_stable_sort [where cmp = "sort_compare cs" and xs = xs]
  by (auto simp: db_sort_def)

section \<open>C1: the next inactive job of a type\<close>

text \<open>
  C1, as amended. When the store answers, \<^verbatim>\<open>findInactiveJobByType\<close> returns none
  exactly when no INACTIVE job of the type is stored, and otherwise a stored INACTIVE job
  of the type with the LARGEST numeric priority (the sort is \<^verbatim>\<open>priority: -1\<close>,
  descending), and among those the smallest createdAt. It makes one find call and writes
  nothing.
\<close>

theorem findInactiveJobByType_largest_priority:
  assumes "next_fault r = None"
  shows "\<exists>res. JobRepository_findInactiveJobByType ty r = (Inr res, after_call OpFind r) \<and>
     (case res of
        None \<Rightarrow> \<not> (\<exists>d\<in>set (docs r). is_inactive_of ty d)
      | Some d \<Rightarrow> d \<in> set (docs r) \<and> is_inactive_of ty d \<and>
          (\<forall>d'\<in>set (docs r). is_inactive_of ty d' \<longrightarrow>
             doc_priority d' \<le> doc_priority d \<and>
             (doc_priority d' = doc_priority d \<longrightarrow> doc_createdAt d \<le> doc_createdAt d')))"
proof -
  let ?cand = "filter (\<lambda>d. doc_type d = ty \<and> doc_state d = Some INACTIVE) (docs r)"
  let ?sorted = "db_sort [(doc_priority, - 1), (doc_createdAt, 1)] ?cand"
  show ?thesis
  proof (cases ?sorted)
    case Nil
    then have "?cand = []" by (simp add: db_sort_Nil)
    then have "\<not> (\<exists>d\<in>set (docs r). is_inactive_of ty d)"
      by (auto simp: filter_empty_conv is_inactive_of_def)
    with Nil assms show ?thesis
      by (simp add: JobRepository_findInactiveJobByType_def store_call_eq)
  next
    case (Cons y ys)
    from fetch_head [OF Cons] have
      "y \<in> set (docs r) \<and> is_inactive_of ty y \<and>
          (\<forall>d'\<in>set (docs r). is_inactive_of ty d' \<longrightarrow>
             doc_priority d' \<le> doc_priority y \<and>
             (doc_priority d' = doc_priority y \<longrightarrow> doc_createdAt y \<le> doc_createdAt d'))"
      by (auto simp: is_inactive_of_def)
    with Cons assms show ?thesis
      by (simp add: JobRepository_findInactiveJobByType_def store_call_eq)
  qed
qed

theorem findInactiveJobByType_largest_priority_witness:
  "next_fault (example_repo scenario_S1) = None
   \<and> (\<exists>res. JobRepository_findInactiveJobByType ''T'' (example_repo scenario_S1)
          = (Inr res, after_call OpFind (example_repo scenario_S1)) \<and> res \<noteq> None)"
  using findInactiveJobByType_largest_priority [of "example_repo scenario_S1" "''T''"]
  by (auto simp: next_fault_def example_repo_def scenario_S1_def is_inactive_of_def
      example_doc_def split: option.splits)

text \<open>
  C1 as stated fails on scenario S1: the call returns J1 (NORMAL, 0) although J2 (HIGH,
  -10) is a stored INACTIVE job of the type with a smaller numeric priority.
\<close>

theorem findInactiveJobByType_smallest_priority_counterexample:
  "fst (JobRepository_findInactiveJobByType ''T'' (example_repo scenario_S1))
     = Inr (Some (example_doc ''J1'' ''T'' Priority_NORMAL 1 INACTIVE))
   \<and> example_doc ''J2'' ''T'' Priority_HIGH 2 INACTIVE \<in> set (docs (example_repo scenario_S1))
   \<and> is_inactive_of ''T'' (example_doc ''J2'' ''T'' Priority_HIGH 2 INACTIVE)
   \<and> doc_priority (example_doc ''J2'' ''T'' Priority_HIGH 2 INACTIVE)
       < doc_priority (example_doc ''J1'' ''T'' Priority_NORMAL 1 INACTIVE)"
  by (simp add: JobRepository_findInactiveJobByType_def store_call_def example_repo_def
      scenario_S1_def db_sort_def example_doc_def compareThings_def is_inactive_of_def
      Priority_NORMAL_def Priority_HIGH_def)

lemma db_update_count: "fst (db_update p f ds) = (if \<exists>d\<in>set ds. p d then 1 else 0)"
  by (induction ds) auto

lemma db_update_no_match: "\<forall>d\<in>set ds. \<not> p d \<Longrightarrow> snd (db_update p f ds) = ds"
  by (induction ds) auto

lemma db_remove_ids:
  "distinct (map doc_id ds) \<Longrightarrow> i \<notin> doc_id ` set (snd (db_remove (\<lambda>d. doc_id d = i) ds))"
  by (induction ds) auto

lemma affected_rows_eq:
  "affected_rows job r = (if job_id job \<in> doc_id ` set (docs r) then 1 else 0)"
  by (auto simp: affected_rows_def db_update_count image_iff eq_commute [of "job_id job"])

lemma updateJob_result:
  "fst (JobRepository_updateJob job r) =
     (case next_fault r of
        Some e \<Rightarrow> Inl e
      | None \<Rightarrow> if affected_rows job r \<noteq> 1 then Inl (UpdateRowsError (affected_rows job r))
                else Inr ())"
  by (simp add: JobRepository_updateJob_def store_call_eq affected_rows_def case_prod_beta
      split: option.splits)

lemma updateJob_docs:
  "docs (snd (JobRepository_updateJob job r)) =
     (case next_fault r of
        Some e \<Rightarrow> docs r
      | None \<Rightarrow> snd (db_update (\<lambda>d. doc_id d = job_id job) (updateQuery job) (docs r)))"
  by (simp add: JobRepository_updateJob_def store_call_eq case_prod_beta split: option.splits)

section \<open>C6: updating a row\<close>

text \<open>
  C6. \<^verbatim>\<open>JobRepository.updateJob\<close> succeeds exactly when the store's update runs and
  affects exactly one row; when it affects another number of rows it throws the error
  that reports that number. In particular the update of a job whose id is not stored
  (never inserted) fails and leaves the documents as they are, and so does the update of
  a job whose row has just been removed.
\<close>

theorem updateJob_succeeds_iff_one_row:
  "(fst (JobRepository_updateJob job r) = Inr ())
      = (next_fault r = None \<and> affected_rows job r = 1)
   \<and> (next_fault r = None \<and> affected_rows job r \<noteq> 1 \<longrightarrow>
        fst (JobRepository_updateJob job r) = Inl (UpdateRowsError (affected_rows job r)))
   \<and> (job_id job \<notin> doc_id ` set (docs r) \<longrightarrow>
        affected_rows job r = 0
        \<and> (\<exists>e. fst (JobRepository_updateJob job r) = Inl e)
        \<and> docs (snd (JobRepository_updateJob job r)) = docs r)
   \<and> (distinct (map doc_id (docs r))
        \<and> fst (JobRepository_removeJob (job_id job) r) = Inr () \<longrightarrow>
        (\<exists>e. fst (JobRepository_updateJob job (snd (JobRepository_removeJob (job_id job) r)))
                = Inl e))"
proof (intro conjI impI)
  show "(fst (JobRepository_updateJob job r) = Inr ())
      = (next_fault r = None \<and> affected_rows job r = 1)"
    by (simp add: updateJob_result split: option.splits)
  show "fst (JobRepository_updateJob job r) = Inl (UpdateRowsError (affected_rows job r))"
    if "next_fault r = None \<and> affected_rows job r \<noteq> 1"
    using that by (simp add: updateJob_result)
  show "affected_rows job r = 0" if "job_id job \<notin> doc_id ` set (docs r)"
    using that by (simp add: affected_rows_eq)
  show "\<exists>e. fst (JobRepository_updateJob job r) = Inl e"
    if "job_id job \<notin> doc_id ` set (docs r)"
    using that by (simp add: updateJob_result affected_rows_eq split: option.splits)
  show "docs (snd (JobRepository_updateJob job r)) = docs r"
    if "job_id job \<notin> doc_id ` set (docs r)"
  proof -
    from that have "\<forall>d\<in>set (docs r). \<not> doc_id d = job_id job"
      by (auto simp: image_iff eq_commute [of "job_id job"])
    then have "snd (db_update (\<lambda>d. doc_id d = job_id job) (updateQuery job) (docs r)) = docs r"
      by (rule db_update_no_match)
    then show ?thesis
      by (simp add: updateJob_docs split: option.splits)
  qed
  show "\<exists>e. fst (JobRepository_updateJob job (snd (JobRepository_removeJob (job_id job) r))) = Inl e"
    if h: "distinct (map doc_id (docs r)) \<and> fst (JobRepository_removeJob (job_id job) r) = Inr ()"
  proof -
    let ?r' = "snd (JobRepository_removeJob (job_id job) r)"
    from h have "next_fault r = None"
      by (simp add: JobRepository_removeJob_def store_call_eq split: option.splits)
    then have "docs ?r' = snd (db_remove (\<lambda>d. doc_id d = job_id job) (docs r))"
      by (simp add: JobRepository_removeJob_def store_call_eq)
    with db_remove_ids [of "docs r" "job_id job"] h
    have "job_id job \<notin> doc_id ` set (docs ?r')" by simp
    then show ?thesis
      by (simp add: updateJob_result affected_rows_eq split: option.splits)
  qed
qed

theorem updateJob_succeeds_iff_one_row_witness:
  "next_fault (example_repo scenario_S1) = None
   \<and> affected_rows (example_job ''J9'' ''T'' 0 1 ACTIVE) (example_repo scenario_S1) \<noteq> 1
   \<and> job_id (example_job ''J9'' ''T'' 0 1 ACTIVE) \<notin> doc_id ` set (docs (example_repo scenario_S1))
   \<and> fst (JobRepository_updateJob (example_job ''J9'' ''T'' 0 1 ACTIVE) (example_repo scenario_S1))
        = Inl (UpdateRowsError 0)
   \<and> distinct (map doc_id (docs (example_repo scenario_S1)))
   \<and> fst (JobRepository_removeJob (job_id (example_job ''J2'' ''T'' 0 1 ACTIVE))
          (example_repo scenario_S1)) = Inr ()
   \<and> (\<exists>e. fst (JobRepository_updateJob (example_job ''J2'' ''T'' 0 1 ACTIVE)
          (snd (JobRepository_removeJob (job_id (example_job ''J2'' ''T'' 0 1 ACTIVE))
             (example_repo scenario_S1)))) = Inl e)"
  using updateJob_succeeds_iff_one_row
          [of "example_job ''J9'' ''T'' 0 1 ACTIVE" "example_repo scenario_S1"]
        updateJob_succeeds_iff_one_row
          [of "example_job ''J2'' ''T'' 0 1 ACTIVE" "example_repo scenario_S1"]
  by (simp add: next_fault_def example_repo_def scenario_S1_def example_doc_def
      example_job_def doc_to_job_def JobRepository_removeJob_def store_call_def)

lemma findInactive_found:
  assumes "fst (JobRepository_findInactiveJobByType ty r) = Inr (Some d)"
  shows "JobRepository_findInactiveJobByType ty r = (Inr (Some d), after_call OpFind r)
         \<and> d \<in> set (docs r) \<and> is_inactive_of ty d"
proof -
  let ?cand = "filter (\<lambda>d. doc_type d = ty \<and> doc_state d = Some INACTIVE) (docs r)"
  let ?sorted = "db_sort [(doc_priority, - 1), (doc_createdAt, 1)] ?cand"
  from assms have nf: "next_fault r = None"
    by (simp add: JobRepository_findInactiveJobByType_def store_call_eq split: option.splits)
  with assms obtain ys where ys: "take 1 ?sorted = d # ys"
    by (auto simp: JobRepository_findInactiveJobByType_def store_call_eq split: list.splits)
  then have "d \<in> set (take 1 ?sorted)" by simp
  then have "d \<in> set ?sorted" by (rule in_set_takeD)
  then have "d \<in> set ?cand" by (simp add: db_sort_def set_stable_sort)
  then have "d \<in> set (docs r) \<and> is_inactive_of ty d" by (simp add: is_inactive_of_def)
  with nf ys show ?thesis
    by (simp add: JobRepository_findInactiveJobByType_def store_call_eq)
qed

section \<open>C3 and C4: requesting a job\<close>

text \<open>
  C3. A call of \<^verbatim>\<open>requestJobForProcessing\<close> made while the list of waiting requests
  of the type exists and is not empty appends one new request (a new pending promise and
  the caller's \<^verbatim>\<open>stillRequest\<close>) at the tail of that list and returns the pending
  promise. Nothing else changes: the repository (no call to the store), the mutex log
  (no acquisition), the events, the deferred callbacks and the resolved promises are as
  before, so no job is claimed.
\<close>

theorem requestJobForProcessing_fast_park:
  assumes "waitingRequests q ty = Some ws" and "ws \<noteq> []"
  shows "Queue_requestJobForProcessing ty stillReq q =
           (Inr (Pending (promises q)),
            q\<lparr> waitingRequests :=
                 (waitingRequests q)(ty \<mapsto> ws @ [\<lparr>promise = promises q, stillRequest = stillReq\<rparr>]),
               promises := Suc (promises q) \<rparr>)
         \<and> repository (snd (Queue_requestJobForProcessing ty stillReq q)) = repository q
         \<and> mutex_log (snd (Queue_requestJobForProcessing ty stillReq q)) = mutex_log q
         \<and> emitted (snd (Queue_requestJobForProcessing ty stillReq q)) = emitted q
         \<and> nextTick (snd (Queue_requestJobForProcessing ty stillReq q)) = nextTick q
         \<and> resolved (snd (Queue_requestJobForProcessing ty stillReq q)) = resolved q"
proof -
  from assms obtain w ws' where "waitingRequests q ty = Some (w # ws')" and "ws = w # ws'"
    by (cases ws) auto
  then show ?thesis
    by (simp add: Queue_requestJobForProcessing_def push_request_def)
qed

text \<open>
  C4. A call of \<^verbatim>\<open>requestJobForProcessing\<close> that takes the mutex (no request of the
  type is waiting), finds an INACTIVE candidate and whose \<^verbatim>\<open>stillRequest()\<close> answers
  false returns \<^verbatim>\<open>null\<close>. The state it leaves differs from the one before only by the
  find call in the store's log and the acquisition and release of the mutex: the
  documents are unchanged (no write), and the candidate is still stored and INACTIVE.
\<close>

theorem requestJobForProcessing_not_interested:
  assumes "waitingRequests q ty = None \<or> waitingRequests q ty = Some []"
    and "fst (JobRepository_findInactiveJobByType ty (repository q)) = Inr (Some d)"
    and "\<not> stillReq (host q)"
  shows "Queue_requestJobForProcessing ty stillReq q =
           (Inr (Settled None),
            q\<lparr> repository := after_call OpFind (repository q),
               mutex_log := mutex_log q @ [Acquire, Release] \<rparr>)
         \<and> docs (repository (snd (Queue_requestJobForProcessing ty stillReq q)))
             = docs (repository q)
         \<and> oplog (repository (snd (Queue_requestJobForProcessing ty stillReq q)))
             = oplog (repository q) @ [OpFind]
         \<and> d \<in> set (docs (repository (snd (Queue_requestJobForProcessing ty stillReq q))))
         \<and> is_inactive_of ty d"
proof -
  from findInactive_found [OF assms(2)]
  have f: "JobRepository_findInactiveJobByType ty (repository q)
             = (Inr (Some d), after_call OpFind (repository q))"
    and d: "d \<in> set (docs (repository q))" "is_inactive_of ty d"
    by auto
  have b: "request_body ty stillReq (q\<lparr>mutex_log := mutex_log q @ [Acquire]\<rparr>)
             = (Inr (Settled None),
                q\<lparr>mutex_log := mutex_log q @ [Acquire],
                   repository := after_call OpFind (repository q)\<rparr>)"
    using f assms(3) by (simp add: request_body_def)
  have r: "Queue_requestJobForProcessing ty stillReq q =
           (Inr (Settled None),
            q\<lparr> repository := after_call OpFind (repository q),
               mutex_log := mutex_log q @ [Acquire, Release] \<rparr>)"
    using assms(1) b by (auto simp: Queue_requestJobForProcessing_def catch_emit_def)
  show ?thesis
    unfolding r using d by (simp add: after_call_def)
qed


theorem requestJobForProcessing_fast_park_witness:
  "waitingRequests (example_parked_queue (example_repo scenario_S1) True) ''T''
     = Some [\<lparr>promise = 0, stillRequest = (\<lambda>h. h)\<rparr>]
   \<and> [\<lparr>promise = 0, stillRequest = (\<lambda>h::bool. h)\<rparr>] \<noteq> []
   \<and> fst (Queue_requestJobForProcessing ''T'' (\<lambda>h. h)
           (example_parked_queue (example_repo scenario_S1) True)) = Inr (Pending 1)
   \<and> repository (snd (Queue_requestJobForProcessing ''T'' (\<lambda>h. h)
           (example_parked_queue (example_repo scenario_S1) True))) = example_repo scenario_S1"
  using requestJobForProcessing_fast_park
          [of "example_parked_queue (example_repo scenario_S1) True" "''T''"
              "[\<lparr>promise = 0, stillRequest = (\<lambda>h. h)\<rparr>]" "\<lambda>h. h"]
  by (simp add: example_parked_queue_def example_queue_def new_Queue_def)

lemma S1_found:
  "fst (JobRepository_findInactiveJobByType ''T'' (example_repo scenario_S1))
     = Inr (Some (example_doc ''J1'' ''T'' Priority_NORMAL 1 INACTIVE))"
  by (simp add: JobRepository_findInactiveJobByType_def store_call_def example_repo_def
      scenario_S1_def db_sort_def example_doc_def compareThings_def
      Priority_NORMAL_def Priority_HIGH_def)

theorem requestJobForProcessing_not_interested_witness:
  "waitingRequests (example_queue (example_repo scenario_S1) False) ''T'' = None
   \<and> fst (JobRepository_findInactiveJobByType ''T''
            (repository (example_queue (example_repo scenario_S1) False)))
       = Inr (Some (example_doc ''J1'' ''T'' Priority_NORMAL 1 INACTIVE))
   \<and> \<not> (\<lambda>h. h) (host (example_queue (example_repo scenario_S1) False))
   \<and> fst (Queue_requestJobForProcessing ''T'' (\<lambda>h. h)
            (example_queue (example_repo scenario_S1) False)) = Inr (Settled None)
   \<and> docs (repository (snd (Queue_requestJobForProcessing ''T'' (\<lambda>h. h)
            (example_queue (example_repo scenario_S1) False)))) = scenario_S1"
proof -
  have r: "repository (example_queue (example_repo scenario_S1) False) = example_repo scenario_S1"
    by (simp add: example_queue_def new_Queue_def)
  have w: "waitingRequests (example_queue (example_repo scenario_S1) False) ''T'' = None"
    by (simp add: example_queue_def new_Queue_def)
  have h: "\<not> (\<lambda>h. h) (host (example_queue (example_repo scenario_S1) False))"
    by (simp add: example_queue_def new_Queue_def)
  have f: "fst (JobRepository_findInactiveJobByType ''T''
            (repository (example_queue (example_repo scenario_S1) False)))
       = Inr (Some (example_doc ''J1'' ''T'' Priority_NORMAL 1 INACTIVE))"
    unfolding r by (rule S1_found)
  from requestJobForProcessing_not_interested
         [of "example_queue (example_repo scenario_S1) False" "''T''"
             "example_doc ''J1'' ''T'' Priority_NORMAL 1 INACTIVE" "\<lambda>h. h", OF disjI1 [OF w] f h]
  show ?thesis using w f h r by (simp add: example_repo_def)
qed

section \<open>C8: priorities of materialized jobs\<close>

lemma sanitizePriority_known: "is_known_priority (fst (sanitizePriority p))"
  by (simp add: sanitizePriority_def is_known_priority_def)

lemma convertNeDbJobToJob_eq:
  "convertNeDbJobToJob d q =
     (doc_to_job d, q\<lparr>warned := warned q @ snd (sanitizePriority (doc_priority d))\<rparr>)"
  by (simp add: convertNeDbJobToJob_def new_Job_def doc_to_job_def case_prod_beta)

lemma convert_all_known:
  "convert_all ds q = (jobs, q') \<Longrightarrow> \<forall>job\<in>set jobs. is_known_priority (job_priority job)"
proof (induction ds arbitrary: q jobs q')
  case Nil
  then show ?case by simp
next
  case (Cons d ds)
  then show ?case
    by (auto simp: convertNeDbJobToJob_eq doc_to_job_def sanitizePriority_known
        split: prod.splits)
qed

lemma setStateToActive_priority:
  "Job_setStateToActive job q = (Inr job', q') \<Longrightarrow> job_priority job' = job_priority job"
  by (auto simp: Job_setStateToActive_def new_Date_def split: if_splits prod.splits sum.splits)

lemma createJob_priority:
  "Queue_createJob new_id ty priority data q = (Inr job, q') \<Longrightarrow>
   job_priority job = (case priority of None \<Rightarrow> Priority_NORMAL | Some v \<Rightarrow> v)"
  by (auto simp: Queue_createJob_def new_Date_def new_Job_def Job_save_def
      split: prod.splits sum.splits if_splits)

lemma Queue_updateJob_nextTick: "nextTick (snd (Queue_updateJob job q)) = nextTick q"
  by (cases "JobRepository_updateJob job (repository q)")
     (simp add: Queue_updateJob_def catch_emit_def emit_def split: sum.splits)

lemma Job_update_nextTick: "nextTick (snd (Job_update job q)) = nextTick q"
  by (simp add: Job_update_def Queue_updateJob_nextTick)

lemma setStateToActive_nextTick: "nextTick (snd (Job_setStateToActive job q)) = nextTick q"
proof -
  let ?q1 = "q\<lparr>ticks := Suc (ticks q)\<rparr>"
  let ?j = "job\<lparr>job_state := ACTIVE, job_startedAt := Some (clock q (ticks q)),
                 job_updatedAt := clock q (ticks q)\<rparr>"
  have "nextTick (snd (Job_update ?j ?q1)) = nextTick q"
    by (simp add: Job_update_nextTick)
  then show ?thesis
    by (cases "Job_update ?j ?q1")
       (simp add: Job_setStateToActive_def new_Date_def split: sum.splits)
qed

lemma addJob_handoff_priority:
  assumes "Queue_addJob job q = (Inr (), q')"
  shows "nextTick q' = nextTick q
         \<or> (\<exists>p j. nextTick q' = nextTick q @ [(p, j)] \<and> is_known_priority (job_priority j))"
proof -
  from assms have b: "addJob_body job q = (Inr (), q')"
    by (cases "addJob_body job q")
       (auto simp: Queue_addJob_def catch_emit_def split: sum.splits)
  obtain x r where ins: "JobRepository_addJob job (repository q) = (x, r)"
    by (cases "JobRepository_addJob job (repository q)")
  show ?thesis
  proof (cases x)
    case (Inl e)
    with b ins show ?thesis by (simp add: addJob_body_def)
  next
    case (Inr d)
    show ?thesis
    proof (cases "waitingRequests q (job_type job)")
      case None
      with b ins Inr have "q' = q\<lparr>repository := r\<rparr>" by (simp add: addJob_body_def)
      then show ?thesis by simp
    next
      case (Some ws)
      obtain found rest where sh: "shift_requests (host q) ws = (found, rest)"
        by (cases "shift_requests (host q) ws")
      show ?thesis
      proof (cases found)
        case None
        with b ins Inr Some sh
        have "q' = q\<lparr>repository := r,
                      waitingRequests := (waitingRequests q)(job_type job \<mapsto> rest)\<rparr>"
          by (simp add: addJob_body_def)
        then show ?thesis by simp
      next
        case (Some w)
        let ?q1 = "q\<lparr>repository := r,
                      waitingRequests := (waitingRequests q)(job_type job \<mapsto> rest),
                      warned := warned q @ snd (sanitizePriority (doc_priority d))\<rparr>"
        obtain y q2 where act: "Job_setStateToActive (doc_to_job d) ?q1 = (y, q2)"
          by (cases "Job_setStateToActive (doc_to_job d) ?q1")
        from setStateToActive_nextTick [of "doc_to_job d" ?q1] act
        have n2: "nextTick q2 = nextTick q" by simp
        from b ins Inr \<open>waitingRequests q (job_type job) = Some ws\<close> sh Some act
        obtain j where y: "y = Inr j" and q': "q' = q2\<lparr>nextTick := nextTick q2 @ [(promise w, j)]\<rparr>"
          by (cases y) (simp_all add: addJob_body_def convertNeDbJobToJob_eq)
        from act y have "job_priority j = job_priority (doc_to_job d)"
          by (simp add: setStateToActive_priority)
        then have "is_known_priority (job_priority j)"
          by (simp add: doc_to_job_def sanitizePriority_known)
        with q' n2 show ?thesis by simp
      qed
    qed
  qed
qed

text \<open>
  C8, as amended. The sanitizer returns a known priority unchanged and without a warning,
  and turns any other value into NORMAL with one warning; it never fails. The Job that
  \<^verbatim>\<open>convertNeDbJobToJob\<close> makes of a stored document carries the sanitized priority,
  and the warning is printed; so the jobs returned by \<^verbatim>\<open>findJob\<close>, \<^verbatim>\<open>listJobs\<close> and
  \<^verbatim>\<open>requestJobForProcessing\<close>, and the job that \<^verbatim>\<open>addJob\<close> hands to a waiting
  request, have a known priority. \<^verbatim>\<open>createJob\<close> does not sanitize: the Job it returns
  carries the supplied priority as it is, and NORMAL when none is supplied.
\<close>

theorem loaded_priority_known:
  "(is_known_priority p \<longrightarrow> sanitizePriority p = (p, []))
   \<and> (\<not> is_known_priority p \<longrightarrow> sanitizePriority p = (Priority_NORMAL, [InvalidPriority p]))
   \<and> is_known_priority (fst (sanitizePriority p))
   \<and> convertNeDbJobToJob d q =
        (doc_to_job d, q\<lparr>warned := warned q @ snd (sanitizePriority (doc_priority d))\<rparr>)
   \<and> job_priority (doc_to_job d) = fst (sanitizePriority (doc_priority d))
   \<and> (Queue_findJob i q = (Inr (Some job), q') \<longrightarrow> is_known_priority (job_priority job))
   \<and> (Queue_listJobs state q = (Inr jobs, q') \<longrightarrow>
        (\<forall>job\<in>set jobs. is_known_priority (job_priority job)))
   \<and> (Queue_requestJobForProcessing ty stillReq q = (Inr (Settled (Some job)), q') \<longrightarrow>
        is_known_priority (job_priority job))
   \<and> (Queue_addJob job q = (Inr (), q') \<longrightarrow>
        nextTick q' = nextTick q
        \<or> (\<exists>p j. nextTick q' = nextTick q @ [(p, j)] \<and> is_known_priority (job_priority j)))
   \<and> (Queue_createJob new_id ty priority data q = (Inr job, q') \<longrightarrow>
        job_priority job = (case priority of None \<Rightarrow> Priority_NORMAL | Some v \<Rightarrow> v))"
proof (intro conjI impI)
  show "sanitizePriority p = (p, [])" if "is_known_priority p"
    using that by (auto simp: sanitizePriority_def is_known_priority_def)
  show "sanitizePriority p = (Priority_NORMAL, [InvalidPriority p])" if "\<not> is_known_priority p"
    using that by (auto simp: sanitizePriority_def is_known_priority_def)
  show "is_known_priority (fst (sanitizePriority p))"
    by (rule sanitizePriority_known)
  show "convertNeDbJobToJob d q =
        (doc_to_job d, q\<lparr>warned := warned q @ snd (sanitizePriority (doc_priority d))\<rparr>)"
    by (rule convertNeDbJobToJob_eq)
  show "job_priority (doc_to_job d) = fst (sanitizePriority (doc_priority d))"
    by (simp add: doc_to_job_def)
  show "is_known_priority (job_priority job)" if "Queue_findJob i q = (Inr (Some job), q')"
    using that
    by (auto simp: Queue_findJob_def catch_emit_def convertNeDbJobToJob_eq doc_to_job_def
        sanitizePriority_known split: prod.splits sum.splits option.splits)
  show "\<forall>job\<in>set jobs. is_known_priority (job_priority job)"
    if "Queue_listJobs state q = (Inr jobs, q')"
    using that
    by (auto simp: Queue_listJobs_def catch_emit_def split: prod.splits sum.splits
        dest: convert_all_known)
  show "is_known_priority (job_priority job)"
    if "Queue_requestJobForProcessing ty stillReq q = (Inr (Settled (Some job)), q')"
    using that
    by (auto simp: Queue_requestJobForProcessing_def catch_emit_def request_body_def
        convertNeDbJobToJob_eq doc_to_job_def sanitizePriority_known
        split: prod.splits sum.splits option.splits list.splits if_splits
        dest!: setStateToActive_priority)
  show "nextTick q' = nextTick q
        \<or> (\<exists>p j. nextTick q' = nextTick q @ [(p, j)] \<and> is_known_priority (job_priority j))"
    if "Queue_addJob job q = (Inr (), q')"
    using that by (rule addJob_handoff_priority)
  show "job_priority job = (case priority of None \<Rightarrow> Priority_NORMAL | Some v \<Rightarrow> v)"
    if "Queue_createJob new_id ty priority data q = (Inr job, q')"
    using that by (rule createJob_priority)
qed

lemma ex_createJob:
  "\<exists>job. fst (Queue_createJob ''N1'' ''T'' (Some 7) None
               (example_queue (example_repo scenario_legacy) True)) = Inr job"
  by (simp add: Queue_createJob_def new_Date_def new_Job_def Job_save_def
      Queue_addJob_def catch_emit_def addJob_body_def JobRepository_addJob_def store_call_def
      insertDoc_def example_queue_def new_Queue_def example_repo_def scenario_legacy_def
      example_doc_def)

lemma ex_findJob:
  "\<exists>job. fst (Queue_findJob ''L1'' (example_queue (example_repo scenario_legacy) True))
     = Inr (Some job)"
  by (simp add: Queue_findJob_def catch_emit_def JobRepository_findJob_def store_call_def
      convertNeDbJobToJob_eq example_queue_def new_Queue_def example_repo_def
      scenario_legacy_def example_doc_def)

lemma ex_listJobs:
  "\<exists>job. fst (Queue_listJobs None (example_queue (example_repo scenario_legacy) True))
     = Inr [job]"
  by (simp add: Queue_listJobs_def catch_emit_def JobRepository_listJobs_def store_call_def
      convertNeDbJobToJob_eq example_queue_def new_Queue_def example_repo_def db_sort_def
      scenario_legacy_def example_doc_def)

lemma ex_request:
  "\<exists>job. fst (Queue_requestJobForProcessing ''T'' (\<lambda>h. h)
       (example_queue (example_repo scenario_legacy) True)) = Inr (Settled (Some job))"
  by (simp add: Queue_requestJobForProcessing_def catch_emit_def request_body_def
      JobRepository_findInactiveJobByType_def store_call_def db_sort_def
      convertNeDbJobToJob_eq doc_to_job_def Job_setStateToActive_def new_Date_def
      Job_update_def Queue_updateJob_def JobRepository_updateJob_def
      example_queue_def new_Queue_def example_repo_def
      scenario_legacy_def example_doc_def)

lemma ex_addJob:
  "\<exists>p j. fst (Queue_addJob (example_job ''N1'' ''T'' 7 5 INACTIVE) (example_waiting_queue True))
           = Inr ()
         \<and> nextTick (snd (Queue_addJob (example_job ''N1'' ''T'' 7 5 INACTIVE)
                            (example_waiting_queue True))) = [(p, j)]"
  by (simp add: Queue_addJob_def catch_emit_def addJob_body_def JobRepository_addJob_def
      store_call_def insertDoc_def convertNeDbJobToJob_eq doc_to_job_def
      Job_setStateToActive_def new_Date_def Job_update_def Queue_updateJob_def
      JobRepository_updateJob_def example_waiting_queue_def example_waiting_def
      example_queue_def new_Queue_def example_repo_def example_job_def example_doc_def)

theorem loaded_priority_known_witness:
  "is_known_priority Priority_LOW \<and> sanitizePriority Priority_LOW = (Priority_LOW, [])
   \<and> \<not> is_known_priority 7 \<and> sanitizePriority 7 = (Priority_NORMAL, [InvalidPriority 7])
   \<and> (\<exists>job q'. Queue_findJob ''L1'' (example_queue (example_repo scenario_legacy) True)
                    = (Inr (Some job), q')
          \<and> is_known_priority (job_priority job))
   \<and> (\<exists>job q'. Queue_listJobs None (example_queue (example_repo scenario_legacy) True)
                    = (Inr [job], q')
          \<and> is_known_priority (job_priority job))
   \<and> (\<exists>job q'. Queue_requestJobForProcessing ''T'' (\<lambda>h. h)
                    (example_queue (example_repo scenario_legacy) True)
                    = (Inr (Settled (Some job)), q')
          \<and> is_known_priority (job_priority job))
   \<and> (\<exists>p j q'. Queue_addJob (example_job ''N1'' ''T'' 7 5 INACTIVE) (example_waiting_queue True)
                    = (Inr (), q')
          \<and> nextTick q' = [(p, j)] \<and> is_known_priority (job_priority j))
   \<and> (\<exists>job q'. Queue_createJob ''N1'' ''T'' (Some 7) None
                    (example_queue (example_repo scenario_legacy) True) = (Inr job, q')
          \<and> job_priority job = 7)"
proof -
  let ?Q = "example_queue (example_repo scenario_legacy) True"
  let ?W = "example_waiting_queue True"
  let ?N = "example_job ''N1'' ''T'' 7 5 INACTIVE"
  have k: "is_known_priority Priority_LOW"
    by (simp add: is_known_priority_def)
  have u: "\<not> is_known_priority 7"
    by (simp add: is_known_priority_def Priority_LOW_def Priority_NORMAL_def
        Priority_MEDIUM_def Priority_HIGH_def Priority_CRITICAL_def)
  obtain j1 q1 where c: "Queue_createJob ''N1'' ''T'' (Some 7) None ?Q = (Inr j1, q1)"
    using ex_createJob by (metis prod.collapse)
  obtain j2 q2 where f: "Queue_findJob ''L1'' ?Q = (Inr (Some j2), q2)"
    using ex_findJob by (metis prod.collapse)
  obtain j3 q3 where l: "Queue_listJobs None ?Q = (Inr [j3], q3)"
    using ex_listJobs by (metis prod.collapse)
  obtain j4 q4 where r: "Queue_requestJobForProcessing ''T'' (\<lambda>h. h) ?Q
                           = (Inr (Settled (Some j4)), q4)"
    using ex_request by (metis prod.collapse)
  obtain p5 j5 q5 where a: "Queue_addJob ?N ?W = (Inr (), q5)" and n5: "nextTick q5 = [(p5, j5)]"
    using ex_addJob by (metis prod.collapse)
  have w0: "nextTick ?W = []"
    by (simp add: example_waiting_queue_def example_queue_def new_Queue_def)
  from loaded_priority_known [where p = Priority_LOW] k
  have 1: "sanitizePriority Priority_LOW = (Priority_LOW, [])" by blast
  from loaded_priority_known [where p = 7] u
  have 2: "sanitizePriority 7 = (Priority_NORMAL, [InvalidPriority 7])" by blast
  from loaded_priority_known
         [where q = ?Q and new_id = "''N1''" and ty = "''T''" and priority = "Some 7"
            and data = None and job = j1 and q' = q1] c
  have 3: "job_priority j1 = 7" by simp
  from loaded_priority_known [where q = ?Q and i = "''L1''" and job = j2 and q' = q2] f
  have 4: "is_known_priority (job_priority j2)" by blast
  from loaded_priority_known
         [where q = ?Q and state = None and jobs = "[j3]" and q' = q3] l
  have 5: "is_known_priority (job_priority j3)" by simp
  from loaded_priority_known
         [where q = ?Q and ty = "''T''" and stillReq = "\<lambda>h. h" and job = j4 and q' = q4] r
  have 6: "is_known_priority (job_priority j4)" by blast
  from loaded_priority_known [where q = ?W and job = ?N and q' = q5] a n5 w0
  have 7: "is_known_priority (job_priority j5)" by auto
  from k u 1 2 3 4 5 6 7 c f l r a n5 show ?thesis by blast
qed

text \<open>
  C8 as stated fails on \<^verbatim>\<open>createJob\<close>: with the supplied priority 7, which is not in
  the known set, the Job returned has priority 7, no warning is printed, and the row
  inserted has priority 7.
\<close>

theorem createJob_unsanitized_counterexample:
  "map_sum id job_priority
     (fst (Queue_createJob ''N1'' ''T'' (Some 7) None (example_queue (example_repo []) True)))
     = Inr 7
   \<and> \<not> is_known_priority 7
   \<and> warned (snd (Queue_createJob ''N1'' ''T'' (Some 7) None
                     (example_queue (example_repo []) True))) = []
   \<and> map doc_priority (docs (repository (snd (Queue_createJob ''N1'' ''T'' (Some 7) None
                     (example_queue (example_repo []) True))))) = [7]"
  by (simp add: Queue_createJob_def new_Date_def new_Job_def Job_save_def
      Queue_addJob_def catch_emit_def addJob_body_def JobRepository_addJob_def store_call_def
      insertDoc_def example_queue_def new_Queue_def example_repo_def is_known_priority_def
      Priority_LOW_def Priority_NORMAL_def Priority_MEDIUM_def Priority_HIGH_def
      Priority_CRITICAL_def)

section \<open>C9: the getter of the worker registry\<close>

lemma registry_array_write_other:
  "a \<noteq> workers_ref q \<Longrightarrow> registry (array_write a ws q) = registry q"
  by (simp add: registry_def array_write_def)

lemma array_write_fields [simp]:
  "workers_ref (array_write a ws q) = workers_ref q"
  "length (arrays (array_write a ws q)) = length (arrays q)"
  "worker_calls (array_write a ws q) = worker_calls q"
  "next_worker (array_write a ws q) = next_worker q"
  by (simp_all add: array_write_def)

lemma array_write_swap:
  "a \<noteq> b \<Longrightarrow> array_write a xs (array_write b ys q) = array_write b ys (array_write a xs q)"
  by (simp add: array_write_def list_update_swap)

lemma array_write_calls:
  "(array_write a xs q)\<lparr>next_worker := n\<rparr> = array_write a xs (q\<lparr>next_worker := n\<rparr>)"
  "(array_write a xs q)\<lparr>worker_calls := c\<rparr> = array_write a xs (q\<lparr>worker_calls := c\<rparr>)"
  by (simp_all add: array_write_def)

lemma registry_calls [simp]:
  "registry (q\<lparr>next_worker := n, worker_calls := c\<rparr>) = registry q"
  "registry (q\<lparr>worker_calls := c\<rparr>) = registry q"
  by (simp_all add: registry_def)

lemma process_commute:
  "a \<noteq> workers_ref q \<Longrightarrow>
   Queue_process ty n (array_write a ws q) = array_write a ws (Queue_process ty n q)"
proof (induction n arbitrary: q)
  case 0
  then show ?case by simp
next
  case (Suc n)
  let ?w = "\<lparr>worker_id = next_worker q, worker_type = ty\<rparr>"
  let ?q1 = "array_write (workers_ref q) (registry q @ [?w])
               (q\<lparr>next_worker := Suc (next_worker q),
                  worker_calls := worker_calls q @ [WorkerStart (next_worker q)]\<rparr>)"
  have r: "registry (array_write a ws q) = registry q"
    using Suc.prems by (rule registry_array_write_other)
  have "Queue_process ty (Suc n) (array_write a ws q) = Queue_process ty n (array_write a ws ?q1)"
    using Suc.prems
    by (simp add: r array_write_calls array_write_swap [of a "workers_ref q"])
  also have "\<dots> = array_write a ws (Queue_process ty n ?q1)"
    using Suc.prems by (intro Suc.IH) simp
  finally show ?case by simp
qed

lemma shutdown_loop_arrays:
  "arrays (snd (shutdown_loop t ty ws acc q)) = arrays q
   \<and> workers_ref (snd (shutdown_loop t ty ws acc q)) = workers_ref q"
  by (induction ws arbitrary: acc q) auto

lemma shutdown_loop_commute:
  "shutdown_loop t ty ws acc (array_write a xs q)
     = (fst (shutdown_loop t ty ws acc q), array_write a xs (snd (shutdown_loop t ty ws acc q)))"
  by (induction ws arbitrary: acc q) (auto simp: array_write_calls)

lemma shutdown_commute:
  assumes "a \<noteq> workers_ref q" and "a < length (arrays q)"
  shows "Queue_shutdown t ty (array_write a xs q) = array_write a xs (Queue_shutdown t ty q)"
proof -
  let ?l = "shutdown_loop t ty (registry q) [] q"
  have r: "registry (array_write a xs q) = registry q"
    using assms(1) by (rule registry_array_write_other)
  have ar: "arrays (snd ?l) = arrays q" and wr: "workers_ref (snd ?l) = workers_ref q"
    using shutdown_loop_arrays [of t ty "registry q" "[]" q] by simp_all
  have r2: "registry (array_write a xs (snd ?l)) = registry (snd ?l)"
    using assms(1) wr by (intro registry_array_write_other) simp
  show ?thesis
    using assms ar
    by (simp add: Queue_shutdown_def r shutdown_loop_commute r2 case_prod_beta)
       (simp add: array_write_def list_update_append)
qed


lemma process_workers_ref: "workers_ref (Queue_process ty n q) = workers_ref q"
  by (induction n arbitrary: q) simp_all

lemma shutdown_workers_ref: "workers_ref (Queue_shutdown t ty q) = length (arrays q)"
  using shutdown_loop_arrays [of t ty "registry q" "[]" q]
  by (simp add: Queue_shutdown_def case_prod_beta)

text \<open>
  The registry's reference is a valid address in a new queue and stays one under the
  getter, \<^verbatim>\<open>process\<close> and \<^verbatim>\<open>shutdown\<close>.
\<close>

lemma process_arrays_length: "length (arrays (Queue_process ty n q)) = length (arrays q)"
  by (induction n arbitrary: q) simp_all

lemma registry_reference_valid:
  "workers_ref (new_Queue r clk h) < length (arrays (new_Queue r clk h))"
  "workers_ref q < length (arrays q) \<Longrightarrow>
     workers_ref (snd (Queue_workers q)) < length (arrays (snd (Queue_workers q)))"
  "workers_ref q < length (arrays q) \<Longrightarrow>
     workers_ref (Queue_process ty n q) < length (arrays (Queue_process ty n q))"
  "workers_ref (Queue_shutdown t tyo q) < length (arrays (Queue_shutdown t tyo q))"
proof -
  show "workers_ref (new_Queue r clk h) < length (arrays (new_Queue r clk h))"
    by (simp add: new_Queue_def)
  show "workers_ref (snd (Queue_workers q)) < length (arrays (snd (Queue_workers q)))"
    if "workers_ref q < length (arrays q)"
    using that by (simp add: Queue_workers_def)
  show "workers_ref (Queue_process ty n q) < length (arrays (Queue_process ty n q))"
    if "workers_ref q < length (arrays q)"
    using that by (simp add: process_workers_ref process_arrays_length)
  show "workers_ref (Queue_shutdown t tyo q) < length (arrays (Queue_shutdown t tyo q))"
    using shutdown_loop_arrays [of t tyo "registry q" "[]" q]
    by (simp add: Queue_shutdown_def case_prod_beta)
qed

text \<open>
  C9. In a queue whose registry reference is a valid address, the getter \<^verbatim>\<open>workers\<close>
  returns the address of a new array, different from the registry's, holding the
  registry's elements. Whatever is then written to the returned array, the registry is
  as before; \<^verbatim>\<open>process\<close> and \<^verbatim>\<open>shutdown\<close> commute with the write, so the registry
  they leave and the calls they make on workers are the same with and without it.
\<close>

theorem workers_getter_fresh_copy:
  assumes "workers_ref q < length (arrays q)"
  shows "fst (Queue_workers q) \<noteq> workers_ref (snd (Queue_workers q))
    \<and> fst (Queue_workers q) < length (arrays (snd (Queue_workers q)))
    \<and> arrays (snd (Queue_workers q)) ! fst (Queue_workers q) = registry q
    \<and> registry (snd (Queue_workers q)) = registry q
    \<and> registry (array_write (fst (Queue_workers q)) ws (snd (Queue_workers q))) = registry q
    \<and> Queue_process ty n (array_write (fst (Queue_workers q)) ws (snd (Queue_workers q)))
        = array_write (fst (Queue_workers q)) ws (Queue_process ty n (snd (Queue_workers q)))
    \<and> registry (Queue_process ty n (array_write (fst (Queue_workers q)) ws (snd (Queue_workers q))))
        = registry (Queue_process ty n (snd (Queue_workers q)))
    \<and> worker_calls (Queue_process ty n (array_write (fst (Queue_workers q)) ws (snd (Queue_workers q))))
        = worker_calls (Queue_process ty n (snd (Queue_workers q)))
    \<and> Queue_shutdown t tyo (array_write (fst (Queue_workers q)) ws (snd (Queue_workers q)))
        = array_write (fst (Queue_workers q)) ws (Queue_shutdown t tyo (snd (Queue_workers q)))
    \<and> registry (Queue_shutdown t tyo (array_write (fst (Queue_workers q)) ws (snd (Queue_workers q))))
        = registry (Queue_shutdown t tyo (snd (Queue_workers q)))
    \<and> worker_calls (Queue_shutdown t tyo (array_write (fst (Queue_workers q)) ws (snd (Queue_workers q))))
        = worker_calls (Queue_shutdown t tyo (snd (Queue_workers q)))"
proof -
  let ?a = "fst (Queue_workers q)"
  let ?q = "snd (Queue_workers q)"
  have a: "?a = length (arrays q)" and w: "workers_ref ?q = workers_ref q"
    and l: "length (arrays ?q) = Suc (length (arrays q))"
    by (simp_all add: Queue_workers_def)
  from assms a w have ne: "?a \<noteq> workers_ref ?q" by simp
  from a l have lt: "?a < length (arrays ?q)" by simp
  have c: "arrays ?q ! ?a = registry q"
    by (simp add: Queue_workers_def)
  have r: "registry ?q = registry q"
    using assms by (simp add: Queue_workers_def registry_def nth_append)
  have rw: "registry (array_write ?a ws ?q) = registry q"
    using registry_array_write_other [OF ne] r by simp
  have p: "Queue_process ty n (array_write ?a ws ?q) = array_write ?a ws (Queue_process ty n ?q)"
    using ne by (rule process_commute)
  have rp: "registry (array_write ?a ws (Queue_process ty n ?q)) = registry (Queue_process ty n ?q)"
    using ne by (intro registry_array_write_other) (simp add: process_workers_ref)
  have rs: "registry (array_write ?a ws (Queue_shutdown t tyo ?q)) = registry (Queue_shutdown t tyo ?q)"
    using l a by (intro registry_array_write_other) (simp add: shutdown_workers_ref)
  have s: "Queue_shutdown t tyo (array_write ?a ws ?q) = array_write ?a ws (Queue_shutdown t tyo ?q)"
    using ne lt by (rule shutdown_commute)
  from ne lt c r rw p s rp rs show ?thesis by simp
qed


theorem workers_getter_fresh_copy_witness:
  "workers_ref example_pool < length (arrays example_pool)
   \<and> registry example_pool
        = [\<lparr>worker_id = 0, worker_type = ''T''\<rparr>, \<lparr>worker_id = 1, worker_type = ''T''\<rparr>]
   \<and> fst (Queue_workers example_pool) = 1
   \<and> registry (array_write (fst (Queue_workers example_pool)) [] (snd (Queue_workers example_pool)))
        = registry example_pool
   \<and> registry (Queue_shutdown 100 None
        (array_write (fst (Queue_workers example_pool)) [] (snd (Queue_workers example_pool))))
        = registry (Queue_shutdown 100 None (snd (Queue_workers example_pool)))"
proof -
  have h: "workers_ref example_pool < length (arrays example_pool)"
    by (simp add: example_pool_def example_queue_def new_Queue_def array_write_def registry_def)
  have r: "registry example_pool
        = [\<lparr>worker_id = 0, worker_type = ''T''\<rparr>, \<lparr>worker_id = 1, worker_type = ''T''\<rparr>]"
    by (simp add: example_pool_def example_queue_def new_Queue_def array_write_def registry_def)
  have a: "fst (Queue_workers example_pool) = 1"
    by (simp add: Queue_workers_def example_pool_def example_queue_def new_Queue_def
        array_write_def registry_def)
  note t = workers_getter_fresh_copy [OF h, of "[]" "''T''" 0 100 None]
  from t have w: "registry (array_write (fst (Queue_workers example_pool)) []
                    (snd (Queue_workers example_pool))) = registry example_pool"
    by blast
  from t have s: "registry (Queue_shutdown 100 None
        (array_write (fst (Queue_workers example_pool)) [] (snd (Queue_workers example_pool))))
        = registry (Queue_shutdown 100 None (snd (Queue_workers example_pool)))"
    by blast
  from h r a w s show ?thesis by blast
qed

section \<open>C5: handing a new job to a waiting request\<close>

lemma shift_requests_dropWhile:
  "shift_requests h ws =
     (case dropWhile (\<lambda>w. \<not> stillRequest w h) ws of
        [] \<Rightarrow> (None, [])
      | w # rest \<Rightarrow> (Some w, rest))"
  by (induction ws) auto

lemma db_update_append_new:
  "\<forall>d\<in>set ds. \<not> p d \<Longrightarrow> p d' \<Longrightarrow> db_update p f (ds @ [d']) = (1, ds @ [f d'])"
  by (induction ds) auto

lemma store_call_no_faults:
  "faults r = [] \<Longrightarrow> store_call op r = (None, r\<lparr>oplog := oplog r @ [op]\<rparr>)"
  by (simp add: store_call_def)

lemma addJob_insert:
  assumes "faults r = []" and "job_id job \<notin> doc_id ` set (docs r)"
  shows "JobRepository_addJob job r =
           (Inr (insertDoc job), r\<lparr>docs := docs r @ [insertDoc job], oplog := oplog r @ [OpInsert]\<rparr>)"
  using assms by (simp add: JobRepository_addJob_def store_call_no_faults)

lemma updateJob_last:
  assumes "faults r = []" and "\<forall>d\<in>set ds. doc_id d \<noteq> job_id j" and "doc_id d' = job_id j"
    and "docs r = ds @ [d']"
  shows "JobRepository_updateJob j r =
           (Inr (), r\<lparr>docs := ds @ [updateQuery j d'], oplog := oplog r @ [OpUpdate]\<rparr>)"
proof -
  have "db_update (\<lambda>d. doc_id d = job_id j) (updateQuery j) (ds @ [d']) = (1, ds @ [updateQuery j d'])"
    using assms(2,3) by (intro db_update_append_new) auto
  with assms(1,4) show ?thesis
    by (simp add: JobRepository_updateJob_def store_call_no_faults)
qed

lemma setStateToActive_last:
  assumes "faults (repository q) = []" and "\<forall>d\<in>set ds. doc_id d \<noteq> job_id j" and "doc_id d' = job_id j"
    and "docs (repository q) = ds @ [d']" and "job_state j = INACTIVE" and "job_saved j"
  shows "Job_setStateToActive j q =
           (Inr (activated j (clock q (ticks q))),
            q\<lparr>ticks := Suc (ticks q),
              repository := (repository q)
                \<lparr>docs := ds @ [updateQuery (activated j (clock q (ticks q))) d'],
                 oplog := oplog (repository q) @ [OpUpdate]\<rparr>\<rparr>)"
proof -
  let ?a = "activated j (clock q (ticks q))"
  have "JobRepository_updateJob ?a (repository q) =
           (Inr (), (repository q)\<lparr>docs := ds @ [updateQuery ?a d'],
                                   oplog := oplog (repository q) @ [OpUpdate]\<rparr>)"
    using assms by (intro updateJob_last) (simp_all add: activated_def)
  with assms(5,6) show ?thesis
    by (simp add: Job_setStateToActive_def new_Date_def Job_update_def Queue_updateJob_def
        catch_emit_def activated_def)
qed


text \<open>
  C5. \<^verbatim>\<open>Queue.addJob\<close> on a job that is INACTIVE and whose id is new, with no store
  failure, while a list of waiting requests exists for the job's type. The requests that
  no longer request are dropped from the head of the list, up to the first that still
  requests. If there is none, the list is left empty, the job is stored INACTIVE, and
  nothing is deferred or resolved. If there is one, the list keeps what follows it, the
  stored job is ACTIVE, the resolution of that request's promise with the active job is
  deferred to the next tick and no promise is resolved within the call (the dropped
  requests never are); the next tick resolves it.
\<close>

theorem addJob_handoff:
  assumes nf: "faults (repository q) = []"
    and new: "job_id job \<notin> doc_id ` set (docs (repository q))"
    and st: "job_state job = INACTIVE"
    and ws: "waitingRequests q (job_type job) = Some ws"
  shows "(case dropWhile (\<lambda>w. \<not> stillRequest w (host q)) ws of
            [] \<Rightarrow>
              Queue_addJob job q =
                (Inr (),
                 q\<lparr> repository := (repository q)
                      \<lparr>docs := docs (repository q) @ [insertDoc job],
                       oplog := oplog (repository q) @ [OpInsert]\<rparr>,
                    waitingRequests := (waitingRequests q)(job_type job \<mapsto> []) \<rparr>)
              \<and> doc_state (insertDoc job) = Some INACTIVE
          | w # rest \<Rightarrow>
              (\<exists>activeJob q'.
                 Queue_addJob job q = (Inr (), q')
                 \<and> activeJob = activated (doc_to_job (insertDoc job)) (clock q (ticks q))
                 \<and> job_id activeJob = job_id job \<and> job_state activeJob = ACTIVE
                 \<and> waitingRequests q' = (waitingRequests q)(job_type job \<mapsto> rest)
                 \<and> docs (repository q')
                      = docs (repository q) @ [updateQuery activeJob (insertDoc job)]
                 \<and> doc_state (updateQuery activeJob (insertDoc job)) = Some ACTIVE
                 \<and> oplog (repository q') = oplog (repository q) @ [OpInsert, OpUpdate]
                 \<and> nextTick q' = nextTick q @ [(promise w, activeJob)]
                 \<and> resolved q' = resolved q
                 \<and> resolved (run_nextTick q') = resolved q @ nextTick q @ [(promise w, activeJob)]
                 \<and> emitted q' = emitted q))"
proof (cases "dropWhile (\<lambda>w. \<not> stillRequest w (host q)) ws")
  case Nil
  have sh: "shift_requests (host q) ws = (None, [])"
    by (simp only: shift_requests_dropWhile Nil list.case)
  from addJob_insert [OF nf new] ws sh st show ?thesis
    unfolding Nil list.case
    by (simp add: Queue_addJob_def catch_emit_def addJob_body_def insertDoc_def)
next
  case (Cons w rest)
  have sh: "shift_requests (host q) ws = (Some w, rest)"
    by (simp only: shift_requests_dropWhile Cons list.case)
  let ?r1 = "(repository q)\<lparr>docs := docs (repository q) @ [insertDoc job],
                               oplog := oplog (repository q) @ [OpInsert]\<rparr>"
  let ?q1 = "q\<lparr>repository := ?r1,
               waitingRequests := (waitingRequests q)(job_type job \<mapsto> rest),
               warned := warned q @ snd (sanitizePriority (doc_priority (insertDoc job)))\<rparr>"
  let ?j = "doc_to_job (insertDoc job)"
  let ?a = "activated ?j (clock q (ticks q))"
  from new have nd: "\<forall>d\<in>set (docs (repository q)). doc_id d \<noteq> job_id ?j"
    by (auto simp: doc_to_job_def insertDoc_def image_iff eq_commute [of "job_id job"])
  have act: "Job_setStateToActive ?j ?q1 =
           (Inr (activated ?j (clock ?q1 (ticks ?q1))),
            ?q1\<lparr>ticks := Suc (ticks ?q1),
              repository := (repository ?q1)
                \<lparr>docs := docs (repository q) @ [updateQuery (activated ?j (clock ?q1 (ticks ?q1))) (insertDoc job)],
                 oplog := oplog (repository ?q1) @ [OpUpdate]\<rparr>\<rparr>)"
    using nf nd st
    by (intro setStateToActive_last) (simp_all add: doc_to_job_def insertDoc_def)
  have res: "Queue_addJob job q =
          (Inr (), ?q1\<lparr>ticks := Suc (ticks q),
              repository := ?r1
                \<lparr>docs := docs (repository q) @ [updateQuery ?a (insertDoc job)],
                 oplog := oplog ?r1 @ [OpUpdate]\<rparr>,
              nextTick := nextTick q @ [(promise w, ?a)]\<rparr>)"
    using addJob_insert [OF nf new] ws sh act
    by (simp add: Queue_addJob_def catch_emit_def addJob_body_def convertNeDbJobToJob_eq)
  show ?thesis
    unfolding Cons list.case res
    by (simp add: run_nextTick_def activated_def doc_to_job_def insertDoc_def updateQuery_def)
qed


theorem addJob_handoff_witness:
  "faults (repository (example_waiting_queue True)) = []
   \<and> job_id (example_job ''N1'' ''T'' 0 5 INACTIVE)
        \<notin> doc_id ` set (docs (repository (example_waiting_queue True)))
   \<and> job_state (example_job ''N1'' ''T'' 0 5 INACTIVE) = INACTIVE
   \<and> waitingRequests (example_waiting_queue True) (job_type (example_job ''N1'' ''T'' 0 5 INACTIVE))
        = Some example_waiting
   \<and> (\<exists>q'. Queue_addJob (example_job ''N1'' ''T'' 0 5 INACTIVE) (example_waiting_queue True)
                = (Inr (), q')
          \<and> waitingRequests q' ''T'' = Some [\<lparr>promise = 2, stillRequest = (\<lambda>h. h)\<rparr>]
          \<and> map doc_state (docs (repository q')) = [Some ACTIVE]
          \<and> map fst (nextTick q') = [1]
          \<and> resolved q' = []
          \<and> map fst (resolved (run_nextTick q')) = [1])"
proof -
  let ?Q = "example_waiting_queue True"
  let ?J = "example_job ''N1'' ''T'' 0 5 INACTIVE"
  have 1: "faults (repository ?Q) = []"
    by (simp add: example_waiting_queue_def example_queue_def new_Queue_def example_repo_def)
  have 2: "job_id ?J \<notin> doc_id ` set (docs (repository ?Q))"
    by (simp add: example_waiting_queue_def example_queue_def new_Queue_def example_repo_def)
  have 3: "job_state ?J = INACTIVE"
    by (simp add: example_job_def doc_to_job_def example_doc_def)
  have 4: "waitingRequests ?Q (job_type ?J) = Some example_waiting"
    by (simp add: example_waiting_queue_def example_job_def doc_to_job_def example_doc_def)
  have 5: "dropWhile (\<lambda>w. \<not> stillRequest w (host ?Q)) example_waiting
             = [\<lparr>promise = 1, stillRequest = (\<lambda>h. h)\<rparr>, \<lparr>promise = 2, stillRequest = (\<lambda>h. h)\<rparr>]"
    by (simp add: example_waiting_def example_waiting_queue_def example_queue_def new_Queue_def)
  have 6: "job_type ?J = ''T''"
    by (simp add: example_job_def doc_to_job_def example_doc_def)
  have 7: "docs (repository ?Q) = [] \<and> nextTick ?Q = [] \<and> resolved ?Q = []"
    by (simp add: example_waiting_queue_def example_queue_def new_Queue_def example_repo_def)
  from addJob_handoff [OF 1 2 3 4] 1 2 3 4 6 7 show ?thesis
    unfolding 5 list.case by auto
qed

section \<open>C2: crash recovery\<close>

lemma db_update_distinct:
  "distinct (map doc_id ds) \<Longrightarrow> d \<in> set ds \<Longrightarrow>
   db_update (\<lambda>x. doc_id x = doc_id d) f ds
     = (1, map (\<lambda>x. if doc_id x = doc_id d then f x else x) ds)"
proof (induction ds)
  case Nil
  then show ?case by simp
next
  case (Cons a ds)
  show ?case
  proof (cases "doc_id a = doc_id d")
    case True
    with Cons.prems have "\<forall>x\<in>set ds. doc_id x \<noteq> doc_id d" by (auto simp: image_iff)
    then have "map (\<lambda>x. if doc_id x = doc_id d then f x else x) ds = ds"
      by (induction ds) auto
    with True show ?thesis by simp
  next
    case False
    with Cons show ?thesis by auto
  qed
qed

lemma setStateToFailure_step:
  assumes nf: "faults (repository q) = []"
    and dist: "distinct (map doc_id (docs (repository q)))"
    and din: "d \<in> set (docs (repository q))"
    and act: "doc_state d = Some ACTIVE"
  shows "Job_setStateToFailure (doc_to_job d) err q =
     (Inr (failed_job (doc_to_job d) err (clock q (ticks q))),
      q\<lparr> ticks := Suc (ticks q),
         repository := (repository q)
           \<lparr>docs := map (\<lambda>x. if doc_id x = doc_id d
                              then updateQuery (failed_job (doc_to_job d) err (clock q (ticks q))) x
                              else x) (docs (repository q)),
            oplog := oplog (repository q) @ [OpUpdate]\<rparr>,
         emitted := emitted q @ [FailureEvent (failed_job (doc_to_job d) err (clock q (ticks q))) err] \<rparr>)"
proof -
  let ?fj = "failed_job (doc_to_job d) err (clock q (ticks q))"
  have i: "job_id ?fj = doc_id d" and s: "job_saved ?fj"
    by (simp_all add: failed_job_def doc_to_job_def)
  have "JobRepository_updateJob ?fj (repository q) =
          (Inr (), (repository q)
             \<lparr>docs := map (\<lambda>x. if doc_id x = doc_id d then updateQuery ?fj x else x)
                        (docs (repository q)),
              oplog := oplog (repository q) @ [OpUpdate]\<rparr>)"
    using nf db_update_distinct [OF dist din, of "updateQuery ?fj"]
    by (simp add: JobRepository_updateJob_def store_call_def i)
  with act s show ?thesis
    by (simp add: Job_setStateToFailure_def new_Date_def Job_update_def Queue_updateJob_def
        catch_emit_def emit_def doc_to_job_def)
qed


lemma recovered_in_ids:
  "list_all2 (recovered_in S) D ds \<Longrightarrow> map doc_id ds = map doc_id D"
  by (induction D ds rule: list_all2_induct)
     (auto simp: recovered_in_def failed_from_def split: if_splits)

lemma recovered_in_untouched:
  assumes "list_all2 (recovered_in S) D ds" and "d \<in> set D" and "doc_id d \<notin> S"
  shows "d \<in> set ds"
proof -
  from assms(2) obtain i where i: "i < length D" "D ! i = d"
    by (auto simp: in_set_conv_nth)
  from assms(1) i have "recovered_in S d (ds ! i)" and "i < length ds"
    by (auto simp: list_all2_conv_all_nth)
  with assms(3) show ?thesis
    by (auto simp: recovered_in_def)
qed

lemma distinct_ids_eq:
  "distinct (map doc_id D) \<Longrightarrow> a \<in> set D \<Longrightarrow> d \<in> set D \<Longrightarrow> doc_id a = doc_id d \<Longrightarrow> a = d"
  by (auto simp: distinct_map dest: inj_onD)

lemma recovered_in_step:
  assumes dD: "distinct (map doc_id D)"
    and rel: "list_all2 (recovered_in S) D ds"
    and d: "d \<in> set D" "doc_id d \<notin> S"
    and fj: "job_id fj = doc_id d" "job_state fj = FAILURE" "job_failedAt fj \<noteq> None"
            "job_logs fj = doc_logs d @ [''unexpectedly termination'']"
  shows "list_all2 (recovered_in (insert (doc_id d) S)) D
           (map (\<lambda>x. if doc_id x = doc_id d then updateQuery fj x else x) ds)"
proof -
  have "list_all2 (\<lambda>a b. recovered_in (insert (doc_id d) S) a
                            (if doc_id b = doc_id d then updateQuery fj b else b)) D ds"
    using rel
  proof (rule list.rel_mono_strong)
    fix a b
    assume a: "a \<in> set D" and b: "b \<in> set ds" and r: "recovered_in S a b"
    show "recovered_in (insert (doc_id d) S) a (if doc_id b = doc_id d then updateQuery fj b else b)"
    proof (cases "doc_id a \<in> S")
      case True
      with r have f: "failed_from a b" by (simp add: recovered_in_def)
      then have "doc_id b = doc_id a" by (simp add: failed_from_def)
      with True d(2) have "doc_id b \<noteq> doc_id d" by auto
      with True f show ?thesis by (simp add: recovered_in_def)
    next
      case False
      with r have ba: "b = a" by (simp add: recovered_in_def)
      show ?thesis
      proof (cases "doc_id a = doc_id d")
        case True
        from distinct_ids_eq [OF dD a d(1) True] have "a = d" .
        with ba fj show ?thesis
          by (simp add: recovered_in_def failed_from_def updateQuery_def)
      next
        case False
        with \<open>doc_id a \<notin> S\<close> ba show ?thesis by (simp add: recovered_in_def)
      qed
    qed
  qed
  then show ?thesis by (simp add: list_all2_map2)
qed


lemma fail_all_recovers:
  assumes "faults (repository q) = []"
    and "distinct (map doc_id D)"
    and "list_all2 (recovered_in S) D (docs (repository q))"
    and "distinct (map doc_id ds)"
    and "\<forall>d\<in>set ds. d \<in> set D \<and> doc_state d = Some ACTIVE \<and> doc_id d \<notin> S"
  shows "\<exists>q' fs. fail_all (map doc_to_job ds) q = (Inr (), q')
           \<and> list_all2 (recovered_in (S \<union> doc_id ` set ds)) D (docs (repository q'))
           \<and> faults (repository q') = []
           \<and> oplog (repository q') = oplog (repository q) @ replicate (length ds) OpUpdate
           \<and> emitted q' = emitted q @ fs \<and> length fs = length ds
           \<and> (\<forall>ev\<in>set fs. \<exists>j. ev = FailureEvent j (Err ''unexpectedly termination''))"
  using assms
proof (induction ds arbitrary: q S)
  case Nil
  then show ?case by simp
next
  case (Cons d ds)
  let ?err = "Err ''unexpectedly termination''"
  let ?fj = "failed_job (doc_to_job d) ?err (clock q (ticks q))"
  let ?docs1 = "map (\<lambda>x. if doc_id x = doc_id d then updateQuery ?fj x else x) (docs (repository q))"
  let ?q1 = "q\<lparr> ticks := Suc (ticks q),
         repository := (repository q)\<lparr>docs := ?docs1, oplog := oplog (repository q) @ [OpUpdate]\<rparr>,
         emitted := emitted q @ [FailureEvent ?fj ?err] \<rparr>"
  from Cons.prems(5) have d: "d \<in> set D" "doc_state d = Some ACTIVE" "doc_id d \<notin> S"
    by simp_all
  have ids: "map doc_id (docs (repository q)) = map doc_id D"
    using Cons.prems(3) by (rule recovered_in_ids)
  with Cons.prems(2) have dq: "distinct (map doc_id (docs (repository q)))" by simp
  have din: "d \<in> set (docs (repository q))"
    using Cons.prems(3) d(1) d(3) by (rule recovered_in_untouched)
  have step: "Job_setStateToFailure (doc_to_job d) ?err q = (Inr ?fj, ?q1)"
    using Cons.prems(1) dq din d(2) by (rule setStateToFailure_step)
  have rel1: "list_all2 (recovered_in (insert (doc_id d) S)) D ?docs1"
    using Cons.prems(2) Cons.prems(3) d(1) d(3)
    by (rule recovered_in_step)
       (simp_all add: failed_job_def doc_to_job_def error_message_def)
  have rest: "\<forall>x\<in>set ds. x \<in> set D \<and> doc_state x = Some ACTIVE \<and> doc_id x \<notin> insert (doc_id d) S"
    using Cons.prems(4,5) by (auto simp: image_iff)
  have "\<exists>q' fs. fail_all (map doc_to_job ds) ?q1 = (Inr (), q')
           \<and> list_all2 (recovered_in (insert (doc_id d) S \<union> doc_id ` set ds)) D (docs (repository q'))
           \<and> faults (repository q') = []
           \<and> oplog (repository q') = oplog (repository ?q1) @ replicate (length ds) OpUpdate
           \<and> emitted q' = emitted ?q1 @ fs \<and> length fs = length ds
           \<and> (\<forall>ev\<in>set fs. \<exists>j. ev = FailureEvent j ?err)"
    using Cons.prems(1,2,4) rel1 rest by (intro Cons.IH) simp_all
  then obtain q' fs where r:
    "fail_all (map doc_to_job ds) ?q1 = (Inr (), q')"
    "list_all2 (recovered_in (insert (doc_id d) S \<union> doc_id ` set ds)) D (docs (repository q'))"
    "faults (repository q') = []"
    "oplog (repository q') = oplog (repository ?q1) @ replicate (length ds) OpUpdate"
    "emitted q' = emitted ?q1 @ fs" "length fs = length ds"
    "\<forall>ev\<in>set fs. \<exists>j. ev = FailureEvent j ?err"
    by blast
  have f: "fail_all (map doc_to_job (d # ds)) q = (Inr (), q')"
    using step r(1) by simp
  have o: "oplog (repository q') = oplog (repository q) @ replicate (length (d # ds)) OpUpdate"
    using r(4) by (simp add: replicate_app_Cons_same)
  have e: "emitted q' = emitted q @ (FailureEvent ?fj ?err # fs)"
    using r(5) by simp
  have s: "insert (doc_id d) S \<union> doc_id ` set ds = S \<union> doc_id ` set (d # ds)" by auto
  show ?case
    apply (rule exI [of _ q'])
    apply (rule exI [of _ "FailureEvent ?fj ?err # fs"])
    using f r(2) r(3) o e r(6) r(7) unfolding s by simp
qed


lemma distinct_insert_sorted:
  "distinct (map f (insert_sorted cmp x xs)) = (f x \<notin> f ` set xs \<and> distinct (map f xs))"
  by (induction xs) (auto simp: set_insert_sorted)

lemma distinct_stable_sort:
  "distinct (map f (stable_sort cmp xs)) = distinct (map f xs)"
  by (induction xs) (auto simp: distinct_insert_sorted set_stable_sort)

lemma length_insert_sorted: "length (insert_sorted cmp x xs) = Suc (length xs)"
  by (induction xs) auto

lemma length_stable_sort: "length (stable_sort cmp xs) = length xs"
  by (induction xs) (auto simp: length_insert_sorted)

lemma convert_all_eq:
  "\<exists>ws. convert_all ds q = (map doc_to_job ds, q\<lparr>warned := warned q @ ws\<rparr>)"
proof (induction ds arbitrary: q)
  case Nil
  have "q = q\<lparr>warned := warned q @ []\<rparr>" by simp
  then show ?case by (metis convert_all.simps(1) list.simps(8))
next
  case (Cons d ds)
  let ?q1 = "q\<lparr>warned := warned q @ snd (sanitizePriority (doc_priority d))\<rparr>"
  from Cons [of ?q1] obtain ws where
    "convert_all ds ?q1 = (map doc_to_job ds, ?q1\<lparr>warned := warned ?q1 @ ws\<rparr>)" by blast
  then have "convert_all (d # ds) q
      = (map doc_to_job (d # ds),
         q\<lparr>warned := warned q @ (snd (sanitizePriority (doc_priority d)) @ ws)\<rparr>)"
    by (simp add: convertNeDbJobToJob_eq)
  then show ?case by blast
qed

text \<open>
  C2, as amended. \<^verbatim>\<open>Queue.createQueue\<close> on a store with distinct ids and no store
  failure returns the queue. After the load it lists the ACTIVE jobs once and updates
  each of them once: every document that was ACTIVE is FAILURE with the message
  "unexpectedly termination" (the text of the error in the source) appended to its logs,
  every other document is unchanged, and one Failure event with that error is emitted per
  recovered job.
\<close>

theorem createQueue_crash_recovery:
  assumes nf: "faults r = []" and dist: "distinct (map doc_id (docs r))"
  shows "\<exists>q' fs. Queue_createQueue r clk h = (Inr (), q')
           \<and> list_all2 recovered (docs r) (docs (repository q'))
           \<and> oplog (repository q')
               = oplog r @ [OpLoad, OpFind]
                   @ replicate (length (filter (\<lambda>d. doc_state d = Some ACTIVE) (docs r))) OpUpdate
           \<and> emitted q' = fs
           \<and> length fs = length (filter (\<lambda>d. doc_state d = Some ACTIVE) (docs r))
           \<and> (\<forall>ev\<in>set fs. \<exists>j. ev = FailureEvent j (Err ''unexpectedly termination''))"
proof -
  let ?act = "filter (\<lambda>d. doc_state d = Some ACTIVE) (docs r)"
  let ?ds = "db_sort [(doc_createdAt, 1)] ?act"
  let ?r1 = "r\<lparr>oplog := oplog r @ [OpLoad, OpFind]\<rparr>"
  let ?q0 = "(new_Queue r clk h)\<lparr>repository := ?r1\<rparr>"
  obtain ws where cv: "convert_all ?ds ?q0 = (map doc_to_job ?ds, ?q0\<lparr>warned := warned ?q0 @ ws\<rparr>)"
    using convert_all_eq by blast
  let ?q1 = "?q0\<lparr>warned := warned ?q0 @ ws\<rparr>"
  have cq: "Queue_createQueue r clk h = fail_all (map doc_to_job ?ds) ?q1"
    using nf cv
    by (simp add: Queue_createQueue_def JobRepository_init_def store_call_def
        Queue_cleanupAfterUnexpectedlyTermination_def Queue_listJobs_def catch_emit_def
        JobRepository_listJobs_def new_Queue_def)
  have set_ds: "set ?ds = {d \<in> set (docs r). doc_state d = Some ACTIVE}"
    by (simp add: db_sort_def set_stable_sort)
  have dist_ds: "distinct (map doc_id ?ds)"
    using dist by (simp add: db_sort_def distinct_stable_sort distinct_map_filter)
  have len_ds: "length ?ds = length ?act"
    by (simp add: db_sort_def length_stable_sort)
  have "\<exists>q' fs. fail_all (map doc_to_job ?ds) ?q1 = (Inr (), q')
           \<and> list_all2 (recovered_in ({} \<union> doc_id ` set ?ds)) (docs r) (docs (repository q'))
           \<and> faults (repository q') = []
           \<and> oplog (repository q') = oplog (repository ?q1) @ replicate (length ?ds) OpUpdate
           \<and> emitted q' = emitted ?q1 @ fs \<and> length fs = length ?ds
           \<and> (\<forall>ev\<in>set fs. \<exists>j. ev = FailureEvent j (Err ''unexpectedly termination''))"
  proof (rule fail_all_recovers)
    show "faults (repository ?q1) = []" using nf by simp
    show "distinct (map doc_id (docs r))" by (rule dist)
    show "list_all2 (recovered_in {}) (docs r) (docs (repository ?q1))"
      by (simp add: list_all2_same recovered_in_def)
    show "distinct (map doc_id ?ds)" by (rule dist_ds)
    show "\<forall>d\<in>set ?ds. d \<in> set (docs r) \<and> doc_state d = Some ACTIVE \<and> doc_id d \<notin> {}"
      unfolding set_ds by simp
  qed
  then obtain q' fs where r:
    "fail_all (map doc_to_job ?ds) ?q1 = (Inr (), q')"
    "list_all2 (recovered_in ({} \<union> doc_id ` set ?ds)) (docs r) (docs (repository q'))"
    "oplog (repository q') = oplog (repository ?q1) @ replicate (length ?ds) OpUpdate"
    "emitted q' = emitted ?q1 @ fs" "length fs = length ?ds"
    "\<forall>ev\<in>set fs. \<exists>j. ev = FailureEvent j (Err ''unexpectedly termination'')"
    by blast
  have rel: "list_all2 recovered (docs r) (docs (repository q'))"
    using r(2)
  proof (rule list.rel_mono_strong)
    fix a b
    assume a: "a \<in> set (docs r)" and rb: "recovered_in ({} \<union> doc_id ` set ?ds) a b"
    have "(doc_id a \<in> doc_id ` set ?ds) = (doc_state a = Some ACTIVE)"
    proof
      assume "doc_id a \<in> doc_id ` set ?ds"
      then obtain x where x: "x \<in> set ?ds" "doc_id a = doc_id x" by auto
      then have "x \<in> set (docs r)" "doc_state x = Some ACTIVE" unfolding set_ds by simp_all
      with distinct_ids_eq [OF dist a this(1) x(2)] show "doc_state a = Some ACTIVE" by simp
    next
      assume "doc_state a = Some ACTIVE"
      with a have "a \<in> set ?ds" unfolding set_ds by simp
      then show "doc_id a \<in> doc_id ` set ?ds" by (rule imageI)
    qed
    with rb show "recovered a b" by (simp add: recovered_in_def recovered_def)
  qed
  show ?thesis
    apply (rule exI [of _ q'])
    apply (rule exI [of _ fs])
    using cq r(1) rel r(3) r(4) r(5) r(6) len_ds by (simp add: new_Queue_def)
qed


lemma S4_eval:
  "snd (Queue_createQueue (example_repo scenario_S4) example_clock True)
     = (new_Queue
          \<lparr> docs = [(example_doc ''A'' ''T'' Priority_NORMAL 1 ACTIVE)
                      \<lparr> doc_failedAt := Some 1000, doc_state := Some FAILURE,
                        doc_logs := [''unexpectedly termination''] \<rparr>,
                    example_doc ''B'' ''T'' Priority_NORMAL 2 INACTIVE,
                    example_doc ''C'' ''T'' Priority_NORMAL 3 COMPLETE],
            faults = [], oplog = [OpLoad, OpFind, OpUpdate] \<rparr> example_clock True)
       \<lparr> ticks := 1,
         emitted := [FailureEvent
            (failed_job (doc_to_job (example_doc ''A'' ''T'' Priority_NORMAL 1 ACTIVE))
               (Err ''unexpectedly termination'') 1000)
            (Err ''unexpectedly termination'')] \<rparr>"
  by (simp add: Queue_createQueue_def JobRepository_init_def store_call_def
        Queue_cleanupAfterUnexpectedlyTermination_def Queue_listJobs_def catch_emit_def
        JobRepository_listJobs_def new_Queue_def example_repo_def scenario_S4_def
        db_sort_def compareThings_def convertNeDbJobToJob_eq
        Job_setStateToFailure_def new_Date_def Job_update_def Queue_updateJob_def
        JobRepository_updateJob_def emit_def failed_job_def doc_to_job_def
        example_doc_def updateQuery_def error_message_def example_clock_def
        sanitizePriority_def Priority_NORMAL_def)

text \<open>
  C2 as stated fails on scenario S4: the error that fails job A is "unexpectedly
  termination", not "unexpectedly terminated".
\<close>

theorem createQueue_error_message_counterexample:
  "map doc_state (docs (repository (snd (Queue_createQueue (example_repo scenario_S4) example_clock True))))
     = [Some FAILURE, Some INACTIVE, Some COMPLETE]
   \<and> map doc_logs (docs (repository (snd (Queue_createQueue (example_repo scenario_S4) example_clock True))))
     = [[''unexpectedly termination''], [], []]
   \<and> emitted (snd (Queue_createQueue (example_repo scenario_S4) example_clock True))
     = [FailureEvent
          (failed_job (doc_to_job (example_doc ''A'' ''T'' Priority_NORMAL 1 ACTIVE))
             (Err ''unexpectedly termination'') 1000)
          (Err ''unexpectedly termination'')]
   \<and> Err ''unexpectedly termination'' \<noteq> Err ''unexpectedly terminated''"
  unfolding S4_eval by (simp add: new_Queue_def example_doc_def)

theorem createQueue_crash_recovery_witness:
  "faults (example_repo scenario_S4) = []
   \<and> distinct (map doc_id (docs (example_repo scenario_S4)))
   \<and> (\<exists>q'. Queue_createQueue (example_repo scenario_S4) example_clock True = (Inr (), q')
          \<and> list_all2 recovered scenario_S4 (docs (repository q'))
          \<and> oplog (repository q') = [OpLoad, OpFind, OpUpdate]
          \<and> length (emitted q') = 1)"
proof -
  have 1: "faults (example_repo scenario_S4) = []"
    by (simp add: example_repo_def)
  have 2: "distinct (map doc_id (docs (example_repo scenario_S4)))"
    by (simp add: example_repo_def scenario_S4_def example_doc_def)
  have 3: "docs (example_repo scenario_S4) = scenario_S4" "oplog (example_repo scenario_S4) = []"
    by (simp_all add: example_repo_def)
  have 4: "filter (\<lambda>d. doc_state d = Some ACTIVE) scenario_S4
             = [example_doc ''A'' ''T'' Priority_NORMAL 1 ACTIVE]"
    by (simp add: scenario_S4_def example_doc_def)
  from createQueue_crash_recovery [OF 1 2, of example_clock True] 1 2 show ?thesis
    unfolding 3 4 by auto
qed

section \<open>C7: errors are emitted and raised again\<close>

lemma extends_refl [simp]: "extends q q"
  by (simp add: extends_def)

lemma extends_same: "emitted q' = emitted q \<Longrightarrow> extends q q'"
  by (simp add: extends_def)

lemma extends_iff: "extends q q' = (\<exists>evs. emitted q' = emitted q @ evs)"
  unfolding extends_def
  by (metis append_eq_conv_conj le_add1 length_append)

lemma extends_trans: "extends q q1 \<Longrightarrow> extends q1 q2 \<Longrightarrow> extends q q2"
  by (auto simp: extends_iff)

lemma extends_emit: "extends q q1 \<Longrightarrow> emits_error q e j (emit (ErrorEvent e j) q1)"
  by (auto simp: extends_iff emits_error_def emit_def)

lemma emits_error_extends: "emits_error q e j q' \<Longrightarrow> extends q q'"
  by (simp add: emits_error_def extends_def)

lemma emits_error_iff:
  "emits_error q e j q' = (\<exists>evs. emitted q' = emitted q @ evs @ [ErrorEvent e j])"
proof
  assume h: "emits_error q e j q'"
  let ?n = "length (emitted q)"
  let ?d = "drop ?n (emitted q')"
  from h have ne: "?d \<noteq> []" by (simp add: emits_error_def)
  from h have "emitted q' = emitted q @ ?d"
    by (metis append_take_drop_id emits_error_def)
  moreover from ne have "?d = butlast ?d @ [last ?d]"
    by (rule append_butlast_last_id [symmetric])
  moreover from h ne have "last ?d = ErrorEvent e j"
    by (simp add: emits_error_def)
  ultimately have "emitted q' = emitted q @ butlast ?d @ [ErrorEvent e j]" by metis
  then show "\<exists>evs. emitted q' = emitted q @ evs @ [ErrorEvent e j]" by blast
next
  assume "\<exists>evs. emitted q' = emitted q @ evs @ [ErrorEvent e j]"
  then show "emits_error q e j q'" by (auto simp: emits_error_def)
qed

lemma extends_emits_error: "extends q q1 \<Longrightarrow> emits_error q1 e j q' \<Longrightarrow> emits_error q e j q'"
  unfolding extends_iff emits_error_iff by auto

lemma catch_emit_Inl:
  assumes "catch_emit j body q = (Inl e, q')"
  obtains q1 where "body q = (Inl e, q1)" and "q' = emit (ErrorEvent e j) q1"
  using assms by (auto simp: catch_emit_def split: prod.splits sum.splits)

lemma catch_emit_Inr:
  "catch_emit j body q = (Inr a, q') \<Longrightarrow> body q = (Inr a, q')"
  by (auto simp: catch_emit_def split: prod.splits sum.splits)

lemma catch_emit_extends:
  assumes "\<And>r q1. body q = (r, q1) \<Longrightarrow> extends q q1"
  shows "extends q (snd (catch_emit j body q))"
proof (cases "body q")
  case (Pair r q1)
  with assms have "extends q q1" by blast
  with Pair show ?thesis
    by (cases r) (auto simp: catch_emit_def extends_iff emit_def)
qed

lemma catch_emit_emits:
  assumes "catch_emit j body q = (Inl e, q')"
    and "\<And>r q1. body q = (r, q1) \<Longrightarrow> extends q q1"
  shows "emits_error q e j q'"
proof -
  from assms(1) obtain q1 where b: "body q = (Inl e, q1)" and q': "q' = emit (ErrorEvent e j) q1"
    by (rule catch_emit_Inl)
  from assms(2) [OF b] show ?thesis unfolding q' by (rule extends_emit)
qed


lemma extends_repository [simp]: "extends q (q'\<lparr>repository := r\<rparr>) = extends q q'"
  by (simp add: extends_def)

lemma extends_fields [simp]:
  "extends q (q'\<lparr>warned := w\<rparr>) = extends q q'"
  "extends q (q'\<lparr>ticks := t\<rparr>) = extends q q'"
  "extends q (q'\<lparr>waitingRequests := wr\<rparr>) = extends q q'"
  "extends q (q'\<lparr>nextTick := nt\<rparr>) = extends q q'"
  "extends q (q'\<lparr>mutex_log := m\<rparr>) = extends q q'"
  "extends q (q'\<lparr>promises := p\<rparr>) = extends q q'"
  by (simp_all add: extends_def)

lemma extends_from_fields [simp]:
  "extends (q\<lparr>repository := r\<rparr>) q' = extends q q'"
  "extends (q\<lparr>warned := w\<rparr>) q' = extends q q'"
  "extends (q\<lparr>ticks := t\<rparr>) q' = extends q q'"
  "extends (q\<lparr>waitingRequests := wr\<rparr>) q' = extends q q'"
  "extends (q\<lparr>mutex_log := m\<rparr>) q' = extends q q'"
  by (simp_all add: extends_def)

lemma extends_emit_any: "extends q q' \<Longrightarrow> extends q (emit ev q')"
  by (auto simp: extends_iff emit_def)

lemma Queue_updateJob_extends: "extends q (snd (Queue_updateJob job q))"
  unfolding Queue_updateJob_def
  by (rule catch_emit_extends) (auto split: prod.splits)

lemma Queue_removeJob_extends: "extends q (snd (Queue_removeJob job q))"
  unfolding Queue_removeJob_def
  by (rule catch_emit_extends) (auto split: prod.splits)

lemma Job_update_extends: "extends q (snd (Job_update job q))"
  by (simp add: Job_update_def Queue_updateJob_extends)

lemma Job_remove_extends: "extends q (snd (Job_remove job q))"
  by (simp add: Job_remove_def Queue_removeJob_extends)

lemma Job_setStateToActive_extends: "extends q (snd (Job_setStateToActive job q))"
proof -
  let ?q1 = "q\<lparr>ticks := Suc (ticks q)\<rparr>"
  let ?j = "job\<lparr>job_state := ACTIVE, job_startedAt := Some (clock q (ticks q)),
                 job_updatedAt := clock q (ticks q)\<rparr>"
  have "extends ?q1 (snd (Job_update ?j ?q1))" by (rule Job_update_extends)
  then have "extends q (snd (Job_update ?j ?q1))" by simp
  then show ?thesis
    by (auto simp: Job_setStateToActive_def new_Date_def split: prod.splits sum.splits)
qed

lemma convert_extends [simp]: "extends q (snd (convertNeDbJobToJob d q'))= extends q q'"
  by (simp add: convertNeDbJobToJob_eq)

lemma addJob_body_extends: "extends q (snd (addJob_body job q))"
proof -
  have a: "\<And>j q0. extends q q0 \<Longrightarrow> extends q (snd (Job_setStateToActive j q0))"
    using Job_setStateToActive_extends extends_trans by blast
  show ?thesis
    unfolding addJob_body_def
    by (auto split: prod.splits sum.splits option.splits simp: convertNeDbJobToJob_eq
        dest!: arg_cong [where f = snd] intro!: a)
qed


lemma setStateToActive_extends_from:
  "extends q q0 \<Longrightarrow> extends q (snd (Job_setStateToActive j q0))"
  using Job_setStateToActive_extends extends_trans by blast

lemma Job_remove_extends_from:
  "extends q q0 \<Longrightarrow> extends q (snd (Job_remove j q0))"
  using Job_remove_extends extends_trans by blast

lemma request_body_extends: "extends q (snd (request_body ty stillReq q))"
  unfolding request_body_def
  by (auto split: prod.splits sum.splits option.splits
      simp: convertNeDbJobToJob_eq push_request_def extends_def [of q "_\<lparr>promises := _\<rparr>"]
      dest!: arg_cong [where f = snd] intro!: setStateToActive_extends_from)

lemma remove_loop_extends:
  "extends q q0 \<Longrightarrow> extends q (snd (remove_loop callback ds removedJobs q0))"
proof (induction ds arbitrary: removedJobs q0)
  case Nil
  then show ?case by simp
next
  case (Cons d ds)
  let ?q1 = "q0\<lparr>warned := warned q0 @ snd (sanitizePriority (doc_priority d))\<rparr>"
  from Cons.prems have e1: "extends q ?q1" by simp
  show ?case
  proof (cases "callback (doc_to_job d)")
    case (Inl e)
    with e1 show ?thesis by (simp add: convertNeDbJobToJob_eq)
  next
    case (Inr b)
    show ?thesis
    proof (cases b)
      case False
      with Inr Cons.IH [OF e1] show ?thesis by (simp add: convertNeDbJobToJob_eq)
    next
      case True
      obtain r q2 where rm: "Job_remove (doc_to_job d) ?q1 = (r, q2)"
        by (cases "Job_remove (doc_to_job d) ?q1")
      from Job_remove_extends_from [OF e1, of "doc_to_job d"] rm have e2: "extends q q2" by simp
      show ?thesis
      proof (cases r)
        case (Inl e)
        with Inr True rm e2 show ?thesis by (simp add: convertNeDbJobToJob_eq)
      next
        case (Inr u)
        with \<open>callback (doc_to_job d) = Inr b\<close> True rm Cons.IH [OF e2] show ?thesis
          by (simp add: convertNeDbJobToJob_eq)
      qed
    qed
  qed
qed


lemma emits_error_fields [simp]:
  "emits_error q e j (q'\<lparr>mutex_log := m\<rparr>) = emits_error q e j q'"
  "emits_error (q\<lparr>mutex_log := m\<rparr>) e j q' = emits_error q e j q'"
  "emits_error (q\<lparr>repository := r\<rparr>) e j q' = emits_error q e j q'"
  "emits_error (q\<lparr>warned := w\<rparr>) e j q' = emits_error q e j q'"
  by (simp_all add: emits_error_def)

lemma findJob_emits:
  assumes "Queue_findJob i q = (Inl e, q')"
  shows "emits_error q e None q'"
  using assms unfolding Queue_findJob_def
  by (rule catch_emit_emits)
     (auto split: prod.splits sum.splits option.splits simp: convertNeDbJobToJob_eq)

lemma listJobs_emits:
  assumes "Queue_listJobs state q = (Inl e, q')"
  shows "emits_error q e None q'"
  using assms unfolding Queue_listJobs_def
proof (rule catch_emit_emits)
  fix r q1
  assume b: "(case JobRepository_listJobs state (repository q) of
               (Inl e, r) \<Rightarrow> (Inl e, q\<lparr>repository := r\<rparr>)
             | (Inr ds, r) \<Rightarrow>
                 (case convert_all ds (q\<lparr>repository := r\<rparr>) of
                    (jobs, q') \<Rightarrow> (Inr jobs, q'))) = (r, q1)"
  obtain x r1 where l: "JobRepository_listJobs state (repository q) = (x, r1)"
    by (cases "JobRepository_listJobs state (repository q)")
  show "extends q q1"
  proof (cases x)
    case (Inl e)
    with b l show ?thesis by auto
  next
    case (Inr ds)
    obtain ws where "convert_all ds (q\<lparr>repository := r1\<rparr>)
        = (map doc_to_job ds, q\<lparr>repository := r1, warned := warned q @ ws\<rparr>)"
      using convert_all_eq [of ds "q\<lparr>repository := r1\<rparr>"] by auto
    with b l Inr show ?thesis by auto
  qed
qed

lemma updateJob_emits:
  assumes "Queue_updateJob job q = (Inl e, q')"
  shows "emits_error q e (Some job) q'"
  using assms unfolding Queue_updateJob_def
  by (rule catch_emit_emits) (auto split: prod.splits)

lemma removeJob_emits:
  assumes "Queue_removeJob job q = (Inl e, q')"
  shows "emits_error q e (Some job) q'"
  using assms unfolding Queue_removeJob_def
  by (rule catch_emit_emits) (auto split: prod.splits)

lemma addJob_emits:
  assumes "Queue_addJob job q = (Inl e, q')"
  shows "emits_error q e (Some job) q'"
  using assms unfolding Queue_addJob_def
proof (rule catch_emit_emits)
  fix r q1
  assume "addJob_body job q = (r, q1)"
  with addJob_body_extends [of q job] show "extends q q1" by simp
qed

lemma request_emits:
  assumes "Queue_requestJobForProcessing ty stillReq q = (Inl e, q')"
  shows "emits_error q e None q'"
proof -
  let ?q0 = "q\<lparr>mutex_log := mutex_log q @ [Acquire]\<rparr>"
  from assms obtain q1 where c: "catch_emit None (request_body ty stillReq) ?q0 = (Inl e, q1)"
    and q': "q' = q1\<lparr>mutex_log := mutex_log q1 @ [Release]\<rparr>"
    by (auto simp: Queue_requestJobForProcessing_def
        split: option.splits list.splits prod.splits)
  from c have "emits_error ?q0 e None q1"
  proof (rule catch_emit_emits)
    fix r q2
    assume "request_body ty stillReq ?q0 = (r, q2)"
    with request_body_extends [of ?q0 ty stillReq] show "extends ?q0 q2" by simp
  qed
  then show ?thesis unfolding q' by simp
qed

lemma remove_loop_append:
  "remove_loop callback (pre @ rest) acc q =
     (case remove_loop callback pre acc q of
        (Inl x, q1) \<Rightarrow> (Inl x, q1)
      | (Inr acc', q1) \<Rightarrow> remove_loop callback rest acc' q1)"
proof (induction pre arbitrary: acc q)
  case Nil
  then show ?case by simp
next
  case (Cons d pre)
  let ?qw = "q\<lparr>warned := warned q @ snd (sanitizePriority (doc_priority d))\<rparr>"
  show ?case
  proof (cases "callback (doc_to_job d)")
    case (Inl e)
    then show ?thesis by (simp add: convertNeDbJobToJob_eq)
  next
    case (Inr b)
    show ?thesis
    proof (cases b)
      case False
      with Inr Cons.IH [of acc ?qw] show ?thesis by (simp add: convertNeDbJobToJob_eq)
    next
      case True
      obtain y q2 where rm: "Job_remove (doc_to_job d) ?qw = (y, q2)"
        by (cases "Job_remove (doc_to_job d) ?qw")
      show ?thesis
      proof (cases y)
        case (Inl e)
        with Inr True rm show ?thesis by (simp add: convertNeDbJobToJob_eq)
      next
        case (Inr u)
        with \<open>callback (doc_to_job d) = Inr b\<close> True rm
             Cons.IH [of "acc @ [doc_to_job d]" q2]
        show ?thesis by (simp add: convertNeDbJobToJob_eq)
      qed
    qed
  qed
qed

lemma remove_loop_error_job:
  "remove_loop callback ds acc q0 = (Inl (e, j), q2) \<Longrightarrow>
   \<exists>d\<in>set ds. j = Some (doc_to_job d)
     \<and> (callback (doc_to_job d) = Inl e \<or> callback (doc_to_job d) = Inr True)"
proof (induction ds arbitrary: acc q0)
  case Nil
  then show ?case by simp
next
  case (Cons d ds)
  let ?qw = "q0\<lparr>warned := warned q0 @ snd (sanitizePriority (doc_priority d))\<rparr>"
  show ?case
  proof (cases "callback (doc_to_job d)")
    case (Inl e')
    with Cons.prems show ?thesis by (simp add: convertNeDbJobToJob_eq)
  next
    case (Inr b)
    show ?thesis
    proof (cases b)
      case False
      with Inr Cons.prems have "remove_loop callback ds acc ?qw = (Inl (e, j), q2)"
        by (simp add: convertNeDbJobToJob_eq)
      from Cons.IH [OF this] show ?thesis by auto
    next
      case True
      obtain y q1 where rm: "Job_remove (doc_to_job d) ?qw = (y, q1)"
        by (cases "Job_remove (doc_to_job d) ?qw")
      show ?thesis
      proof (cases y)
        case (Inl e')
        with Inr True rm Cons.prems show ?thesis by (simp add: convertNeDbJobToJob_eq)
      next
        case (Inr u)
        with \<open>callback (doc_to_job d) = Inr b\<close> True rm Cons.prems
        have "remove_loop callback ds (acc @ [doc_to_job d]) q1 = (Inl (e, j), q2)"
          by (simp add: convertNeDbJobToJob_eq)
        from Cons.IH [OF this] show ?thesis by auto
      qed
    qed
  qed
qed

lemma removeJobById_emits_job:
  assumes "Queue_removeJobById i q = (Inl e, q')"
  shows "(fst (JobRepository_findJob i (repository q)) = Inl e \<and> emits_error q e None q')
         \<or> (fst (JobRepository_findJob i (repository q)) = Inr None \<and> e = JobNotFoundError i
             \<and> emitted q' = emitted q)
         \<or> (\<exists>d. fst (JobRepository_findJob i (repository q)) = Inr (Some d)
               \<and> emits_error q e (Some (doc_to_job d)) q')"
proof -
  obtain x r1 where f: "JobRepository_findJob i (repository q) = (x, r1)"
    by (cases "JobRepository_findJob i (repository q)")
  show ?thesis
  proof (cases x)
    case (Inl e')
    with assms f have "e' = e" "q' = emit (ErrorEvent e None) (q\<lparr>repository := r1\<rparr>)"
      by (auto simp: Queue_removeJobById_def)
    with f Inl show ?thesis
      by (simp add: emits_error_def emit_def)
  next
    case (Inr found)
    show ?thesis
    proof (cases found)
      case None
      with assms f Inr show ?thesis by (auto simp: Queue_removeJobById_def)
    next
      case (Some d)
      let ?q1 = "q\<lparr>repository := r1, warned := warned q @ snd (sanitizePriority (doc_priority d))\<rparr>"
      from assms f Inr Some
      have c: "catch_emit (Some (doc_to_job d)) (Job_remove (doc_to_job d)) ?q1 = (Inl e, q')"
        by (simp add: Queue_removeJobById_def convertNeDbJobToJob_eq)
      then have "emits_error ?q1 e (Some (doc_to_job d)) q'"
      proof (rule catch_emit_emits)
        fix r q2
        assume "Job_remove (doc_to_job d) ?q1 = (r, q2)"
        with Job_remove_extends [of ?q1 "doc_to_job d"] show "extends ?q1 q2" by simp
      qed
      then have "emits_error q e (Some (doc_to_job d)) q'" by simp
      with f Inr Some show ?thesis by simp
    qed
  qed
qed

lemma removeJobsByCallback_emits_job:
  assumes "Queue_removeJobsByCallback callback q = (Inl e, q')"
  shows "(fst (JobRepository_listJobs None (repository q)) = Inl e \<and> emits_error q e None q')
         \<or> (\<exists>ds d. fst (JobRepository_listJobs None (repository q)) = Inr ds \<and> d \<in> set ds
               \<and> (callback (doc_to_job d) = Inl e \<or> callback (doc_to_job d) = Inr True)
               \<and> emits_error q e (Some (doc_to_job d)) q')"
proof -
  obtain x r1 where l: "JobRepository_listJobs None (repository q) = (x, r1)"
    by (cases "JobRepository_listJobs None (repository q)")
  show ?thesis
  proof (cases x)
    case (Inl e')
    with assms l have "e' = e" "q' = emit (ErrorEvent e None) (q\<lparr>repository := r1\<rparr>)"
      by (auto simp: Queue_removeJobsByCallback_def)
    with l Inl show ?thesis
      by (simp add: emits_error_def emit_def)
  next
    case (Inr ds)
    let ?q1 = "q\<lparr>repository := r1\<rparr>"
    obtain y q2 where lp: "remove_loop callback ds [] ?q1 = (y, q2)"
      by (cases "remove_loop callback ds [] ?q1")
    have "extends q ?q1" by simp
    from remove_loop_extends [OF this, of callback ds "[]"] lp have e2: "extends q q2" by simp
    from assms l Inr lp obtain j where y: "y = Inl (e, j)" and q': "q' = emit (ErrorEvent e j) q2"
      by (auto simp: Queue_removeJobsByCallback_def split: sum.splits prod.splits)
    from lp y have "remove_loop callback ds [] ?q1 = (Inl (e, j), q2)" by simp
    from remove_loop_error_job [OF this] obtain d where d: "d \<in> set ds"
      "j = Some (doc_to_job d)"
      "callback (doc_to_job d) = Inl e \<or> callback (doc_to_job d) = Inr True"
      by blast
    from extends_emit [OF e2, of e j] q' d(2)
    have "emits_error q e (Some (doc_to_job d)) q'" by simp
    with l Inr d show ?thesis by auto
  qed
qed


lemma storage_failure_reraised:
  assumes "next_fault (repository q) = Some e"
  shows "fst (Queue_findJob i q) = Inl e"
    and "fst (Queue_listJobs state q) = Inl e"
    and "fst (Queue_removeJobById i q) = Inl e"
    and "fst (Queue_removeJobsByCallback callback q) = Inl e"
    and "fst (Queue_addJob job q) = Inl e"
    and "fst (Queue_updateJob job q) = Inl e"
    and "fst (Queue_removeJob job q) = Inl e"
    and "waitingRequests q ty = None \<or> waitingRequests q ty = Some [] \<Longrightarrow>
         fst (Queue_requestJobForProcessing ty stillReq q) = Inl e"
  using assms
  by (auto simp: Queue_findJob_def Queue_listJobs_def Queue_removeJobById_def
      Queue_removeJobsByCallback_def Queue_addJob_def addJob_body_def Queue_updateJob_def
      Queue_removeJob_def Queue_requestJobForProcessing_def request_body_def catch_emit_def
      JobRepository_findJob_def JobRepository_listJobs_def JobRepository_addJob_def
      JobRepository_updateJob_def JobRepository_removeJob_def
      JobRepository_findInactiveJobByType_def store_call_eq)

lemma findJob_reraises:
  "JobRepository_findJob i (repository q) = (Inl e, r) \<Longrightarrow>
   Queue_findJob i q = (Inl e, emit (ErrorEvent e None) (q\<lparr>repository := r\<rparr>))"
  by (simp add: Queue_findJob_def catch_emit_def)

lemma listJobs_reraises:
  "JobRepository_listJobs state (repository q) = (Inl e, r) \<Longrightarrow>
   Queue_listJobs state q = (Inl e, emit (ErrorEvent e None) (q\<lparr>repository := r\<rparr>))"
  by (simp add: Queue_listJobs_def catch_emit_def)

lemma updateJob_reraises:
  "JobRepository_updateJob job (repository q) = (Inl e, r) \<Longrightarrow>
   Queue_updateJob job q = (Inl e, emit (ErrorEvent e (Some job)) (q\<lparr>repository := r\<rparr>))"
  by (simp add: Queue_updateJob_def catch_emit_def)

lemma removeJob_reraises:
  "JobRepository_removeJob (job_id job) (repository q) = (Inl e, r) \<Longrightarrow>
   Queue_removeJob job q = (Inl e, emit (ErrorEvent e (Some job)) (q\<lparr>repository := r\<rparr>))"
  by (simp add: Queue_removeJob_def catch_emit_def)

lemma addJob_reraises_insert:
  "JobRepository_addJob job (repository q) = (Inl e, r) \<Longrightarrow>
   Queue_addJob job q = (Inl e, emit (ErrorEvent e (Some job)) (q\<lparr>repository := r\<rparr>))"
  by (simp add: Queue_addJob_def catch_emit_def addJob_body_def)

lemma addJob_reraises_activate:
  assumes "JobRepository_addJob job (repository q) = (Inr neDbJob, r)"
    and "waitingRequests q (job_type job) = Some ws"
    and "shift_requests (host q) ws = (Some w, rest)"
    and "convertNeDbJobToJob neDbJob
           (q\<lparr>repository := r,
              waitingRequests := (waitingRequests q)(job_type job \<mapsto> rest)\<rparr>) = (cjob, q1)"
    and "Job_setStateToActive cjob q1 = (Inl e, q2)"
  shows "Queue_addJob job q = (Inl e, emit (ErrorEvent e (Some job)) q2)"
  using assms by (simp add: Queue_addJob_def catch_emit_def addJob_body_def)

lemma request_reraises_find:
  assumes "waitingRequests q ty = None \<or> waitingRequests q ty = Some []"
    and "JobRepository_findInactiveJobByType ty (repository q) = (Inl e, r)"
  shows "Queue_requestJobForProcessing ty stillReq q =
           (Inl e, q\<lparr>repository := r, emitted := emitted q @ [ErrorEvent e None],
                     mutex_log := mutex_log q @ [Acquire, Release]\<rparr>)"
  using assms
  by (auto simp: Queue_requestJobForProcessing_def catch_emit_def request_body_def emit_def)

lemma request_reraises_activate:
  assumes "waitingRequests q ty = None \<or> waitingRequests q ty = Some []"
    and "JobRepository_findInactiveJobByType ty (repository q) = (Inr (Some neDbJob), r)"
    and "stillReq (host q)"
    and "convertNeDbJobToJob neDbJob
           (q\<lparr>mutex_log := mutex_log q @ [Acquire], repository := r\<rparr>) = (cjob, q1)"
    and "Job_setStateToActive cjob q1 = (Inl e, q2)"
  shows "Queue_requestJobForProcessing ty stillReq q =
           (Inl e, q2\<lparr>emitted := emitted q2 @ [ErrorEvent e None],
                      mutex_log := mutex_log q2 @ [Release]\<rparr>)"
  using assms
  by (auto simp: Queue_requestJobForProcessing_def catch_emit_def request_body_def emit_def)

lemma removeJobById_reraises_find:
  "JobRepository_findJob i (repository q) = (Inl e, r) \<Longrightarrow>
   Queue_removeJobById i q = (Inl e, emit (ErrorEvent e None) (q\<lparr>repository := r\<rparr>))"
  by (simp add: Queue_removeJobById_def)

lemma removeJobById_reraises_remove:
  assumes "JobRepository_findJob i (repository q) = (Inr (Some neDbJob), r)"
    and "convertNeDbJobToJob neDbJob (q\<lparr>repository := r\<rparr>) = (cjob, q1)"
    and "Job_remove cjob q1 = (Inl e, q2)"
  shows "Queue_removeJobById i q = (Inl e, emit (ErrorEvent e (Some cjob)) q2)"
  using assms by (simp add: Queue_removeJobById_def catch_emit_def)

lemma removeJobsByCallback_reraises_list:
  "JobRepository_listJobs None (repository q) = (Inl e, r) \<Longrightarrow>
   Queue_removeJobsByCallback callback q
     = (Inl e, emit (ErrorEvent e None) (q\<lparr>repository := r\<rparr>))"
  by (simp add: Queue_removeJobsByCallback_def)

lemma removeJobsByCallback_reraises_loop:
  assumes "JobRepository_listJobs None (repository q) = (Inr (pre @ neDbJob # post), r)"
    and "remove_loop callback pre [] (q\<lparr>repository := r\<rparr>) = (Inr removedJobs, q0)"
    and "convertNeDbJobToJob neDbJob q0 = (cjob, q1)"
    and "(callback cjob = Inl e \<and> q2 = q1)
         \<or> (callback cjob = Inr True \<and> Job_remove cjob q1 = (Inl e, q2))"
  shows "Queue_removeJobsByCallback callback q = (Inl e, emit (ErrorEvent e (Some cjob)) q2)"
proof -
  from assms(3,4) have "remove_loop callback (neDbJob # post) removedJobs q0
                          = (Inl (e, Some cjob), q2)"
    by auto
  with assms(2) have "remove_loop callback (pre @ neDbJob # post) [] (q\<lparr>repository := r\<rparr>)
                        = (Inl (e, Some cjob), q2)"
    by (simp add: remove_loop_append)
  with assms(1) show ?thesis by (simp add: Queue_removeJobsByCallback_def)
qed

lemma next_fault_repository_calls:
  assumes "next_fault r = Some e"
  shows "fst (JobRepository_findJob i r) = Inl e"
    and "fst (JobRepository_listJobs state r) = Inl e"
    and "fst (JobRepository_updateJob job r) = Inl e"
    and "fst (JobRepository_removeJob i r) = Inl e"
    and "fst (JobRepository_addJob job r) = Inl e"
    and "fst (JobRepository_findInactiveJobByType ty r) = Inl e"
  using assms
  by (simp_all add: JobRepository_findJob_def JobRepository_listJobs_def
      JobRepository_updateJob_def JobRepository_removeJob_def JobRepository_addJob_def
      JobRepository_findInactiveJobByType_def store_call_eq)

lemma fst_eq_obtain: "fst p = a \<Longrightarrow> \<exists>b. p = (a, b)"
  by (cases p) simp

text \<open>
  C7. The methods \<^verbatim>\<open>findJob\<close>, \<^verbatim>\<open>listJobs\<close>, \<^verbatim>\<open>removeJobById\<close>,
  \<^verbatim>\<open>removeJobsByCallback\<close>, \<^verbatim>\<open>requestJobForProcessing\<close>, \<^verbatim>\<open>addJob\<close>,
  \<^verbatim>\<open>updateJob\<close>, \<^verbatim>\<open>removeJob\<close>.

  Every error raised was emitted: when one of them raises an error, the last event it has
  emitted is the Error event with that error. The event comes with the job for
  \<^verbatim>\<open>addJob\<close>, \<^verbatim>\<open>updateJob\<close>, \<^verbatim>\<open>removeJob\<close>; with no job for \<^verbatim>\<open>findJob\<close>,
  \<^verbatim>\<open>listJobs\<close>, \<^verbatim>\<open>requestJobForProcessing\<close>; for the two removals with no job
  when the find or the listing failed, and with the job made of the document at hand when
  the callback or the removal of that job failed. The one error raised without an event
  is the "not found" of \<^verbatim>\<open>removeJobById\<close>, which the method throws itself after a
  find that succeeded.

  Every error is raised again: an error of the storage operation of a method (the find,
  the listing, the update, the removal, the insertion, the search for the next inactive
  job), an error of its job operation (\<^verbatim>\<open>setStateToActive\<close> in \<^verbatim>\<open>addJob\<close> and in
  \<^verbatim>\<open>requestJobForProcessing\<close>, \<^verbatim>\<open>remove\<close> in \<^verbatim>\<open>removeJobById\<close> and in the
  loop of \<^verbatim>\<open>removeJobsByCallback\<close>) and a throw of the callback is the error the
  method raises, and the method leaves the state that the failed operation left, with the
  Error event appended (and the mutex released, for \<^verbatim>\<open>requestJobForProcessing\<close>).
\<close>

theorem queue_errors_emitted_and_reraised:
  "(Queue_findJob i q = (Inl e, q') \<longrightarrow> emits_error q e None q')
   \<and> (Queue_listJobs state q = (Inl e, q') \<longrightarrow> emits_error q e None q')
   \<and> (Queue_removeJobById i q = (Inl e, q') \<longrightarrow>
        (fst (JobRepository_findJob i (repository q)) = Inl e \<and> emits_error q e None q')
        \<or> (fst (JobRepository_findJob i (repository q)) = Inr None \<and> e = JobNotFoundError i
            \<and> emitted q' = emitted q)
        \<or> (\<exists>d. fst (JobRepository_findJob i (repository q)) = Inr (Some d)
              \<and> emits_error q e (Some (doc_to_job d)) q'))
   \<and> (Queue_removeJobsByCallback callback q = (Inl e, q') \<longrightarrow>
        (fst (JobRepository_listJobs None (repository q)) = Inl e \<and> emits_error q e None q')
        \<or> (\<exists>ds d. fst (JobRepository_listJobs None (repository q)) = Inr ds \<and> d \<in> set ds
              \<and> (callback (doc_to_job d) = Inl e \<or> callback (doc_to_job d) = Inr True)
              \<and> emits_error q e (Some (doc_to_job d)) q'))
   \<and> (Queue_requestJobForProcessing ty stillReq q = (Inl e, q') \<longrightarrow> emits_error q e None q')
   \<and> (Queue_addJob job q = (Inl e, q') \<longrightarrow> emits_error q e (Some job) q')
   \<and> (Queue_updateJob job q = (Inl e, q') \<longrightarrow> emits_error q e (Some job) q')
   \<and> (Queue_removeJob job q = (Inl e, q') \<longrightarrow> emits_error q e (Some job) q')
   \<and> (next_fault (repository q) = Some e \<longrightarrow>
        fst (Queue_findJob i q) = Inl e \<and> fst (Queue_listJobs state q) = Inl e
        \<and> fst (Queue_removeJobById i q) = Inl e
        \<and> fst (Queue_removeJobsByCallback callback q) = Inl e
        \<and> fst (Queue_addJob job q) = Inl e \<and> fst (Queue_updateJob job q) = Inl e
        \<and> fst (Queue_removeJob job q) = Inl e
        \<and> (waitingRequests q ty = None \<or> waitingRequests q ty = Some [] \<longrightarrow>
             fst (Queue_requestJobForProcessing ty stillReq q) = Inl e))
   \<and> (JobRepository_findJob i (repository q) = (Inl e, r) \<longrightarrow>
        Queue_findJob i q = (Inl e, emit (ErrorEvent e None) (q\<lparr>repository := r\<rparr>))
        \<and> Queue_removeJobById i q = (Inl e, emit (ErrorEvent e None) (q\<lparr>repository := r\<rparr>)))
   \<and> (JobRepository_listJobs state (repository q) = (Inl e, r) \<longrightarrow>
        Queue_listJobs state q = (Inl e, emit (ErrorEvent e None) (q\<lparr>repository := r\<rparr>)))
   \<and> (JobRepository_listJobs None (repository q) = (Inl e, r) \<longrightarrow>
        Queue_removeJobsByCallback callback q
          = (Inl e, emit (ErrorEvent e None) (q\<lparr>repository := r\<rparr>)))
   \<and> (JobRepository_updateJob job (repository q) = (Inl e, r) \<longrightarrow>
        Queue_updateJob job q = (Inl e, emit (ErrorEvent e (Some job)) (q\<lparr>repository := r\<rparr>)))
   \<and> (JobRepository_removeJob (job_id job) (repository q) = (Inl e, r) \<longrightarrow>
        Queue_removeJob job q = (Inl e, emit (ErrorEvent e (Some job)) (q\<lparr>repository := r\<rparr>)))
   \<and> (JobRepository_addJob job (repository q) = (Inl e, r) \<longrightarrow>
        Queue_addJob job q = (Inl e, emit (ErrorEvent e (Some job)) (q\<lparr>repository := r\<rparr>)))
   \<and> (JobRepository_addJob job (repository q) = (Inr neDbJob, r)
        \<and> waitingRequests q (job_type job) = Some ws
        \<and> shift_requests (host q) ws = (Some w, rest)
        \<and> convertNeDbJobToJob neDbJob
             (q\<lparr>repository := r,
                waitingRequests := (waitingRequests q)(job_type job \<mapsto> rest)\<rparr>) = (cjob, q1)
        \<and> Job_setStateToActive cjob q1 = (Inl e, q2) \<longrightarrow>
        Queue_addJob job q = (Inl e, emit (ErrorEvent e (Some job)) q2))
   \<and> ((waitingRequests q ty = None \<or> waitingRequests q ty = Some [])
        \<and> JobRepository_findInactiveJobByType ty (repository q) = (Inl e, r) \<longrightarrow>
        Queue_requestJobForProcessing ty stillReq q =
          (Inl e, q\<lparr>repository := r, emitted := emitted q @ [ErrorEvent e None],
                    mutex_log := mutex_log q @ [Acquire, Release]\<rparr>))
   \<and> ((waitingRequests q ty = None \<or> waitingRequests q ty = Some [])
        \<and> JobRepository_findInactiveJobByType ty (repository q) = (Inr (Some neDbJob), r)
        \<and> stillReq (host q)
        \<and> convertNeDbJobToJob neDbJob
             (q\<lparr>mutex_log := mutex_log q @ [Acquire], repository := r\<rparr>) = (cjob, q1)
        \<and> Job_setStateToActive cjob q1 = (Inl e, q2) \<longrightarrow>
        Queue_requestJobForProcessing ty stillReq q =
          (Inl e, q2\<lparr>emitted := emitted q2 @ [ErrorEvent e None],
                     mutex_log := mutex_log q2 @ [Release]\<rparr>))
   \<and> (JobRepository_findJob i (repository q) = (Inr (Some neDbJob), r)
        \<and> convertNeDbJobToJob neDbJob (q\<lparr>repository := r\<rparr>) = (cjob, q1)
        \<and> Job_remove cjob q1 = (Inl e, q2) \<longrightarrow>
        Queue_removeJobById i q = (Inl e, emit (ErrorEvent e (Some cjob)) q2))
   \<and> (JobRepository_listJobs None (repository q) = (Inr (pre @ neDbJob # post), r)
        \<and> remove_loop callback pre [] (q\<lparr>repository := r\<rparr>) = (Inr removedJobs, q0)
        \<and> convertNeDbJobToJob neDbJob q0 = (cjob, q1)
        \<and> ((callback cjob = Inl e \<and> q2 = q1)
            \<or> (callback cjob = Inr True \<and> Job_remove cjob q1 = (Inl e, q2))) \<longrightarrow>
        Queue_removeJobsByCallback callback q = (Inl e, emit (ErrorEvent e (Some cjob)) q2))"
proof (intro conjI impI)
  show "emits_error q e None q'" if "Queue_findJob i q = (Inl e, q')"
    using that by (rule findJob_emits)
  show "emits_error q e None q'" if "Queue_listJobs state q = (Inl e, q')"
    using that by (rule listJobs_emits)
  show "(fst (JobRepository_findJob i (repository q)) = Inl e \<and> emits_error q e None q')
        \<or> (fst (JobRepository_findJob i (repository q)) = Inr None \<and> e = JobNotFoundError i
            \<and> emitted q' = emitted q)
        \<or> (\<exists>d. fst (JobRepository_findJob i (repository q)) = Inr (Some d)
              \<and> emits_error q e (Some (doc_to_job d)) q')"
    if "Queue_removeJobById i q = (Inl e, q')"
    using that by (rule removeJobById_emits_job)
  show "(fst (JobRepository_listJobs None (repository q)) = Inl e \<and> emits_error q e None q')
        \<or> (\<exists>ds d. fst (JobRepository_listJobs None (repository q)) = Inr ds \<and> d \<in> set ds
              \<and> (callback (doc_to_job d) = Inl e \<or> callback (doc_to_job d) = Inr True)
              \<and> emits_error q e (Some (doc_to_job d)) q')"
    if "Queue_removeJobsByCallback callback q = (Inl e, q')"
    using that by (rule removeJobsByCallback_emits_job)
  show "emits_error q e None q'" if "Queue_requestJobForProcessing ty stillReq q = (Inl e, q')"
    using that by (rule request_emits)
  show "emits_error q e (Some job) q'" if "Queue_addJob job q = (Inl e, q')"
    using that by (rule addJob_emits)
  show "emits_error q e (Some job) q'" if "Queue_updateJob job q = (Inl e, q')"
    using that by (rule updateJob_emits)
  show "emits_error q e (Some job) q'" if "Queue_removeJob job q = (Inl e, q')"
    using that by (rule removeJob_emits)
next
  assume f: "next_fault (repository q) = Some e"
  show "fst (Queue_findJob i q) = Inl e" by (rule storage_failure_reraised(1) [OF f])
  show "fst (Queue_listJobs state q) = Inl e" by (rule storage_failure_reraised(2) [OF f])
  show "fst (Queue_removeJobById i q) = Inl e" by (rule storage_failure_reraised(3) [OF f])
  show "fst (Queue_removeJobsByCallback callback q) = Inl e"
    by (rule storage_failure_reraised(4) [OF f])
  show "fst (Queue_addJob job q) = Inl e" by (rule storage_failure_reraised(5) [OF f])
  show "fst (Queue_updateJob job q) = Inl e" by (rule storage_failure_reraised(6) [OF f])
  show "fst (Queue_removeJob job q) = Inl e" by (rule storage_failure_reraised(7) [OF f])
  show "fst (Queue_requestJobForProcessing ty stillReq q) = Inl e"
    if "waitingRequests q ty = None \<or> waitingRequests q ty = Some []"
    using f that by (rule storage_failure_reraised(8))
next
  assume a: "JobRepository_findJob i (repository q) = (Inl e, r)"
  show "Queue_findJob i q = (Inl e, emit (ErrorEvent e None) (q\<lparr>repository := r\<rparr>))"
    using a by (rule findJob_reraises)
  show "Queue_removeJobById i q = (Inl e, emit (ErrorEvent e None) (q\<lparr>repository := r\<rparr>))"
    using a by (rule removeJobById_reraises_find)
next
  show "Queue_listJobs state q = (Inl e, emit (ErrorEvent e None) (q\<lparr>repository := r\<rparr>))"
    if "JobRepository_listJobs state (repository q) = (Inl e, r)"
    using that by (rule listJobs_reraises)
  show "Queue_removeJobsByCallback callback q
          = (Inl e, emit (ErrorEvent e None) (q\<lparr>repository := r\<rparr>))"
    if "JobRepository_listJobs None (repository q) = (Inl e, r)"
    using that by (rule removeJobsByCallback_reraises_list)
  show "Queue_updateJob job q = (Inl e, emit (ErrorEvent e (Some job)) (q\<lparr>repository := r\<rparr>))"
    if "JobRepository_updateJob job (repository q) = (Inl e, r)"
    using that by (rule updateJob_reraises)
  show "Queue_removeJob job q = (Inl e, emit (ErrorEvent e (Some job)) (q\<lparr>repository := r\<rparr>))"
    if "JobRepository_removeJob (job_id job) (repository q) = (Inl e, r)"
    using that by (rule removeJob_reraises)
  show "Queue_addJob job q = (Inl e, emit (ErrorEvent e (Some job)) (q\<lparr>repository := r\<rparr>))"
    if "JobRepository_addJob job (repository q) = (Inl e, r)"
    using that by (rule addJob_reraises_insert)
  show "Queue_addJob job q = (Inl e, emit (ErrorEvent e (Some job)) q2)"
    if "JobRepository_addJob job (repository q) = (Inr neDbJob, r)
        \<and> waitingRequests q (job_type job) = Some ws
        \<and> shift_requests (host q) ws = (Some w, rest)
        \<and> convertNeDbJobToJob neDbJob
             (q\<lparr>repository := r,
                waitingRequests := (waitingRequests q)(job_type job \<mapsto> rest)\<rparr>) = (cjob, q1)
        \<and> Job_setStateToActive cjob q1 = (Inl e, q2)"
    using that by (intro addJob_reraises_activate [of job q neDbJob r ws w rest cjob q1 e q2]) simp_all
  show "Queue_requestJobForProcessing ty stillReq q =
          (Inl e, q\<lparr>repository := r, emitted := emitted q @ [ErrorEvent e None],
                    mutex_log := mutex_log q @ [Acquire, Release]\<rparr>)"
    if "(waitingRequests q ty = None \<or> waitingRequests q ty = Some [])
        \<and> JobRepository_findInactiveJobByType ty (repository q) = (Inl e, r)"
    using that by (intro request_reraises_find) simp_all
  show "Queue_requestJobForProcessing ty stillReq q =
          (Inl e, q2\<lparr>emitted := emitted q2 @ [ErrorEvent e None],
                     mutex_log := mutex_log q2 @ [Release]\<rparr>)"
    if "(waitingRequests q ty = None \<or> waitingRequests q ty = Some [])
        \<and> JobRepository_findInactiveJobByType ty (repository q) = (Inr (Some neDbJob), r)
        \<and> stillReq (host q)
        \<and> convertNeDbJobToJob neDbJob
             (q\<lparr>mutex_log := mutex_log q @ [Acquire], repository := r\<rparr>) = (cjob, q1)
        \<and> Job_setStateToActive cjob q1 = (Inl e, q2)"
    using that by (intro request_reraises_activate [of q ty neDbJob r stillReq cjob q1 e q2]) simp_all
  show "Queue_removeJobById i q = (Inl e, emit (ErrorEvent e (Some cjob)) q2)"
    if "JobRepository_findJob i (repository q) = (Inr (Some neDbJob), r)
        \<and> convertNeDbJobToJob neDbJob (q\<lparr>repository := r\<rparr>) = (cjob, q1)
        \<and> Job_remove cjob q1 = (Inl e, q2)"
    using that by (intro removeJobById_reraises_remove [of i q neDbJob r cjob q1 e q2]) simp_all
  show "Queue_removeJobsByCallback callback q = (Inl e, emit (ErrorEvent e (Some cjob)) q2)"
    if "JobRepository_listJobs None (repository q) = (Inr (pre @ neDbJob # post), r)
        \<and> remove_loop callback pre [] (q\<lparr>repository := r\<rparr>) = (Inr removedJobs, q0)
        \<and> convertNeDbJobToJob neDbJob q0 = (cjob, q1)
        \<and> ((callback cjob = Inl e \<and> q2 = q1)
            \<or> (callback cjob = Inr True \<and> Job_remove cjob q1 = (Inl e, q2)))"
    using that
    by (intro removeJobsByCallback_reraises_loop
                [of q pre neDbJob post r callback removedJobs q0 cjob q1 e q2]) simp_all
qed


theorem queue_errors_emitted_and_reraised_witness:
  "next_fault (repository example_faulty_queue) = Some (Err ''EIO'')
   \<and> waitingRequests example_faulty_queue ''T'' = None
   \<and> (\<exists>q'. Queue_findJob ''J1'' example_faulty_queue = (Inl (Err ''EIO''), q')
          \<and> emits_error example_faulty_queue (Err ''EIO'') None q')
   \<and> (\<exists>q'. Queue_listJobs None example_faulty_queue = (Inl (Err ''EIO''), q')
          \<and> emits_error example_faulty_queue (Err ''EIO'') None q')
   \<and> (\<exists>q'. Queue_removeJobById ''J1'' example_faulty_queue = (Inl (Err ''EIO''), q')
          \<and> emits_error example_faulty_queue (Err ''EIO'') None q')
   \<and> (\<exists>q'. Queue_removeJobsByCallback example_callback example_faulty_queue
               = (Inl (Err ''EIO''), q')
          \<and> emits_error example_faulty_queue (Err ''EIO'') None q')
   \<and> (\<exists>q'. Queue_requestJobForProcessing ''T'' (\<lambda>h. h) example_faulty_queue
               = (Inl (Err ''EIO''), q')
          \<and> emits_error example_faulty_queue (Err ''EIO'') None q')
   \<and> (\<exists>q'. Queue_addJob (example_job ''N1'' ''T'' 0 5 INACTIVE) example_faulty_queue
               = (Inl (Err ''EIO''), q')
          \<and> emits_error example_faulty_queue (Err ''EIO'')
               (Some (example_job ''N1'' ''T'' 0 5 INACTIVE)) q')
   \<and> (\<exists>q'. Queue_updateJob (example_job ''J1'' ''T'' 0 1 ACTIVE) example_faulty_queue
               = (Inl (Err ''EIO''), q')
          \<and> emits_error example_faulty_queue (Err ''EIO'')
               (Some (example_job ''J1'' ''T'' 0 1 ACTIVE)) q')
   \<and> (\<exists>q'. Queue_removeJob (example_job ''J1'' ''T'' 0 1 ACTIVE) example_faulty_queue
               = (Inl (Err ''EIO''), q')
          \<and> emits_error example_faulty_queue (Err ''EIO'')
               (Some (example_job ''J1'' ''T'' 0 1 ACTIVE)) q')
   \<and> (\<exists>r. JobRepository_findJob ''J1'' (repository example_faulty_queue) = (Inl (Err ''EIO''), r)
          \<and> Queue_findJob ''J1'' example_faulty_queue
              = (Inl (Err ''EIO''),
                 emit (ErrorEvent (Err ''EIO'') None) (example_faulty_queue\<lparr>repository := r\<rparr>))
          \<and> Queue_removeJobById ''J1'' example_faulty_queue
              = (Inl (Err ''EIO''),
                 emit (ErrorEvent (Err ''EIO'') None) (example_faulty_queue\<lparr>repository := r\<rparr>)))
   \<and> (\<exists>r. JobRepository_listJobs None (repository example_faulty_queue) = (Inl (Err ''EIO''), r)
          \<and> Queue_listJobs None example_faulty_queue
              = (Inl (Err ''EIO''),
                 emit (ErrorEvent (Err ''EIO'') None) (example_faulty_queue\<lparr>repository := r\<rparr>))
          \<and> Queue_removeJobsByCallback example_callback example_faulty_queue
              = (Inl (Err ''EIO''),
                 emit (ErrorEvent (Err ''EIO'') None) (example_faulty_queue\<lparr>repository := r\<rparr>)))
   \<and> (\<exists>r. JobRepository_updateJob (example_job ''J1'' ''T'' 0 1 ACTIVE)
              (repository example_faulty_queue) = (Inl (Err ''EIO''), r)
          \<and> Queue_updateJob (example_job ''J1'' ''T'' 0 1 ACTIVE) example_faulty_queue
              = (Inl (Err ''EIO''),
                 emit (ErrorEvent (Err ''EIO'') (Some (example_job ''J1'' ''T'' 0 1 ACTIVE)))
                   (example_faulty_queue\<lparr>repository := r\<rparr>)))
   \<and> (\<exists>r. JobRepository_removeJob (job_id (example_job ''J1'' ''T'' 0 1 ACTIVE))
              (repository example_faulty_queue) = (Inl (Err ''EIO''), r)
          \<and> Queue_removeJob (example_job ''J1'' ''T'' 0 1 ACTIVE) example_faulty_queue
              = (Inl (Err ''EIO''),
                 emit (ErrorEvent (Err ''EIO'') (Some (example_job ''J1'' ''T'' 0 1 ACTIVE)))
                   (example_faulty_queue\<lparr>repository := r\<rparr>)))
   \<and> (\<exists>r. JobRepository_addJob (example_job ''N1'' ''T'' 0 5 INACTIVE)
              (repository example_faulty_queue) = (Inl (Err ''EIO''), r)
          \<and> Queue_addJob (example_job ''N1'' ''T'' 0 5 INACTIVE) example_faulty_queue
              = (Inl (Err ''EIO''),
                 emit (ErrorEvent (Err ''EIO'') (Some (example_job ''N1'' ''T'' 0 5 INACTIVE)))
                   (example_faulty_queue\<lparr>repository := r\<rparr>)))
   \<and> (\<exists>r. JobRepository_findInactiveJobByType ''T'' (repository example_faulty_queue)
              = (Inl (Err ''EIO''), r)
          \<and> Queue_requestJobForProcessing ''T'' (\<lambda>h. h) example_faulty_queue
              = (Inl (Err ''EIO''),
                 example_faulty_queue
                   \<lparr>repository := r,
                    emitted := emitted example_faulty_queue @ [ErrorEvent (Err ''EIO'') None],
                    mutex_log := mutex_log example_faulty_queue @ [Acquire, Release]\<rparr>))
   \<and> (\<exists>r q1 q2.
          JobRepository_addJob (example_job ''N1'' ''T'' 0 5 INACTIVE)
              (repository example_waiting_faulty_queue)
            = (Inr (insertDoc (example_job ''N1'' ''T'' 0 5 INACTIVE)), r)
          \<and> shift_requests (host example_waiting_faulty_queue) example_waiting
              = (Some \<lparr>promise = 1, stillRequest = (\<lambda>h. h)\<rparr>,
                 [\<lparr>promise = 2, stillRequest = (\<lambda>h. h)\<rparr>])
          \<and> Job_setStateToActive
               (doc_to_job (insertDoc (example_job ''N1'' ''T'' 0 5 INACTIVE))) q1
              = (Inl (Err ''EIO''), q2)
          \<and> Queue_addJob (example_job ''N1'' ''T'' 0 5 INACTIVE) example_waiting_faulty_queue
              = (Inl (Err ''EIO''),
                 emit (ErrorEvent (Err ''EIO'') (Some (example_job ''N1'' ''T'' 0 5 INACTIVE))) q2))
   \<and> waitingRequests example_failing_update_queue ''T'' = None
   \<and> (\<exists>r q1 q2.
          JobRepository_findInactiveJobByType ''T'' (repository example_failing_update_queue)
            = (Inr (Some (example_doc ''J1'' ''T'' Priority_NORMAL 1 INACTIVE)), r)
          \<and> Job_setStateToActive
               (doc_to_job (example_doc ''J1'' ''T'' Priority_NORMAL 1 INACTIVE)) q1
              = (Inl (Err ''EIO''), q2)
          \<and> Queue_requestJobForProcessing ''T'' (\<lambda>h. h) example_failing_update_queue
              = (Inl (Err ''EIO''),
                 q2\<lparr>emitted := emitted q2 @ [ErrorEvent (Err ''EIO'') None],
                    mutex_log := mutex_log q2 @ [Release]\<rparr>))
   \<and> (\<exists>r q1 q2.
          JobRepository_findJob ''J1'' (repository example_failing_update_queue)
            = (Inr (Some (example_doc ''J1'' ''T'' Priority_NORMAL 1 INACTIVE)), r)
          \<and> Job_remove (doc_to_job (example_doc ''J1'' ''T'' Priority_NORMAL 1 INACTIVE)) q1
              = (Inl (Err ''EIO''), q2)
          \<and> Queue_removeJobById ''J1'' example_failing_update_queue
              = (Inl (Err ''EIO''),
                 emit (ErrorEvent (Err ''EIO'')
                         (Some (doc_to_job (example_doc ''J1'' ''T'' Priority_NORMAL 1 INACTIVE))))
                   q2))
   \<and> (\<exists>r q1.
          JobRepository_listJobs None (repository (example_queue (example_repo scenario_S1) True))
            = (Inr ([example_doc ''J1'' ''T'' Priority_NORMAL 1 INACTIVE,
                     example_doc ''J2'' ''T'' Priority_HIGH 2 INACTIVE]
                    @ example_doc ''J3'' ''T'' Priority_NORMAL 3 INACTIVE # []), r)
          \<and> example_callback (doc_to_job (example_doc ''J3'' ''T'' Priority_NORMAL 3 INACTIVE))
              = Inl (Err ''callback failed'')
          \<and> Queue_removeJobsByCallback example_callback
               (example_queue (example_repo scenario_S1) True)
              = (Inl (Err ''callback failed''),
                 emit (ErrorEvent (Err ''callback failed'')
                         (Some (doc_to_job (example_doc ''J3'' ''T'' Priority_NORMAL 3 INACTIVE))))
                   q1))
   \<and> (\<exists>r q1 q2.
          JobRepository_listJobs None (repository example_failing_removal_queue)
            = (Inr ([example_doc ''J1'' ''T'' Priority_NORMAL 1 INACTIVE]
                    @ example_doc ''J2'' ''T'' Priority_HIGH 2 INACTIVE
                    # [example_doc ''J3'' ''T'' Priority_NORMAL 3 INACTIVE]), r)
          \<and> Job_remove (doc_to_job (example_doc ''J2'' ''T'' Priority_HIGH 2 INACTIVE)) q1
              = (Inl (Err ''EIO''), q2)
          \<and> Queue_removeJobsByCallback example_select_all example_failing_removal_queue
              = (Inl (Err ''EIO''),
                 emit (ErrorEvent (Err ''EIO'')
                         (Some (doc_to_job (example_doc ''J2'' ''T'' Priority_HIGH 2 INACTIVE))))
                   q2))"
proof -
  let ?Q = "example_faulty_queue"
  let ?e = "Err ''EIO''"
  let ?N = "example_job ''N1'' ''T'' 0 5 INACTIVE"
  let ?J = "example_job ''J1'' ''T'' 0 1 ACTIVE"
  let ?J1 = "example_doc ''J1'' ''T'' Priority_NORMAL 1 INACTIVE"
  let ?J2 = "example_doc ''J2'' ''T'' Priority_HIGH 2 INACTIVE"
  let ?J3 = "example_doc ''J3'' ''T'' Priority_NORMAL 3 INACTIVE"
  note t0 = queue_errors_emitted_and_reraised
  note t1 = t0 [THEN conjunct2]
  note t2 = t1 [THEN conjunct2]
  note t3 = t2 [THEN conjunct2]
  note t4 = t3 [THEN conjunct2]
  note t5 = t4 [THEN conjunct2]
  note t6 = t5 [THEN conjunct2]
  note t7 = t6 [THEN conjunct2]
  note t8 = t7 [THEN conjunct2]
  note t9 = t8 [THEN conjunct2]
  note t10 = t9 [THEN conjunct2]
  note t11 = t10 [THEN conjunct2]
  note t12 = t11 [THEN conjunct2]
  note t13 = t12 [THEN conjunct2]
  note t14 = t13 [THEN conjunct2]
  note t15 = t14 [THEN conjunct2]
  note t16 = t15 [THEN conjunct2]
  note t17 = t16 [THEN conjunct2]
  note t18 = t17 [THEN conjunct2]
  note t19 = t18 [THEN conjunct2]
  note c1 = t0 [THEN conjunct1, rule_format]
  note c2 = t1 [THEN conjunct1, rule_format]
  note c3 = t2 [THEN conjunct1, rule_format]
  note c4 = t3 [THEN conjunct1, rule_format]
  note c5 = t4 [THEN conjunct1, rule_format]
  note c6 = t5 [THEN conjunct1, rule_format]
  note c7 = t6 [THEN conjunct1, rule_format]
  note c8 = t7 [THEN conjunct1, rule_format]
  note c9 = t8 [THEN conjunct1, rule_format]
  note c10 = t9 [THEN conjunct1, rule_format]
  note c11 = t10 [THEN conjunct1, rule_format]
  note c12 = t11 [THEN conjunct1, rule_format]
  note c13 = t12 [THEN conjunct1, rule_format]
  note c14 = t13 [THEN conjunct1, rule_format]
  note c15 = t14 [THEN conjunct1, rule_format]
  note c16 = t15 [THEN conjunct1, rule_format]
  note c17 = t16 [THEN conjunct1, rule_format]
  note c18 = t17 [THEN conjunct1, rule_format]
  note c19 = t18 [THEN conjunct1, rule_format]
  note c20 = t19 [rule_format]
  have f: "next_fault (repository ?Q) = Some ?e"
    by (simp add: example_faulty_queue_def new_Queue_def next_fault_def)
  have w: "waitingRequests ?Q ''T'' = None"
    by (simp add: example_faulty_queue_def new_Queue_def)
  have w': "waitingRequests ?Q ''T'' = None \<or> waitingRequests ?Q ''T'' = Some []"
    using w by simp
  note n = c9 [OF f]
  from n [of "''J1''"] obtain q1 where 1: "Queue_findJob ''J1'' ?Q = (Inl ?e, q1)"
    by (blast dest: fst_eq_obtain)
  from n [of _ None] obtain q2 where 2: "Queue_listJobs None ?Q = (Inl ?e, q2)"
    by (blast dest: fst_eq_obtain)
  from n [of "''J1''"] obtain q3 where 3: "Queue_removeJobById ''J1'' ?Q = (Inl ?e, q3)"
    by (blast dest: fst_eq_obtain)
  from n [of _ _ example_callback]
  obtain q4 where 4: "Queue_removeJobsByCallback example_callback ?Q = (Inl ?e, q4)"
    by (blast dest: fst_eq_obtain)
  from n [of _ _ _ _ "''T''" "\<lambda>h. h"] w'
  obtain q5 where 5: "Queue_requestJobForProcessing ''T'' (\<lambda>h. h) ?Q = (Inl ?e, q5)"
    by (blast dest: fst_eq_obtain)
  from n [of _ _ _ ?N] obtain q6 where 6: "Queue_addJob ?N ?Q = (Inl ?e, q6)"
    by (blast dest: fst_eq_obtain)
  from n [of _ _ _ ?J] obtain q7 where 7: "Queue_updateJob ?J ?Q = (Inl ?e, q7)"
    by (blast dest: fst_eq_obtain)
  from n [of _ _ _ ?J] obtain q8 where 8: "Queue_removeJob ?J ?Q = (Inl ?e, q8)"
    by (blast dest: fst_eq_obtain)
  have a1: "emits_error ?Q ?e None q1" using 1 by (rule c1)
  have a2: "emits_error ?Q ?e None q2" using 2 by (rule c2)
  have ff: "fst (JobRepository_findJob ''J1'' (repository ?Q)) = Inl ?e"
    using f by (rule next_fault_repository_calls)
  have a3: "emits_error ?Q ?e None q3" using c3 [OF 3] ff by auto
  have fl: "fst (JobRepository_listJobs None (repository ?Q)) = Inl ?e"
    using f by (rule next_fault_repository_calls)
  have a4: "emits_error ?Q ?e None q4" using c4 [OF 4] fl by auto
  have a5: "emits_error ?Q ?e None q5" using 5 by (rule c5)
  have a6: "emits_error ?Q ?e (Some ?N) q6" using 6 by (rule c6)
  have a7: "emits_error ?Q ?e (Some ?J) q7" using 7 by (rule c7)
  have a8: "emits_error ?Q ?e (Some ?J) q8" using 8 by (rule c8)
  from ff obtain r1 where g1: "JobRepository_findJob ''J1'' (repository ?Q) = (Inl ?e, r1)"
    by (blast dest: fst_eq_obtain)
  note h1 = c10 [OF g1]
  from fl obtain r2 where g2: "JobRepository_listJobs None (repository ?Q) = (Inl ?e, r2)"
    by (blast dest: fst_eq_obtain)
  note h2 = c11 [OF g2] c12 [OF g2, of example_callback]
  have "fst (JobRepository_updateJob ?J (repository ?Q)) = Inl ?e"
    using f by (rule next_fault_repository_calls)
  then obtain r3 where g3: "JobRepository_updateJob ?J (repository ?Q) = (Inl ?e, r3)"
    by (blast dest: fst_eq_obtain)
  note h3 = c13 [OF g3]
  have "fst (JobRepository_removeJob (job_id ?J) (repository ?Q)) = Inl ?e"
    using f by (rule next_fault_repository_calls)
  then obtain r4 where g4: "JobRepository_removeJob (job_id ?J) (repository ?Q) = (Inl ?e, r4)"
    by (blast dest: fst_eq_obtain)
  note h4 = c14 [OF g4]
  have "fst (JobRepository_addJob ?N (repository ?Q)) = Inl ?e"
    using f by (rule next_fault_repository_calls)
  then obtain r5 where g5: "JobRepository_addJob ?N (repository ?Q) = (Inl ?e, r5)"
    by (blast dest: fst_eq_obtain)
  note h5 = c15 [OF g5]
  have "fst (JobRepository_findInactiveJobByType ''T'' (repository ?Q)) = Inl ?e"
    using f by (rule next_fault_repository_calls)
  then obtain r6 where g6: "JobRepository_findInactiveJobByType ''T'' (repository ?Q) = (Inl ?e, r6)"
    by (blast dest: fst_eq_obtain)
  have h6: "Queue_requestJobForProcessing ''T'' (\<lambda>h. h) ?Q
              = (Inl ?e, ?Q\<lparr>repository := r6, emitted := emitted ?Q @ [ErrorEvent ?e None],
                            mutex_log := mutex_log ?Q @ [Acquire, Release]\<rparr>)"
    using w' g6 by (intro c17) simp
  \<comment> \<open>addJob: the insertion succeeds, the activation of the job handed over fails\<close>
  let ?W = "example_waiting_faulty_queue"
  let ?rw = "\<lparr> docs = [insertDoc ?N], faults = [Some ?e], oplog = [OpInsert] \<rparr>"
  let ?w1 = "\<lparr>promise = 1, stillRequest = (\<lambda>h::bool. h)\<rparr>"
  let ?rest = "[\<lparr>promise = 2, stillRequest = (\<lambda>h::bool. h)\<rparr>]"
  let ?qw0 = "?W\<lparr>repository := ?rw,
               waitingRequests := (waitingRequests ?W)(job_type ?N \<mapsto> ?rest)\<rparr>"
  let ?qw1 = "?qw0\<lparr>warned := warned ?qw0 @ snd (sanitizePriority (doc_priority (insertDoc ?N)))\<rparr>"
  have ins: "JobRepository_addJob ?N (repository ?W) = (Inr (insertDoc ?N), ?rw)"
    by (simp add: JobRepository_addJob_def store_call_def example_waiting_faulty_queue_def
        new_Queue_def)
  have wr: "waitingRequests ?W (job_type ?N) = Some example_waiting"
    by (simp add: example_waiting_faulty_queue_def example_job_def doc_to_job_def example_doc_def)
  have sh: "shift_requests (host ?W) example_waiting = (Some ?w1, ?rest)"
    by (simp add: example_waiting_def example_waiting_faulty_queue_def new_Queue_def)
  have cvw: "convertNeDbJobToJob (insertDoc ?N) ?qw0 = (doc_to_job (insertDoc ?N), ?qw1)"
    by (rule convertNeDbJobToJob_eq)
  have "fst (Job_setStateToActive (doc_to_job (insertDoc ?N)) ?qw1) = Inl ?e"
    by (simp add: Job_setStateToActive_def new_Date_def Job_update_def Queue_updateJob_def
        catch_emit_def JobRepository_updateJob_def store_call_def doc_to_job_def insertDoc_def
        example_job_def example_doc_def)
  then obtain qw2 where actw: "Job_setStateToActive (doc_to_job (insertDoc ?N)) ?qw1 = (Inl ?e, qw2)"
    by (blast dest: fst_eq_obtain)
  have k1: "Queue_addJob ?N ?W = (Inl ?e, emit (ErrorEvent ?e (Some ?N)) qw2)"
    by (rule c16 [where neDbJob = "insertDoc ?N" and r = ?rw
            and ws = example_waiting and w = ?w1 and rest = ?rest
            and cjob = "doc_to_job (insertDoc ?N)" and ?q1.0 = ?qw1])
       (simp only: ins wr sh cvw actw simp_thms)
  \<comment> \<open>requestJobForProcessing: the find succeeds, the activation fails\<close>
  let ?U = "example_failing_update_queue"
  let ?ru = "\<lparr> docs = scenario_S1, faults = [Some ?e], oplog = [OpFind] \<rparr>"
  let ?qu0 = "?U\<lparr>mutex_log := mutex_log ?U @ [Acquire], repository := ?ru\<rparr>"
  let ?qu1 = "?qu0\<lparr>warned := warned ?qu0 @ snd (sanitizePriority (doc_priority ?J1))\<rparr>"
  have wu: "waitingRequests ?U ''T'' = None"
    by (simp add: example_failing_update_queue_def new_Queue_def)
  have wu': "waitingRequests ?U ''T'' = None \<or> waitingRequests ?U ''T'' = Some []"
    using wu by simp
  have fu: "JobRepository_findInactiveJobByType ''T'' (repository ?U) = (Inr (Some ?J1), ?ru)"
    by (simp add: JobRepository_findInactiveJobByType_def store_call_def
        example_failing_update_queue_def new_Queue_def scenario_S1_def example_doc_def
        db_sort_def compareThings_def Priority_HIGH_def Priority_NORMAL_def)
  have su: "(\<lambda>h. h) (host ?U)"
    by (simp add: example_failing_update_queue_def new_Queue_def)
  have cvu: "convertNeDbJobToJob ?J1 ?qu0 = (doc_to_job ?J1, ?qu1)"
    by (rule convertNeDbJobToJob_eq)
  have "fst (Job_setStateToActive (doc_to_job ?J1) ?qu1) = Inl ?e"
    by (simp add: Job_setStateToActive_def new_Date_def Job_update_def Queue_updateJob_def
        catch_emit_def JobRepository_updateJob_def store_call_def doc_to_job_def
        example_doc_def)
  then obtain qu2 where actu: "Job_setStateToActive (doc_to_job ?J1) ?qu1 = (Inl ?e, qu2)"
    by (blast dest: fst_eq_obtain)
  have k2: "Queue_requestJobForProcessing ''T'' (\<lambda>h. h) ?U
              = (Inl ?e, qu2\<lparr>emitted := emitted qu2 @ [ErrorEvent ?e None],
                             mutex_log := mutex_log qu2 @ [Release]\<rparr>)"
    by (rule c18 [where neDbJob = ?J1 and r = ?ru and cjob = "doc_to_job ?J1"
                    and ?q1.0 = ?qu1])
       (simp only: wu fu su cvu actu simp_thms)
  \<comment> \<open>removeJobById: the find succeeds, the removal fails\<close>
  let ?rv = "\<lparr> docs = scenario_S1, faults = [Some ?e], oplog = [OpFindOne] \<rparr>"
  let ?qv0 = "?U\<lparr>repository := ?rv\<rparr>"
  let ?qv1 = "?qv0\<lparr>warned := warned ?qv0 @ snd (sanitizePriority (doc_priority ?J1))\<rparr>"
  have fv: "JobRepository_findJob ''J1'' (repository ?U) = (Inr (Some ?J1), ?rv)"
    by (simp add: JobRepository_findJob_def store_call_def
        example_failing_update_queue_def new_Queue_def scenario_S1_def example_doc_def)
  have cvv: "convertNeDbJobToJob ?J1 ?qv0 = (doc_to_job ?J1, ?qv1)"
    by (rule convertNeDbJobToJob_eq)
  have "fst (Job_remove (doc_to_job ?J1) ?qv1) = Inl ?e"
    by (simp add: Job_remove_def Queue_removeJob_def
        catch_emit_def JobRepository_removeJob_def store_call_def doc_to_job_def)
  then obtain qv2 where rmv: "Job_remove (doc_to_job ?J1) ?qv1 = (Inl ?e, qv2)"
    by (blast dest: fst_eq_obtain)
  have k3: "Queue_removeJobById ''J1'' ?U
              = (Inl ?e, emit (ErrorEvent ?e (Some (doc_to_job ?J1))) qv2)"
    by (rule c19 [where neDbJob = ?J1 and r = ?rv and ?q1.0 = ?qv1])
       (simp only: fv cvv rmv simp_thms)
  \<comment> \<open>removeJobsByCallback: the callback throws on J3 after J1 was removed\<close>
  let ?S = "example_queue (example_repo scenario_S1) True"
  let ?rs = "\<lparr> docs = scenario_S1, faults = [], oplog = [OpFind] \<rparr>"
  have ls: "JobRepository_listJobs None (repository ?S) = (Inr ([?J1, ?J2] @ ?J3 # []), ?rs)"
    by (simp add: JobRepository_listJobs_def store_call_def example_queue_def new_Queue_def
        example_repo_def scenario_S1_def example_doc_def db_sort_def compareThings_def)
  have "fst (remove_loop example_callback [?J1, ?J2] [] (?S\<lparr>repository := ?rs\<rparr>))
          = Inr [doc_to_job ?J1]"
    by (simp add: convertNeDbJobToJob_eq example_callback_def Job_remove_def Queue_removeJob_def
        catch_emit_def JobRepository_removeJob_def store_call_def doc_to_job_def example_doc_def)
  then obtain qs0 where lps:
    "remove_loop example_callback [?J1, ?J2] [] (?S\<lparr>repository := ?rs\<rparr>)
       = (Inr [doc_to_job ?J1], qs0)"
    by (blast dest: fst_eq_obtain)
  let ?qs1 = "qs0\<lparr>warned := warned qs0 @ snd (sanitizePriority (doc_priority ?J3))\<rparr>"
  have cvs: "convertNeDbJobToJob ?J3 qs0 = (doc_to_job ?J3, ?qs1)"
    by (rule convertNeDbJobToJob_eq)
  have cb: "example_callback (doc_to_job ?J3) = Inl (Err ''callback failed'')"
    by (simp add: example_callback_def doc_to_job_def example_doc_def)
  have k4: "Queue_removeJobsByCallback example_callback ?S
              = (Inl (Err ''callback failed''),
                 emit (ErrorEvent (Err ''callback failed'') (Some (doc_to_job ?J3))) ?qs1)"
    by (rule c20 [where pre = "[?J1, ?J2]" and neDbJob = ?J3 and post = "[]" and r = ?rs
                    and removedJobs = "[doc_to_job ?J1]" and ?q0.0 = qs0 and ?q1.0 = ?qs1])
       (simp only: ls lps cvs cb simp_thms)
  \<comment> \<open>removeJobsByCallback: the removal of J2 fails after J1 was removed\<close>
  let ?F = "example_failing_removal_queue"
  let ?rf = "\<lparr> docs = scenario_S1, faults = [None, Some ?e], oplog = [OpFind] \<rparr>"
  have lf: "JobRepository_listJobs None (repository ?F) = (Inr ([?J1] @ ?J2 # [?J3]), ?rf)"
    by (simp add: JobRepository_listJobs_def store_call_def example_failing_removal_queue_def
        new_Queue_def scenario_S1_def example_doc_def db_sort_def compareThings_def)
  have "fst (remove_loop example_select_all [?J1] [] (?F\<lparr>repository := ?rf\<rparr>))
          = Inr [doc_to_job ?J1]
        \<and> next_fault (repository (snd (remove_loop example_select_all [?J1] []
                                           (?F\<lparr>repository := ?rf\<rparr>)))) = Some ?e"
    by (simp add: convertNeDbJobToJob_eq example_select_all_def Job_remove_def
        Queue_removeJob_def catch_emit_def JobRepository_removeJob_def store_call_def
        doc_to_job_def example_doc_def next_fault_def)
  then obtain qf0 where lpf:
    "remove_loop example_select_all [?J1] [] (?F\<lparr>repository := ?rf\<rparr>)
       = (Inr [doc_to_job ?J1], qf0)"
    and nf: "next_fault (repository qf0) = Some ?e"
    by (cases "remove_loop example_select_all [?J1] [] (?F\<lparr>repository := ?rf\<rparr>)") auto
  let ?qf1 = "qf0\<lparr>warned := warned qf0 @ snd (sanitizePriority (doc_priority ?J2))\<rparr>"
  have cvf: "convertNeDbJobToJob ?J2 qf0 = (doc_to_job ?J2, ?qf1)"
    by (rule convertNeDbJobToJob_eq)
  have sa: "example_select_all (doc_to_job ?J2) = Inr True"
    by (simp add: example_select_all_def)
  have "fst (Job_remove (doc_to_job ?J2) ?qf1) = Inl ?e"
    using nf
    by (simp add: Job_remove_def Queue_removeJob_def catch_emit_def JobRepository_removeJob_def
        store_call_eq doc_to_job_def)
  then obtain qf2 where rmf: "Job_remove (doc_to_job ?J2) ?qf1 = (Inl ?e, qf2)"
    by (blast dest: fst_eq_obtain)
  have k5: "Queue_removeJobsByCallback example_select_all ?F
              = (Inl ?e, emit (ErrorEvent ?e (Some (doc_to_job ?J2))) qf2)"
    by (rule c20 [where pre = "[?J1]" and neDbJob = ?J2 and post = "[?J3]" and r = ?rf
                    and removedJobs = "[doc_to_job ?J1]" and ?q0.0 = qf0 and ?q1.0 = ?qf1])
       (simp only: lf lpf cvf sa rmf simp_thms)
  have p1: "\<exists>q'. Queue_findJob ''J1'' ?Q = (Inl ?e, q') \<and> emits_error ?Q ?e None q'"
    using 1 a1 by blast
  have p2: "\<exists>q'. Queue_listJobs None ?Q = (Inl ?e, q') \<and> emits_error ?Q ?e None q'"
    using 2 a2 by blast
  have p3: "\<exists>q'. Queue_removeJobById ''J1'' ?Q = (Inl ?e, q') \<and> emits_error ?Q ?e None q'"
    using 3 a3 by blast
  have p4: "\<exists>q'. Queue_removeJobsByCallback example_callback ?Q = (Inl ?e, q')
                 \<and> emits_error ?Q ?e None q'"
    using 4 a4 by blast
  have p5: "\<exists>q'. Queue_requestJobForProcessing ''T'' (\<lambda>h. h) ?Q = (Inl ?e, q')
                 \<and> emits_error ?Q ?e None q'"
    using 5 a5 by blast
  have p6: "\<exists>q'. Queue_addJob ?N ?Q = (Inl ?e, q') \<and> emits_error ?Q ?e (Some ?N) q'"
    using 6 a6 by blast
  have p7: "\<exists>q'. Queue_updateJob ?J ?Q = (Inl ?e, q') \<and> emits_error ?Q ?e (Some ?J) q'"
    using 7 a7 by blast
  have p8: "\<exists>q'. Queue_removeJob ?J ?Q = (Inl ?e, q') \<and> emits_error ?Q ?e (Some ?J) q'"
    using 8 a8 by blast
  have p9: "\<exists>r. JobRepository_findJob ''J1'' (repository ?Q) = (Inl ?e, r)
          \<and> Queue_findJob ''J1'' ?Q = (Inl ?e, emit (ErrorEvent ?e None) (?Q\<lparr>repository := r\<rparr>))
          \<and> Queue_removeJobById ''J1'' ?Q
              = (Inl ?e, emit (ErrorEvent ?e None) (?Q\<lparr>repository := r\<rparr>))"
    using g1 h1 by blast
  have p10: "\<exists>r. JobRepository_listJobs None (repository ?Q) = (Inl ?e, r)
          \<and> Queue_listJobs None ?Q = (Inl ?e, emit (ErrorEvent ?e None) (?Q\<lparr>repository := r\<rparr>))
          \<and> Queue_removeJobsByCallback example_callback ?Q
              = (Inl ?e, emit (ErrorEvent ?e None) (?Q\<lparr>repository := r\<rparr>))"
    using g2 h2 by blast
  have p11: "\<exists>r. JobRepository_updateJob ?J (repository ?Q) = (Inl ?e, r)
          \<and> Queue_updateJob ?J ?Q
              = (Inl ?e, emit (ErrorEvent ?e (Some ?J)) (?Q\<lparr>repository := r\<rparr>))"
    using g3 h3 by blast
  have p12: "\<exists>r. JobRepository_removeJob (job_id ?J) (repository ?Q) = (Inl ?e, r)
          \<and> Queue_removeJob ?J ?Q
              = (Inl ?e, emit (ErrorEvent ?e (Some ?J)) (?Q\<lparr>repository := r\<rparr>))"
    using g4 h4 by blast
  have p13: "\<exists>r. JobRepository_addJob ?N (repository ?Q) = (Inl ?e, r)
          \<and> Queue_addJob ?N ?Q
              = (Inl ?e, emit (ErrorEvent ?e (Some ?N)) (?Q\<lparr>repository := r\<rparr>))"
    using g5 h5 by blast
  have p14: "\<exists>r. JobRepository_findInactiveJobByType ''T'' (repository ?Q) = (Inl ?e, r)
          \<and> Queue_requestJobForProcessing ''T'' (\<lambda>h. h) ?Q
              = (Inl ?e, ?Q\<lparr>repository := r, emitted := emitted ?Q @ [ErrorEvent ?e None],
                            mutex_log := mutex_log ?Q @ [Acquire, Release]\<rparr>)"
    using g6 h6 by blast
  have p15: "\<exists>r q1 q2.
          JobRepository_addJob ?N (repository ?W) = (Inr (insertDoc ?N), r)
          \<and> shift_requests (host ?W) example_waiting = (Some ?w1, ?rest)
          \<and> Job_setStateToActive (doc_to_job (insertDoc ?N)) q1 = (Inl ?e, q2)
          \<and> Queue_addJob ?N ?W = (Inl ?e, emit (ErrorEvent ?e (Some ?N)) q2)"
    using ins sh actw k1 by blast
  have p16: "\<exists>r q1 q2.
          JobRepository_findInactiveJobByType ''T'' (repository ?U) = (Inr (Some ?J1), r)
          \<and> Job_setStateToActive (doc_to_job ?J1) q1 = (Inl ?e, q2)
          \<and> Queue_requestJobForProcessing ''T'' (\<lambda>h. h) ?U
              = (Inl ?e, q2\<lparr>emitted := emitted q2 @ [ErrorEvent ?e None],
                            mutex_log := mutex_log q2 @ [Release]\<rparr>)"
    using fu actu k2 by blast
  have p17: "\<exists>r q1 q2.
          JobRepository_findJob ''J1'' (repository ?U) = (Inr (Some ?J1), r)
          \<and> Job_remove (doc_to_job ?J1) q1 = (Inl ?e, q2)
          \<and> Queue_removeJobById ''J1'' ?U
              = (Inl ?e, emit (ErrorEvent ?e (Some (doc_to_job ?J1))) q2)"
    using fv rmv k3 by blast
  have p18: "\<exists>r q1.
          JobRepository_listJobs None (repository ?S) = (Inr ([?J1, ?J2] @ ?J3 # []), r)
          \<and> example_callback (doc_to_job ?J3) = Inl (Err ''callback failed'')
          \<and> Queue_removeJobsByCallback example_callback ?S
              = (Inl (Err ''callback failed''),
                 emit (ErrorEvent (Err ''callback failed'') (Some (doc_to_job ?J3))) q1)"
    using ls cb k4 by blast
  have p19: "\<exists>r q1 q2.
          JobRepository_listJobs None (repository ?F) = (Inr ([?J1] @ ?J2 # [?J3]), r)
          \<and> Job_remove (doc_to_job ?J2) q1 = (Inl ?e, q2)
          \<and> Queue_removeJobsByCallback example_select_all ?F
              = (Inl ?e, emit (ErrorEvent ?e (Some (doc_to_job ?J2))) q2)"
    using lf rmf k5 by blast
  show ?thesis
    by (intro conjI f w wu p1 p2 p3 p4 p5 p6 p7 p8 p9 p10 p11 p12 p13 p14 p15 p16 p17 p18 p19)
qed

section \<open>C10: a removal by callback that fails part-way\<close>

lemma db_remove_distinct:
  "distinct (map doc_id ds) \<Longrightarrow>
   snd (db_remove (\<lambda>y. doc_id y = i) ds) = filter (\<lambda>y. doc_id y \<noteq> i) ds"
proof (induction ds)
  case Nil
  then show ?case by simp
next
  case (Cons a ds)
  show ?case
  proof (cases "doc_id a = i")
    case True
    with Cons.prems have "\<forall>y\<in>set ds. doc_id y \<noteq> i" by (auto simp: image_iff)
    then have "filter (\<lambda>y. doc_id y \<noteq> i) ds = ds" by (induction ds) auto
    with True show ?thesis by simp
  next
    case False
    with Cons show ?thesis by simp
  qed
qed

lemma next_fault_at: "next_fault r = fault_at r 0"
  by (cases "faults r") (simp_all add: next_fault_def fault_at_def)

lemma fault_at_after_call: "fault_at (after_call op r) i = fault_at r (Suc i)"
  by (cases "faults r") (simp_all add: fault_at_def after_call_def)

lemma fault_at_docs [simp]: "fault_at (r\<lparr>docs := ds\<rparr>) i = fault_at r i"
  by (simp add: fault_at_def)

lemma Job_remove_ok:
  assumes "fault_at (repository q) 0 = None" and "distinct (map doc_id (docs (repository q)))"
  shows "Job_remove (doc_to_job d) q =
           (Inr (), q\<lparr>repository := (after_call OpRemove (repository q))
                       \<lparr>docs := filter (\<lambda>y. doc_id y \<noteq> doc_id d) (docs (repository q))\<rparr>\<rparr>)"
  using assms db_remove_distinct [OF assms(2), of "doc_id d"]
  by (simp add: Job_remove_def Queue_removeJob_def catch_emit_def JobRepository_removeJob_def
      store_call_eq next_fault_at doc_to_job_def)

lemma Job_remove_fails:
  assumes "fault_at (repository q) 0 = Some e"
  shows "Job_remove (doc_to_job d) q =
           (Inl e, q\<lparr>repository := after_call OpRemove (repository q),
                     emitted := emitted q @ [ErrorEvent e (Some (doc_to_job d))]\<rparr>)"
  using assms
  by (simp add: Job_remove_def Queue_removeJob_def catch_emit_def JobRepository_removeJob_def
      store_call_eq next_fault_at doc_to_job_def emit_def)

lemma remove_loop_prefix:
  assumes "\<forall>x\<in>set pre. \<exists>b. callback (doc_to_job x) = Inr b"
    and "\<forall>i < length (filter (selected callback) pre). fault_at (repository q) i = None"
    and "distinct (map doc_id (docs (repository q)))"
  shows "\<exists>q1. remove_loop callback (pre @ rest) acc q
                = remove_loop callback rest (acc @ map doc_to_job (filter (selected callback) pre)) q1
           \<and> docs (repository q1)
                = filter (\<lambda>y. doc_id y \<notin> doc_id ` set (filter (selected callback) pre))
                    (docs (repository q))
           \<and> (\<forall>i. fault_at (repository q1) i
                    = fault_at (repository q) (length (filter (selected callback) pre) + i))
           \<and> emitted q1 = emitted q"
  using assms
proof (induction pre arbitrary: q acc)
  case Nil
  then show ?case by (intro exI [of _ q]) simp
next
  case (Cons x pre)
  let ?qw = "q\<lparr>warned := warned q @ snd (sanitizePriority (doc_priority x))\<rparr>"
  let ?k = "length (filter (selected callback) pre)"
  from Cons.prems(1) obtain b where b: "callback (doc_to_job x) = Inr b" by auto
  show ?case
  proof (cases b)
    case False
    with b have ns: "\<not> selected callback x" by (simp add: selected_def)
    from Cons.prems ns have
      "\<exists>q1. remove_loop callback (pre @ rest) acc ?qw
                = remove_loop callback rest (acc @ map doc_to_job (filter (selected callback) pre)) q1
           \<and> docs (repository q1)
                = filter (\<lambda>y. doc_id y \<notin> doc_id ` set (filter (selected callback) pre))
                    (docs (repository ?qw))
           \<and> (\<forall>i. fault_at (repository q1) i = fault_at (repository ?qw) (?k + i))
           \<and> emitted q1 = emitted ?qw"
      by (intro Cons.IH) simp_all
    with b False ns show ?thesis by (simp add: convertNeDbJobToJob_eq)
  next
    case True
    with b have s: "selected callback x" by (simp add: selected_def)
    let ?q2 = "?qw\<lparr>repository := (after_call OpRemove (repository ?qw))
                       \<lparr>docs := filter (\<lambda>y. doc_id y \<noteq> doc_id x) (docs (repository ?qw))\<rparr>\<rparr>"
    from Cons.prems(2) s have f0: "fault_at (repository ?qw) 0 = None"
      and fk: "\<forall>i < ?k. fault_at (repository q) (Suc i) = None"
      by auto
    from Cons.prems(3) have dq: "distinct (map doc_id (docs (repository ?qw)))" by simp
    have rm: "Job_remove (doc_to_job x) ?qw = (Inr (), ?q2)"
      using f0 dq by (rule Job_remove_ok)
    have "\<exists>q1. remove_loop callback (pre @ rest) (acc @ [doc_to_job x]) ?q2
                = remove_loop callback rest
                    ((acc @ [doc_to_job x]) @ map doc_to_job (filter (selected callback) pre)) q1
           \<and> docs (repository q1)
                = filter (\<lambda>y. doc_id y \<notin> doc_id ` set (filter (selected callback) pre))
                    (docs (repository ?q2))
           \<and> (\<forall>i. fault_at (repository q1) i = fault_at (repository ?q2) (?k + i))
           \<and> emitted q1 = emitted ?q2"
      using Cons.prems(1,3) fk
      by (intro Cons.IH) (simp_all add: distinct_map_filter fault_at_after_call)
    then obtain q1 where q1:
      "remove_loop callback (pre @ rest) (acc @ [doc_to_job x]) ?q2
         = remove_loop callback rest
             ((acc @ [doc_to_job x]) @ map doc_to_job (filter (selected callback) pre)) q1"
      "docs (repository q1)
         = filter (\<lambda>y. doc_id y \<notin> doc_id ` set (filter (selected callback) pre))
             (docs (repository ?q2))"
      "\<forall>i. fault_at (repository q1) i = fault_at (repository ?q2) (?k + i)"
      "emitted q1 = emitted ?q2"
      by blast
    have d: "docs (repository q1)
              = filter (\<lambda>y. doc_id y \<notin> doc_id ` set (filter (selected callback) (x # pre)))
                  (docs (repository q))"
      using q1(2) s by (auto intro: filter_cong)
    have fa: "\<forall>i. fault_at (repository q1) i
                  = fault_at (repository q) (length (filter (selected callback) (x # pre)) + i)"
      using q1(3) s by (simp add: fault_at_after_call)
    show ?thesis
      apply (rule exI [of _ q1])
      using b True rm q1(1) q1(4) d fa s
      by (simp add: convertNeDbJobToJob_eq)
  qed
qed

text \<open>
  C10. \<^verbatim>\<open>removeJobsByCallback\<close> on a store with distinct ids, whose listing is
  \<open>pre @ d # post\<close>. The callback answers on every job of \<open>pre\<close>, the listing and the
  removals of the selected jobs of \<open>pre\<close> succeed, and at \<open>d\<close> either the callback throws
  \<open>e\<close> or it selects \<open>d\<close> and the removal of \<open>d\<close> fails with \<open>e\<close>. Then the call raises
  \<open>e\<close> (so it returns no list of removed jobs), its last event is the Error event with
  \<open>e\<close> and the job of \<open>d\<close>, and the store holds the documents it held except those
  selected in \<open>pre\<close>: what was removed before the failure stays removed.
\<close>

theorem removeJobsByCallback_not_atomic:
  assumes dist: "distinct (map doc_id (docs (repository q)))"
    and snap: "db_sort [(doc_createdAt, 1)] (docs (repository q)) = pre @ d # post"
    and ok: "\<forall>x\<in>set pre. \<exists>b. callback (doc_to_job x) = Inr b"
    and fl: "\<forall>i \<le> length (filter (selected callback) pre). fault_at (repository q) i = None"
    and fail: "callback (doc_to_job d) = Inl e
               \<or> (callback (doc_to_job d) = Inr True
                   \<and> fault_at (repository q) (Suc (length (filter (selected callback) pre)))
                       = Some e)"
  shows "\<exists>q'. Queue_removeJobsByCallback callback q = (Inl e, q')
           \<and> docs (repository q')
                = filter (\<lambda>y. doc_id y \<notin> doc_id ` set (filter (selected callback) pre))
                    (docs (repository q))
           \<and> emits_error q e (Some (doc_to_job d)) q'"
proof -
  let ?k = "length (filter (selected callback) pre)"
  let ?r0 = "after_call OpFind (repository q)"
  let ?q0 = "q\<lparr>repository := ?r0\<rparr>"
  from fl have f0: "next_fault (repository q) = None" by (simp add: next_fault_at)
  have l: "JobRepository_listJobs None (repository q) = (Inr (pre @ d # post), ?r0)"
    using f0 snap by (simp add: JobRepository_listJobs_def store_call_eq)
  have "\<exists>q1. remove_loop callback (pre @ d # post) [] ?q0
                = remove_loop callback (d # post)
                    ([] @ map doc_to_job (filter (selected callback) pre)) q1
           \<and> docs (repository q1)
                = filter (\<lambda>y. doc_id y \<notin> doc_id ` set (filter (selected callback) pre))
                    (docs (repository ?q0))
           \<and> (\<forall>i. fault_at (repository q1) i = fault_at (repository ?q0) (?k + i))
           \<and> emitted q1 = emitted ?q0"
    using ok dist fl by (intro remove_loop_prefix) (simp_all add: fault_at_after_call)
  then obtain q1 where q1:
    "remove_loop callback (pre @ d # post) [] ?q0
       = remove_loop callback (d # post) (map doc_to_job (filter (selected callback) pre)) q1"
    "docs (repository q1)
       = filter (\<lambda>y. doc_id y \<notin> doc_id ` set (filter (selected callback) pre))
           (docs (repository q))"
    "\<forall>i. fault_at (repository q1) i = fault_at (repository q) (Suc (?k + i))"
    "emitted q1 = emitted q"
    by (auto simp: fault_at_after_call)
  let ?qw = "q1\<lparr>warned := warned q1 @ snd (sanitizePriority (doc_priority d))\<rparr>"
  from fail have "\<exists>q2. remove_loop callback (d # post)
                         (map doc_to_job (filter (selected callback) pre)) q1
                        = (Inl (e, Some (doc_to_job d)), q2)
                    \<and> docs (repository q2) = docs (repository q1)
                    \<and> extends q1 q2"
  proof
    assume "callback (doc_to_job d) = Inl e"
    then show ?thesis by (simp add: convertNeDbJobToJob_eq)
  next
    assume a: "callback (doc_to_job d) = Inr True
                 \<and> fault_at (repository q) (Suc ?k) = Some e"
    with q1(3) have "fault_at (repository ?qw) 0 = Some e" by simp
    from Job_remove_fails [OF this, of d] a show ?thesis
      by (simp add: convertNeDbJobToJob_eq extends_iff)
  qed
  then obtain q2 where q2:
    "remove_loop callback (d # post) (map doc_to_job (filter (selected callback) pre)) q1
       = (Inl (e, Some (doc_to_job d)), q2)"
    "docs (repository q2) = docs (repository q1)" "extends q1 q2"
    by blast
  from q1(4) have "extends q q1" by (simp add: extends_same)
  with q2(3) have e2: "extends q q2" by (rule extends_trans [rotated])
  have res: "Queue_removeJobsByCallback callback q
               = (Inl e, emit (ErrorEvent e (Some (doc_to_job d))) q2)"
    using l q1(1) q2(1) by (simp add: Queue_removeJobsByCallback_def)
  show ?thesis
    apply (rule exI [of _ "emit (ErrorEvent e (Some (doc_to_job d))) q2"])
    using res q2(2) q1(2) extends_emit [OF e2, of e "Some (doc_to_job d)"]
    by (simp add: emit_def)
qed


lemma S1_sorted:
  "db_sort [(doc_createdAt, 1)] scenario_S1
     = [example_doc ''J1'' ''T'' Priority_NORMAL 1 INACTIVE,
        example_doc ''J2'' ''T'' Priority_HIGH 2 INACTIVE]
       @ example_doc ''J3'' ''T'' Priority_NORMAL 3 INACTIVE # []"
  "db_sort [(doc_createdAt, 1)] scenario_S1
     = [example_doc ''J1'' ''T'' Priority_NORMAL 1 INACTIVE]
       @ example_doc ''J2'' ''T'' Priority_HIGH 2 INACTIVE
       # [example_doc ''J3'' ''T'' Priority_NORMAL 3 INACTIVE]"
  by (simp_all add: db_sort_def scenario_S1_def example_doc_def compareThings_def)

theorem removeJobsByCallback_not_atomic_witness:
  "distinct (map doc_id scenario_S1)
   \<and> example_callback (doc_to_job (example_doc ''J1'' ''T'' Priority_NORMAL 1 INACTIVE)) = Inr True
   \<and> example_callback (doc_to_job (example_doc ''J2'' ''T'' Priority_HIGH 2 INACTIVE)) = Inr False
   \<and> example_callback (doc_to_job (example_doc ''J3'' ''T'' Priority_NORMAL 3 INACTIVE))
        = Inl (Err ''callback failed'')
   \<and> faults (repository (example_queue (example_repo scenario_S1) True)) = []
   \<and> (\<exists>q'. Queue_removeJobsByCallback example_callback
               (example_queue (example_repo scenario_S1) True)
               = (Inl (Err ''callback failed''), q')
          \<and> docs (repository q')
               = [example_doc ''J2'' ''T'' Priority_HIGH 2 INACTIVE,
                  example_doc ''J3'' ''T'' Priority_NORMAL 3 INACTIVE]
          \<and> emits_error (example_queue (example_repo scenario_S1) True)
               (Err ''callback failed'')
               (Some (doc_to_job (example_doc ''J3'' ''T'' Priority_NORMAL 3 INACTIVE))) q')
   \<and> fault_at (repository example_failing_removal_queue) 2 = Some (Err ''EIO'')
   \<and> (\<exists>q'. Queue_removeJobsByCallback example_select_all example_failing_removal_queue
               = (Inl (Err ''EIO''), q')
          \<and> docs (repository q')
               = [example_doc ''J2'' ''T'' Priority_HIGH 2 INACTIVE,
                  example_doc ''J3'' ''T'' Priority_NORMAL 3 INACTIVE]
          \<and> emits_error example_failing_removal_queue (Err ''EIO'')
               (Some (doc_to_job (example_doc ''J2'' ''T'' Priority_HIGH 2 INACTIVE))) q')"
proof -
  let ?J1 = "example_doc ''J1'' ''T'' Priority_NORMAL 1 INACTIVE"
  let ?J2 = "example_doc ''J2'' ''T'' Priority_HIGH 2 INACTIVE"
  let ?J3 = "example_doc ''J3'' ''T'' Priority_NORMAL 3 INACTIVE"
  let ?Q = "example_queue (example_repo scenario_S1) True"
  let ?F = "example_failing_removal_queue"
  have dQ: "docs (repository ?Q) = scenario_S1" and fQ: "faults (repository ?Q) = []"
    by (simp_all add: example_queue_def new_Queue_def example_repo_def)
  have dF: "docs (repository ?F) = scenario_S1"
    and fF: "faults (repository ?F) = [None, None, Some (Err ''EIO'')]"
    by (simp_all add: example_failing_removal_queue_def new_Queue_def)
  have dist: "distinct (map doc_id scenario_S1)"
    by (simp add: scenario_S1_def example_doc_def)
  have c1: "example_callback (doc_to_job ?J1) = Inr True"
    and c2: "example_callback (doc_to_job ?J2) = Inr False"
    and c3: "example_callback (doc_to_job ?J3) = Inl (Err ''callback failed'')"
    by (simp_all add: example_callback_def doc_to_job_def example_doc_def)
  have sel1: "filter (selected example_callback) [?J1, ?J2] = [?J1]"
    using c1 c2 by (simp add: selected_def)
  have sel2: "filter (selected example_select_all) [?J1] = [?J1]"
    by (simp add: selected_def example_select_all_def)
  have keep: "filter (\<lambda>y. doc_id y \<notin> doc_id ` set [?J1]) scenario_S1 = [?J2, ?J3]"
    by (simp add: scenario_S1_def example_doc_def)
  have a: "\<exists>q'. Queue_removeJobsByCallback example_callback ?Q
                   = (Inl (Err ''callback failed''), q')
           \<and> docs (repository q')
                = filter (\<lambda>y. doc_id y \<notin> doc_id ` set (filter (selected example_callback) [?J1, ?J2]))
                    (docs (repository ?Q))
           \<and> emits_error ?Q (Err ''callback failed'') (Some (doc_to_job ?J3)) q'"
  proof (rule removeJobsByCallback_not_atomic [where post = "[]"])
    show "distinct (map doc_id (docs (repository ?Q)))" using dist dQ by simp
    show "db_sort [(doc_createdAt, 1)] (docs (repository ?Q)) = [?J1, ?J2] @ ?J3 # []"
      unfolding dQ by (rule S1_sorted(1))
    show "\<forall>x\<in>set [?J1, ?J2]. \<exists>b. example_callback (doc_to_job x) = Inr b"
      using c1 c2 by auto
    show "\<forall>i\<le>length (filter (selected example_callback) [?J1, ?J2]).
            fault_at (repository ?Q) i = None"
      using fQ by (simp add: fault_at_def)
    show "example_callback (doc_to_job ?J3) = Inl (Err ''callback failed'')
          \<or> (example_callback (doc_to_job ?J3) = Inr True
              \<and> fault_at (repository ?Q)
                   (Suc (length (filter (selected example_callback) [?J1, ?J2])))
                  = Some (Err ''callback failed''))"
      using c3 by simp
  qed
  have f2: "fault_at (repository ?F) 2 = Some (Err ''EIO'')"
    using fF by (simp add: fault_at_def)
  have b: "\<exists>q'. Queue_removeJobsByCallback example_select_all ?F = (Inl (Err ''EIO''), q')
           \<and> docs (repository q')
                = filter (\<lambda>y. doc_id y \<notin> doc_id ` set (filter (selected example_select_all) [?J1]))
                    (docs (repository ?F))
           \<and> emits_error ?F (Err ''EIO'') (Some (doc_to_job ?J2)) q'"
  proof (rule removeJobsByCallback_not_atomic [where post = "[?J3]"])
    show "distinct (map doc_id (docs (repository ?F)))" using dist dF by simp
    show "db_sort [(doc_createdAt, 1)] (docs (repository ?F)) = [?J1] @ ?J2 # [?J3]"
      unfolding dF by (rule S1_sorted(2))
    show "\<forall>x\<in>set [?J1]. \<exists>b. example_select_all (doc_to_job x) = Inr b"
      by (auto simp: example_select_all_def)
    show "\<forall>i\<le>length (filter (selected example_select_all) [?J1]).
            fault_at (repository ?F) i = None"
      unfolding sel2 using fF by (auto simp: fault_at_def le_Suc_eq)
    show "example_select_all (doc_to_job ?J2) = Inl (Err ''EIO'')
          \<or> (example_select_all (doc_to_job ?J2) = Inr True
              \<and> fault_at (repository ?F)
                   (Suc (length (filter (selected example_select_all) [?J1])))
                  = Some (Err ''EIO''))"
      unfolding sel2 using f2 by (simp add: example_select_all_def numeral_2_eq_2)
  qed
  from a b show ?thesis
    unfolding sel1 sel2 dQ dF keep using dist c1 c2 c3 fQ f2 by simp
qed

end
